(* ===== verification/Prelude.thy ===== *)
theory Prelude
  imports Main "HOL-Library.AList" "HOL-Library.List_Lexorder" "HOL-Library.Char_ord"
begin

text \<open>
  Shared vocabulary of the development: the named collections the component theories
  feed, the type names of the model, and the generic facts on association lists,
  option lists and sorted lists that the component proofs use.

  Go maps whose iteration order the code does not fix are association lists with
  distinct keys; Go strings are HOL strings, ordered lexicographically byte by byte
  (\<open>List_Lexorder\<close> over \<open>Char_ord\<close>), which is the order of Go's \<open>sort.Strings\<close>.
\<close>

named_theorems model_simps "equations that evaluate the model on concrete templates"
named_theorems walk_simps "characteristic equations of the statement walks"

type_synonym ident = string
type_synonym 'v alist = "(string \<times> 'v) list"

subsection \<open>Association lists\<close>

lemma alist_update_keys_distinct [intro]:
  "distinct (map fst al) \<Longrightarrow> distinct (map fst (AList.update k v al))"
  by (simp add: distinct_update)

lemma alist_update_keys_set [simp]:
  "fst ` set (AList.update k v al) = insert k (fst ` set al)"
  by (simp add: dom_update)

lemma alist_delete_keys_distinct [intro]:
  "distinct (map fst al) \<Longrightarrow> distinct (map fst (AList.delete k al))"
  by (simp add: distinct_delete)

lemma alist_delete_keys_set [simp]:
  "fst ` set (AList.delete k al) = fst ` set al - {k}"
  by (metis delete_keys set_removeAll set_map)

lemma fst_comp_map_snd [simp]: "fst \<circ> (\<lambda>(k, v). (k, f v)) = fst"
  by auto

lemma snd_comp_map_snd [simp]: "g \<circ> snd \<circ> (\<lambda>(k, v). (k, f v)) = g \<circ> f \<circ> snd"
  by auto

lemma map_of_map_snd:
  "map_of (map (\<lambda>(k, v). (k, f v)) al) k = map_option f (map_of al k)"
  by (induction al) auto

lemma map_of_fold_delete:
  "map_of (fold AList.delete ks al) k = (if k \<in> set ks then None else map_of al k)"
  by (induction ks arbitrary: al) (auto simp: delete_conv')

lemma map_of_fold_update:
  "distinct (map fst cs) \<Longrightarrow>
   map_of (fold (\<lambda>(k, v). AList.update k (f v)) cs al) k =
     (case map_of cs k of Some v \<Rightarrow> Some (f v) | None \<Rightarrow> map_of al k)"
proof (induction cs arbitrary: al)
  case (Cons c cs)
  obtain k0 v0 where c: "c = (k0, v0)" by fastforce
  have IH: "map_of (fold (\<lambda>(k, v). AList.update k (f v)) cs (AList.update k0 (f v0) al)) k =
      (case map_of cs k of Some v \<Rightarrow> Some (f v) | None \<Rightarrow> map_of (AList.update k0 (f v0) al) k)"
    using Cons by (simp add: c)
  have "k = k0 \<Longrightarrow> map_of cs k = None" using Cons.prems c by (simp add: map_of_eq_None_iff)
  then show ?case using IH c by (cases "k = k0") (simp_all add: update_conv split: option.split)
qed simp

lemma map_of_map_filter:
  "distinct (map fst al) \<Longrightarrow>
   map_of (List.map_filter (\<lambda>(k, v). map_option (Pair k) (g v)) al) k = Option.bind (map_of al k) g"
proof (induction al)
  case (Cons kv al)
  obtain k0 v0 where kv: "kv = (k0, v0)" by fastforce
  have "k0 \<notin> fst ` set al" using Cons.prems kv by simp
  then have "map_of al k0 = None" by (simp add: map_of_eq_None_iff)
  then show ?case using Cons kv
    by (cases "g v0") (auto simp: List.map_filter_def)
qed (simp add: List.map_filter_def)

lemma distinct_fold_update [intro]:
  "distinct (map fst al) \<Longrightarrow> distinct (map fst (fold (\<lambda>(k, v). AList.update k (f v)) cs al))"
  by (induction cs arbitrary: al) auto

lemma distinct_fold_delete [intro]:
  "distinct (map fst al) \<Longrightarrow> distinct (map fst (fold AList.delete ks al))"
  by (induction ks arbitrary: al) auto

subsection \<open>Lists\<close>

lemma concat_map_if_singleton [simp]:
  "concat (map (\<lambda>x. if P x then [x] else []) xs) = filter P xs"
  by (induction xs) auto

subsection \<open>Maps\<close>

lemma map_add_restrict_union [simp]: "f |` A ++ f |` B = f |` (A \<union> B)"
  by (rule ext) (auto simp: restrict_map_def map_add_def split: option.splits)

lemma fold_map_add_restrict:
  "fold (\<lambda>g m. m ++ g) (map (\<lambda>x. f |` A x) xs) m0 = m0 ++ f |` (\<Union>x \<in> set xs. A x)"
proof (induction xs arbitrary: m0)
  case Nil
  then show ?case by (simp add: restrict_map_def)
next
  case (Cons x xs)
  then show ?case by (simp add: map_add_assoc[symmetric] del: map_add_assoc)
qed

subsection \<open>Option lists\<close>

text \<open>\<open>all_some\<close> turns a list of optional values into a list of values when none is missing.\<close>

primrec all_some :: "'a option list \<Rightarrow> 'a list option" where
  "all_some [] = Some []"
| "all_some (x # xs) =
     (case x of None \<Rightarrow> None | Some y \<Rightarrow> map_option ((#) y) (all_some xs))"

lemma all_some_None_iff [simp]: "all_some xs = None \<longleftrightarrow> None \<in> set xs"
  by (induction xs) (auto split: option.splits)

lemma all_some_map_Some:
  "(\<And>x. x \<in> set xs \<Longrightarrow> f x = Some (g x)) \<Longrightarrow> all_some (map f xs) = Some (map g xs)"
  by (induction xs) auto

lemma all_some_length: "all_some xs = Some ys \<Longrightarrow> length ys = length xs"
  by (induction xs arbitrary: ys) (auto split: option.splits)

subsection \<open>Sorted, deduplicated lists\<close>

lemma sort_remdups_props [simp]:
  "sorted (sort (remdups xs))" "distinct (sort (remdups xs))"
  "set (sort (remdups xs)) = set xs"
  by simp_all

lemma sorted_distinct_unique:
  fixes xs ys :: "'a::linorder list"
  assumes "sorted xs" "distinct xs" "sorted ys" "distinct ys" "set xs = set ys"
  shows "xs = ys"
  using assms by (simp add: sorted_distinct_set_unique)

subsection \<open>Decimal printing\<close>

text \<open>Go's \<open>fmt.Sprint\<close> of an integer: its decimal digits, with a leading minus sign.\<close>

definition digit_char :: "nat \<Rightarrow> char" where
  "digit_char d = ''0123456789'' ! d"

fun string_of_nat :: "nat \<Rightarrow> string" where
  "string_of_nat n =
     (if n < 10 then [digit_char n]
      else string_of_nat (n div 10) @ [digit_char (n mod 10)])"

declare string_of_nat.simps [simp del]

definition string_of_int :: "int \<Rightarrow> string" where
  "string_of_int i =
     (if i < 0 then CHR ''-'' # string_of_nat (nat (- i)) else string_of_nat (nat i))"

lemma string_of_nat_nonempty [simp]: "string_of_nat n \<noteq> []"
  by (subst string_of_nat.simps) simp


subsection \<open>Values of association lists\<close>

lemma alist_update_vals: "snd ` set (AList.update k v al) \<subseteq> insert v (snd ` set al)"
  by (induction al) auto

lemma alist_delete_vals: "snd ` set (AList.delete k al) \<subseteq> snd ` set al"
  by (auto simp: AList.delete_eq)

lemma fold_delete_vals: "snd ` set (fold AList.delete ks al) \<subseteq> snd ` set al"
proof (induction ks arbitrary: al)
  case (Cons k ks)
  have "snd ` set (fold AList.delete ks (AList.delete k al)) \<subseteq> snd ` set al"
    by (rule subset_trans[OF Cons.IH alist_delete_vals])
  then show ?case by simp
qed simp

end
