(* ===== verification/Contract.thy ===== *)
theory Contract
  imports Prelude
begin

text \<open>
  The command registry contract (spec section 4.4). A Go command object is an
  \<open>interface{}\<close> that the passes and the runner probe for optional capabilities with type
  assertions (\<open>cmd.(VP)\<close>, \<open>cmd.(C)\<close>, \<open>cmd.(V)\<close>, \<open>cmd.(dryRunner)\<close>, the \<open>I\<close>,
  \<open>V\<close>, \<open>DR\<close>, \<open>R\<close>, \<open>AR\<close> interfaces of \<open>driver.go\<close>). The model is a record
  with one optional field per capability (\<open>None\<close>: the type assertion fails) and the
  object's own parameter fields, which \<open>Inject\<close> overwrites: a command object is
  mutable state. The catalogue of concrete commands is not under \<open>src/\<close> apart from a
  few of them (theory \<open>Aws_Spec\<close>); the contract is modelled from the spec.

  Values at the driver boundary are plain Go values (\<open>plain\<close>); \<open>nil\<close> is \<open>None\<close>.
  A Go pair \<open>(interface{}, error)\<close> is an \<open>outcome\<close>: both halves are returned, and
  a result may come with an error.
\<close>

datatype plain = PStr string | PInt int | PBool bool | PList "plain list"

type_synonym dparams = "plain alist"
type_synonym ctx = "string \<rightharpoonup> plain"
type_synonym outcome = "plain option \<times> string option"

record command =
  cmd_fields :: dparams
  cmd_validate_params :: "(string list \<Rightarrow> string list \<times> string option) option"
  cmd_convert_params :: "(string list \<times> (dparams \<Rightarrow> string + dparams)) option"
  cmd_validate_command :: "(dparams \<Rightarrow> string list \<Rightarrow> string list) option"
  cmd_inject :: "(dparams \<Rightarrow> dparams \<Rightarrow> string + dparams) option"
  cmd_validate :: "(dparams \<Rightarrow> string option) option"
  cmd_dry_run :: "(dparams \<Rightarrow> outcome) option"
  cmd_run :: "(dparams \<Rightarrow> outcome) option"
  cmd_after_run :: "(dparams \<Rightarrow> string option) option"
  cmd_ctx_dry_run :: "(ctx \<Rightarrow> dparams \<Rightarrow> outcome) option"

text \<open>
  A Go type has one method of a given name. The \<open>DryRun()\<close> probed by \<open>driver.DryRun\<close>
  (interface \<open>DR\<close>) and the \<open>DryRun(ctx, params)\<close> probed by the runner
  (\<open>dryRunner\<close> of \<open>template.go\<close>) have different signatures, so no command object
  has both; every command of the model satisfies this.
\<close>

definition cmd_wf :: "command \<Rightarrow> bool" where
  "cmd_wf c \<longleftrightarrow> cmd_dry_run c = None \<or> cmd_ctx_dry_run c = None"

text \<open>
  \<open>driver.LookupFunc\<close> is variadic, \<open>func(...string) interface{}\<close>: the model takes the
  argument list. The compile passes call it with the one key \<open>action ^ entity\<close>;
  \<open>runCmd\<close> calls it with the two strings.
\<close>

type_synonym lookup_fn = "string list \<Rightarrow> command option"

text \<open>A command that implements none of the optional capabilities but \<open>Run()\<close>.\<close>

definition bare_command :: "(dparams \<Rightarrow> outcome) \<Rightarrow> command" where
  "bare_command r =
     \<lparr>cmd_fields = [], cmd_validate_params = None, cmd_convert_params = None,
      cmd_validate_command = None, cmd_inject = None, cmd_validate = None,
      cmd_dry_run = None, cmd_run = Some r, cmd_after_run = None,
      cmd_ctx_dry_run = None\<rparr>"

end
