(* ===== verification/Ast.thy ===== *)
theory Ast
  imports Contract
begin

text \<open>
  The template AST (spec sections 3 and 9). The Go package \<open>template/internal/ast\<close> is
  not under \<open>src/\<close>: these definitions follow the spec's data model. A value expression
  is a tagged variant (literal, hole \<open>{name}\<close>, reference \<open>$name\<close>, alias
  \<open>@name\<close>, concatenation, list); the capabilities \<open>WithHoles\<close>, \<open>WithRefs\<close>,
  \<open>WithAlias\<close> of the Go nodes are the structural collectors \<open>holes_of\<close>,
  \<open>refs_of\<close>, \<open>aliases_of\<close> and the rewriters \<open>fill_holes\<close>,
  \<open>replace_ref\<close>, \<open>subst_alias\<close>. A command node keeps its parameters as an
  association list (a Go map; the model fixes the iteration order to the list order).
\<close>

section \<open>Value expressions\<close>

datatype val =
    LStr string | LInt int | LBool bool
  | Hole string | Ref ident | Alias string
  | Concat "val list" | ListV "val list"

primrec holes_of :: "val \<Rightarrow> string list" where
  "holes_of (LStr s) = []"
| "holes_of (LInt i) = []"
| "holes_of (LBool b) = []"
| "holes_of (Hole h) = [h]"
| "holes_of (Ref r) = []"
| "holes_of (Alias a) = []"
| "holes_of (Concat xs) = concat (map holes_of xs)"
| "holes_of (ListV xs) = concat (map holes_of xs)"

primrec refs_of :: "val \<Rightarrow> ident list" where
  "refs_of (LStr s) = []"
| "refs_of (LInt i) = []"
| "refs_of (LBool b) = []"
| "refs_of (Hole h) = []"
| "refs_of (Ref r) = [r]"
| "refs_of (Alias a) = []"
| "refs_of (Concat xs) = concat (map refs_of xs)"
| "refs_of (ListV xs) = concat (map refs_of xs)"

primrec aliases_of :: "val \<Rightarrow> string list" where
  "aliases_of (LStr s) = []"
| "aliases_of (LInt i) = []"
| "aliases_of (LBool b) = []"
| "aliases_of (Hole h) = []"
| "aliases_of (Ref r) = []"
| "aliases_of (Alias a) = [a]"
| "aliases_of (Concat xs) = concat (map aliases_of xs)"
| "aliases_of (ListV xs) = concat (map aliases_of xs)"

text \<open>A value is resolved when it holds no hole, no reference and no alias (spec 3).\<close>

definition is_resolved :: "val \<Rightarrow> bool" where
  "is_resolved v \<longleftrightarrow> holes_of v = [] \<and> refs_of v = [] \<and> aliases_of v = []"

text \<open>\<open>ProcessHoles\<close>: every hole whose name has a filler is replaced by the filler.\<close>

primrec fill_holes :: "(string \<rightharpoonup> val) \<Rightarrow> val \<Rightarrow> val" where
  "fill_holes f (LStr s) = LStr s"
| "fill_holes f (LInt i) = LInt i"
| "fill_holes f (LBool b) = LBool b"
| "fill_holes f (Hole h) = (case f h of Some w \<Rightarrow> w | None \<Rightarrow> Hole h)"
| "fill_holes f (Ref r) = Ref r"
| "fill_holes f (Alias a) = Alias a"
| "fill_holes f (Concat xs) = Concat (map (fill_holes f) xs)"
| "fill_holes f (ListV xs) = ListV (map (fill_holes f) xs)"

text \<open>\<open>ReplaceRef\<close>: every reference to \<open>x\<close> becomes the value \<open>w\<close>.\<close>

primrec replace_ref :: "ident \<Rightarrow> val \<Rightarrow> val \<Rightarrow> val" where
  "replace_ref x w (LStr s) = LStr s"
| "replace_ref x w (LInt i) = LInt i"
| "replace_ref x w (LBool b) = LBool b"
| "replace_ref x w (Hole h) = Hole h"
| "replace_ref x w (Ref r) = (if r = x then w else Ref r)"
| "replace_ref x w (Alias a) = Alias a"
| "replace_ref x w (Concat xs) = Concat (map (replace_ref x w) xs)"
| "replace_ref x w (ListV xs) = ListV (map (replace_ref x w) xs)"

text \<open>\<open>ResolveAlias\<close>: each alias is handed to the resolver; a result replaces it.\<close>

primrec subst_alias :: "(string \<Rightarrow> string option) \<Rightarrow> val \<Rightarrow> val" where
  "subst_alias r (LStr s) = LStr s"
| "subst_alias r (LInt i) = LInt i"
| "subst_alias r (LBool b) = LBool b"
| "subst_alias r (Hole h) = Hole h"
| "subst_alias r (Ref x) = Ref x"
| "subst_alias r (Alias a) = (case r a of Some s \<Rightarrow> LStr s | None \<Rightarrow> Alias a)"
| "subst_alias r (Concat xs) = Concat (map (subst_alias r) xs)"
| "subst_alias r (ListV xs) = ListV (map (subst_alias r) xs)"

text \<open>Plain Go values as literal expressions (\<open>NewInterfaceValue\<close>).\<close>

primrec of_plain :: "plain \<Rightarrow> val" where
  "of_plain (PStr s) = LStr s"
| "of_plain (PInt i) = LInt i"
| "of_plain (PBool b) = LBool b"
| "of_plain (PList ps) = ListV (map of_plain ps)"

text \<open>\<open>ProcessRefs(vars)\<close>: references bound in \<open>vars\<close> take the bound value.\<close>

primrec process_refs_val :: "(ident \<rightharpoonup> plain) \<Rightarrow> val \<Rightarrow> val" where
  "process_refs_val m (LStr s) = LStr s"
| "process_refs_val m (LInt i) = LInt i"
| "process_refs_val m (LBool b) = LBool b"
| "process_refs_val m (Hole h) = Hole h"
| "process_refs_val m (Ref x) = (case m x of Some p \<Rightarrow> of_plain p | None \<Rightarrow> Ref x)"
| "process_refs_val m (Alias a) = Alias a"
| "process_refs_val m (Concat xs) = Concat (map (process_refs_val m) xs)"
| "process_refs_val m (ListV xs) = ListV (map (process_refs_val m) xs)"

text \<open>\<open>fmt.Sprint\<close> of a plain value, used to join the parts of a concatenation.\<close>

primrec plain_str :: "plain \<Rightarrow> string" where
  "plain_str (PStr s) = s"
| "plain_str (PInt i) = string_of_int i"
| "plain_str (PBool b) = (if b then ''true'' else ''false'')"
| "plain_str (PList ps) = ''['' @ concat (map plain_str ps) @ '']''"

text \<open>\<open>Value()\<close>: the plain value of a resolved expression, \<open>nil\<close> otherwise.\<close>

primrec value_of :: "val \<Rightarrow> plain option" where
  "value_of (LStr s) = Some (PStr s)"
| "value_of (LInt i) = Some (PInt i)"
| "value_of (LBool b) = Some (PBool b)"
| "value_of (Hole h) = None"
| "value_of (Ref x) = None"
| "value_of (Alias a) = None"
| "value_of (Concat xs) =
     map_option (\<lambda>ps. PStr (concat (map plain_str ps))) (all_some (map value_of xs))"
| "value_of (ListV xs) = map_option PList (all_some (map value_of xs))"

section \<open>Command nodes, expressions, statements\<close>

record command_node =
  action :: string
  entity :: string
  params :: "val alist"
  node_command :: "command option"
  cmd_result :: "plain option"
  cmd_err :: "string option"

text \<open>A command node as the parser yields it: no command object, result or error yet.\<close>

definition new_command_node :: "string \<Rightarrow> string \<Rightarrow> val alist \<Rightarrow> command_node" where
  "new_command_node a e ps =
     \<lparr>action = a, entity = e, params = ps, node_command = None, cmd_result = None,
      cmd_err = None\<rparr>"

definition node_keys :: "command_node \<Rightarrow> string list" where
  "node_keys n = map fst (params n)"

definition node_holes :: "command_node \<Rightarrow> string list" where
  "node_holes n = concat (map (holes_of \<circ> snd) (params n))"

definition node_refs :: "command_node \<Rightarrow> ident list" where
  "node_refs n = concat (map (refs_of \<circ> snd) (params n))"

definition node_aliases :: "command_node \<Rightarrow> string list" where
  "node_aliases n = concat (map (aliases_of \<circ> snd) (params n))"

definition map_params :: "(val \<Rightarrow> val) \<Rightarrow> command_node \<Rightarrow> command_node" where
  "map_params f n = n\<lparr>params := map (\<lambda>(k, v). (k, f v)) (params n)\<rparr>"

text \<open>\<open>ToDriverParams\<close>: the parameters as plain values; unresolved ones (\<open>nil\<close>) are left out.\<close>

definition to_driver_params :: "command_node \<Rightarrow> dparams" where
  "to_driver_params n =
     List.map_filter (\<lambda>(k, v). map_option (Pair k) (value_of v)) (params n)"

datatype expr_node = CmdExpr command_node | ValueExpr val

datatype stmt = CmdStmt command_node | DeclStmt ident expr_node

primrec expr_holes :: "expr_node \<Rightarrow> string list" where
  "expr_holes (CmdExpr n) = node_holes n"
| "expr_holes (ValueExpr v) = holes_of v"

primrec expr_refs :: "expr_node \<Rightarrow> ident list" where
  "expr_refs (CmdExpr n) = node_refs n"
| "expr_refs (ValueExpr v) = refs_of v"

primrec expr_aliases :: "expr_node \<Rightarrow> string list" where
  "expr_aliases (CmdExpr n) = node_aliases n"
| "expr_aliases (ValueExpr v) = aliases_of v"

primrec map_expr :: "(val \<Rightarrow> val) \<Rightarrow> expr_node \<Rightarrow> expr_node" where
  "map_expr f (CmdExpr n) = CmdExpr (map_params f n)"
| "map_expr f (ValueExpr v) = ValueExpr (f v)"


section \<open>Collectors and rewriters\<close>

text \<open>
  How each rewriter changes what the collectors see: filling removes the filled holes
  (when the fillers hold no holes themselves), alias substitution keeps exactly the
  aliases the resolver rejected, reference replacement removes the reference. These are
  the facts each pass relies on.
\<close>

lemma is_resolved_simps [simp]:
  "is_resolved (LStr s)" "is_resolved (LInt i)" "is_resolved (LBool b)"
  "\<not> is_resolved (Hole h)" "\<not> is_resolved (Ref x)" "\<not> is_resolved (Alias a)"
  "is_resolved (Concat xs) \<longleftrightarrow> (\<forall>x \<in> set xs. is_resolved x)"
  "is_resolved (ListV xs) \<longleftrightarrow> (\<forall>x \<in> set xs. is_resolved x)"
  by (auto simp: is_resolved_def)

lemma value_of_resolved: "value_of v \<noteq> None \<longleftrightarrow> is_resolved v"
proof (induction v)
  case (Concat xs)
  then show ?case by (force simp: image_iff)
next
  case (ListV xs)
  then show ?case by (force simp: image_iff)
qed simp_all

lemma holes_fill_holes:
  assumes "\<forall>w \<in> ran f. holes_of w = []"
  shows "set (holes_of (fill_holes f v)) = set (holes_of v) - dom f"
  using assms by (induction v) (auto simp: ran_def split: option.splits)

lemma holes_fill_holes_subset:
  "set (holes_of (fill_holes f v)) \<subseteq> set (holes_of v) \<union> (\<Union>w \<in> ran f. set (holes_of w))"
  by (induction v) (auto simp: ran_def split: option.splits)

lemma holes_fill_holes_outside:
  "set (holes_of (fill_holes f v)) \<subseteq> (set (holes_of v) - dom f) \<union> (\<Union>w \<in> ran f. set (holes_of w))"
  by (induction v) (auto simp: ran_def split: option.splits)

lemma fill_holes_no_dom: "set (holes_of v) \<inter> dom f = {} \<Longrightarrow> fill_holes f v = v"
  by (induction v) (auto simp: disjoint_iff domIff intro!: map_idI split: option.splits)

lemma refs_fill_holes:
  "set (refs_of (fill_holes f v)) \<subseteq> set (refs_of v) \<union> (\<Union>w \<in> ran f. set (refs_of w))"
  by (induction v) (auto simp: ran_def split: option.splits)

lemma aliases_fill_holes:
  "set (aliases_of (fill_holes f v)) \<subseteq> set (aliases_of v) \<union> (\<Union>w \<in> ran f. set (aliases_of w))"
  by (induction v) (auto simp: ran_def split: option.splits)

lemma aliases_subst_alias:
  "aliases_of (subst_alias r v) = filter (\<lambda>a. r a = None) (aliases_of v)"
  by (induction v) (auto simp: filter_concat comp_def split: option.splits intro!: arg_cong[where f = concat])

lemma holes_subst_alias [simp]: "holes_of (subst_alias r v) = holes_of v"
  by (induction v) (auto split: option.splits intro!: arg_cong[where f = concat])

lemma refs_subst_alias [simp]: "refs_of (subst_alias r v) = refs_of v"
  by (induction v) (auto split: option.splits intro!: arg_cong[where f = concat])

lemma refs_replace_ref:
  "set (refs_of (replace_ref x w v)) =
     set (refs_of v) - {x} \<union> (if x \<in> set (refs_of v) then set (refs_of w) else {})"
  by (induction v) (auto split: if_splits)

lemma holes_replace_ref:
  "set (holes_of (replace_ref x w v)) =
     set (holes_of v) \<union> (if x \<in> set (refs_of v) then set (holes_of w) else {})"
  by (induction v) (auto split: if_splits)

lemma aliases_replace_ref:
  "set (aliases_of (replace_ref x w v)) =
     set (aliases_of v) \<union> (if x \<in> set (refs_of v) then set (aliases_of w) else {})"
  by (induction v) (auto split: if_splits)

lemma value_of_of_plain [simp]: "value_of (of_plain p) = Some p"
proof (induction p)
  case (PList ps)
  then show ?case by (simp add: all_some_map_Some[where g = id])
qed simp_all

lemma map_of_to_driver_params:
  "distinct (node_keys n) \<Longrightarrow>
   map_of (to_driver_params n) k = Option.bind (map_of (params n) k) value_of"
  unfolding to_driver_params_def node_keys_def by (rule map_of_map_filter)

lemma of_plain_resolved [simp]:
  "holes_of (of_plain p) = []" "refs_of (of_plain p) = []" "aliases_of (of_plain p) = []"
  by (induction p) auto

lemma refs_process_refs:
  "refs_of (process_refs_val m v) = filter (\<lambda>x. m x = None) (refs_of v)"
  by (induction v) (auto simp: filter_concat comp_def split: option.splits intro!: arg_cong[where f = concat])

lemma node_keys_map_params [simp]: "node_keys (map_params f n) = node_keys n"
  by (simp add: node_keys_def map_params_def)

lemma node_collectors_map_params:
  "node_holes (map_params f n) = concat (map (holes_of \<circ> f \<circ> snd) (params n))"
  "node_refs (map_params f n) = concat (map (refs_of \<circ> f \<circ> snd) (params n))"
  "node_aliases (map_params f n) = concat (map (aliases_of \<circ> f \<circ> snd) (params n))"
  by (simp_all add: node_holes_def node_refs_def node_aliases_def map_params_def)

lemma map_params_comp [simp]: "map_params f (map_params g n) = map_params (f \<circ> g) n"
  by (simp add: map_params_def comp_def case_prod_beta)

lemma map_params_frame [simp]:
  "action (map_params f n) = action n" "entity (map_params f n) = entity n"
  "node_command (map_params f n) = node_command n"
  "cmd_result (map_params f n) = cmd_result n" "cmd_err (map_params f n) = cmd_err n"
  by (simp_all add: map_params_def)

lemma map_expr_comp [simp]: "map_expr f (map_expr g e) = map_expr (f \<circ> g) e"
  by (cases e) simp_all

end
