(* ===== verification/Template.thy ===== *)
theory Template
  imports Ast
begin

text \<open>
  The \<open>Template\<close> type of \<open>src/template/template.go\<close> and its iterators and
  visitors. Go's visitors take a callback and mutate the nodes through pointers; the
  model returns the rewritten statement list. A visitor that also accumulates (the
  processed fillers, the aliases that failed) is split into a map over the values and a
  collector \<open>stmt_vals\<close> that lists every value expression with its context (entity,
  parameter key) in the order the Go loops visit them: statements in order, then the
  parameters of a command node in their list order.
\<close>

section \<open>Definitions\<close>

record template =
  tpl_id :: string
  statements :: "stmt list"

text \<open>\<open>extractExpressionNode\<close>: the expression of a statement (a command statement is its
  own expression, a declaration holds one).\<close>

primrec extract_expression :: "stmt \<Rightarrow> expr_node" where
  "extract_expression (CmdStmt n) = CmdExpr n"
| "extract_expression (DeclStmt x e) = e"

text \<open>\<open>CommandNodesIterator\<close>.\<close>

fun command_nodes :: "stmt list \<Rightarrow> command_node list" where
  "command_nodes [] = []"
| "command_nodes (CmdStmt n # sts) = n # command_nodes sts"
| "command_nodes (DeclStmt x (CmdExpr n) # sts) = n # command_nodes sts"
| "command_nodes (DeclStmt x (ValueExpr v) # sts) = command_nodes sts"

text \<open>\<open>CommandNodesReverseIterator\<close>: the same nodes, statements visited from the last.\<close>

definition command_nodes_reverse :: "stmt list \<Rightarrow> command_node list" where
  "command_nodes_reverse sts = command_nodes (rev sts)"

text \<open>\<open>expressionNodesIterator\<close>.\<close>

definition expression_nodes :: "stmt list \<Rightarrow> expr_node list" where
  "expression_nodes sts = map extract_expression sts"

text \<open>\<open>declarationNodesIterator\<close>, as the declared identifiers with their expressions.\<close>

fun declaration_nodes :: "stmt list \<Rightarrow> (ident \<times> expr_node) list" where
  "declaration_nodes [] = []"
| "declaration_nodes (CmdStmt n # sts) = declaration_nodes sts"
| "declaration_nodes (DeclStmt x e # sts) = (x, e) # declaration_nodes sts"

definition decl_idents :: "stmt list \<Rightarrow> ident list" where
  "decl_idents sts = map fst (declaration_nodes sts)"

text \<open>\<open>commandDeclarationNodesIterator\<close>: the declarations whose expression is a command.\<close>

definition command_declaration_nodes :: "stmt list \<Rightarrow> (ident \<times> command_node) list" where
  "command_declaration_nodes sts =
     List.map_filter (\<lambda>(x, e). case e of CmdExpr n \<Rightarrow> Some (x, n) | ValueExpr v \<Rightarrow> None)
       (declaration_nodes sts)"

text \<open>
  \<open>WithRefsIterator\<close>: the statement nodes that implement \<open>ast.WithRefs\<close>, and the
  command of a declaration. The first case of its type switch is taken for command
  nodes; a declaration node does not implement \<open>WithRefs\<close> (otherwise the second case
  would be unreachable), so a declared value is never visited.
\<close>

fun with_refs_nodes :: "stmt list \<Rightarrow> command_node list" where
  "with_refs_nodes [] = []"
| "with_refs_nodes (CmdStmt n # sts) = n # with_refs_nodes sts"
| "with_refs_nodes (DeclStmt x e # sts) =
     (case e of CmdExpr n \<Rightarrow> n # with_refs_nodes sts | ValueExpr v \<Rightarrow> with_refs_nodes sts)"

text \<open>\<open>visitDeclarationNodes\<close>: the callback may rewrite the identifier and the
  expression of every declaration node.\<close>

fun map_declaration_nodes ::
  "(ident \<times> expr_node \<Rightarrow> ident \<times> expr_node) \<Rightarrow> stmt list \<Rightarrow> stmt list" where
  "map_declaration_nodes f [] = []"
| "map_declaration_nodes f (CmdStmt n # sts) = CmdStmt n # map_declaration_nodes f sts"
| "map_declaration_nodes f (DeclStmt x e # sts) =
     (case f (x, e) of (x', e') \<Rightarrow> DeclStmt x' e' # map_declaration_nodes f sts)"

text \<open>\<open>visitCommandDeclarationNodes\<close>: the same, on the declarations of a command only.\<close>

fun map_command_declaration_nodes ::
  "(ident \<times> expr_node \<Rightarrow> ident \<times> expr_node) \<Rightarrow> stmt list \<Rightarrow> stmt list" where
  "map_command_declaration_nodes f [] = []"
| "map_command_declaration_nodes f (CmdStmt n # sts) =
     CmdStmt n # map_command_declaration_nodes f sts"
| "map_command_declaration_nodes f (DeclStmt x (CmdExpr n) # sts) =
     (case f (x, CmdExpr n) of (x', e') \<Rightarrow> DeclStmt x' e' # map_command_declaration_nodes f sts)"
| "map_command_declaration_nodes f (DeclStmt x (ValueExpr v) # sts) =
     DeclStmt x (ValueExpr v) # map_command_declaration_nodes f sts"

text \<open>\<open>visitCommandNodes\<close>: every command node rewritten by the callback.\<close>

fun map_command_nodes :: "(command_node \<Rightarrow> command_node) \<Rightarrow> stmt list \<Rightarrow> stmt list" where
  "map_command_nodes f [] = []"
| "map_command_nodes f (CmdStmt n # sts) = CmdStmt (f n) # map_command_nodes f sts"
| "map_command_nodes f (DeclStmt x (CmdExpr n) # sts) =
     DeclStmt x (CmdExpr (f n)) # map_command_nodes f sts"
| "map_command_nodes f (DeclStmt x (ValueExpr v) # sts) =
     DeclStmt x (ValueExpr v) # map_command_nodes f sts"

text \<open>
  \<open>visitCommandNodesE\<close>: the callback may fail; the walk stops at the first failure,
  leaving the nodes before it rewritten and the rest untouched.
\<close>

fun visit_command_nodes_e ::
  "(command_node \<Rightarrow> 'e + command_node) \<Rightarrow> stmt list \<Rightarrow> stmt list \<times> 'e option" where
  "visit_command_nodes_e f [] = ([], None)"
| "visit_command_nodes_e f (CmdStmt n # sts) =
     (case f n of
        Inl e \<Rightarrow> (CmdStmt n # sts, Some e)
      | Inr n' \<Rightarrow> (let (r, e) = visit_command_nodes_e f sts in (CmdStmt n' # r, e)))"
| "visit_command_nodes_e f (DeclStmt x (CmdExpr n) # sts) =
     (case f n of
        Inl e \<Rightarrow> (DeclStmt x (CmdExpr n) # sts, Some e)
      | Inr n' \<Rightarrow> (let (r, e) = visit_command_nodes_e f sts in (DeclStmt x (CmdExpr n') # r, e)))"
| "visit_command_nodes_e f (DeclStmt x (ValueExpr v) # sts) =
     (let (r, e) = visit_command_nodes_e f sts in (DeclStmt x (ValueExpr v) # r, e))"

text \<open>
  Every value expression of a statement, with the entity and parameter key it sits
  under; a declared value has neither (the alias pass passes \<open>""\<close>, \<open>""\<close>).
\<close>

fun stmt_vals :: "stmt \<Rightarrow> (string \<times> string \<times> val) list" where
  "stmt_vals (CmdStmt n) = map (\<lambda>(k, v). (entity n, k, v)) (params n)"
| "stmt_vals (DeclStmt x (CmdExpr n)) = map (\<lambda>(k, v). (entity n, k, v)) (params n)"
| "stmt_vals (DeclStmt x (ValueExpr v)) = [('''', '''', v)]"

definition node_map_vals ::
  "(string \<Rightarrow> string \<Rightarrow> val \<Rightarrow> val) \<Rightarrow> command_node \<Rightarrow> command_node" where
  "node_map_vals f n = n\<lparr>params := map (\<lambda>(k, v). (k, f (entity n) k v)) (params n)\<rparr>"

fun map_stmt_vals :: "(string \<Rightarrow> string \<Rightarrow> val \<Rightarrow> val) \<Rightarrow> stmt \<Rightarrow> stmt" where
  "map_stmt_vals f (CmdStmt n) = CmdStmt (node_map_vals f n)"
| "map_stmt_vals f (DeclStmt x (CmdExpr n)) = DeclStmt x (CmdExpr (node_map_vals f n))"
| "map_stmt_vals f (DeclStmt x (ValueExpr v)) = DeclStmt x (ValueExpr (f '''' '''' v))"

definition all_vals :: "stmt list \<Rightarrow> (string \<times> string \<times> val) list" where
  "all_vals sts = concat (map stmt_vals sts)"

text \<open>The holes, references and aliases of a whole statement list, in visiting order.\<close>

definition tpl_holes :: "stmt list \<Rightarrow> string list" where
  "tpl_holes sts = concat (map expr_holes (expression_nodes sts))"

definition tpl_refs :: "stmt list \<Rightarrow> ident list" where
  "tpl_refs sts = concat (map expr_refs (expression_nodes sts))"

definition tpl_aliases :: "stmt list \<Rightarrow> string list" where
  "tpl_aliases sts = concat (map expr_aliases (expression_nodes sts))"

text \<open>\<open>HasErrors\<close>.\<close>

definition has_errors :: "stmt list \<Rightarrow> bool" where
  "has_errors sts \<longleftrightarrow> (\<exists>n \<in> set (command_nodes sts). cmd_err n \<noteq> None)"

text \<open>\<open>UniqueDefinitions\<close>: the definitions of the command keys, first occurrence first.\<close>

fun unique_definitions_acc ::
  "(string \<Rightarrow> 'd option) \<Rightarrow> string list \<Rightarrow> command_node list \<Rightarrow> 'd list" where
  "unique_definitions_acc fn seen [] = []"
| "unique_definitions_acc fn seen (n # ns) =
     (let key = action n @ entity n in
      case fn key of
        None \<Rightarrow> unique_definitions_acc fn seen ns
      | Some d \<Rightarrow>
          (if key \<in> set seen then unique_definitions_acc fn seen ns
           else d # unique_definitions_acc fn (key # seen) ns))"

definition unique_definitions :: "(string \<Rightarrow> 'd option) \<Rightarrow> stmt list \<Rightarrow> 'd list" where
  "unique_definitions fn sts = unique_definitions_acc fn [] (command_nodes sts)"

section \<open>Lemmas\<close>

lemma stmt_vals_collectors:
  "concat (map (holes_of \<circ> snd \<circ> snd) (stmt_vals st)) = expr_holes (extract_expression st)"
  "concat (map (refs_of \<circ> snd \<circ> snd) (stmt_vals st)) = expr_refs (extract_expression st)"
  "concat (map (aliases_of \<circ> snd \<circ> snd) (stmt_vals st)) = expr_aliases (extract_expression st)"
  by (induction st rule: stmt_vals.induct)
     (simp_all add: node_holes_def node_refs_def node_aliases_def comp_def case_prod_beta)

lemma extract_map_stmt_vals:
  "expr_holes (extract_expression (map_stmt_vals f st)) =
     concat (map (\<lambda>(e, k, v). holes_of (f e k v)) (stmt_vals st))"
  "expr_refs (extract_expression (map_stmt_vals f st)) =
     concat (map (\<lambda>(e, k, v). refs_of (f e k v)) (stmt_vals st))"
  "expr_aliases (extract_expression (map_stmt_vals f st)) =
     concat (map (\<lambda>(e, k, v). aliases_of (f e k v)) (stmt_vals st))"
  by (induction f st rule: map_stmt_vals.induct)
     (simp_all add: node_map_vals_def node_holes_def node_refs_def node_aliases_def
       comp_def case_prod_beta)

lemma tpl_collectors_append [simp]:
  "tpl_holes (xs @ ys) = tpl_holes xs @ tpl_holes ys"
  "tpl_refs (xs @ ys) = tpl_refs xs @ tpl_refs ys"
  "tpl_aliases (xs @ ys) = tpl_aliases xs @ tpl_aliases ys"
  by (simp_all add: tpl_holes_def tpl_refs_def tpl_aliases_def expression_nodes_def)

lemma tpl_collectors_simps [simp]:
  "tpl_holes [] = []" "tpl_refs [] = []" "tpl_aliases [] = []"
  "tpl_holes (st # sts) = expr_holes (extract_expression st) @ tpl_holes sts"
  "tpl_refs (st # sts) = expr_refs (extract_expression st) @ tpl_refs sts"
  "tpl_aliases (st # sts) = expr_aliases (extract_expression st) @ tpl_aliases sts"
  by (simp_all add: tpl_holes_def tpl_refs_def tpl_aliases_def expression_nodes_def)

lemma tpl_collectors_all_vals:
  "tpl_holes sts = concat (map (holes_of \<circ> snd \<circ> snd) (all_vals sts))"
  "tpl_refs sts = concat (map (refs_of \<circ> snd \<circ> snd) (all_vals sts))"
  "tpl_aliases sts = concat (map (aliases_of \<circ> snd \<circ> snd) (all_vals sts))"
  by (induction sts) (simp_all add: all_vals_def stmt_vals_collectors[symmetric])

lemma tpl_collectors_map_stmt_vals:
  "tpl_holes (map (map_stmt_vals f) sts) =
     concat (map (\<lambda>(e, k, v). holes_of (f e k v)) (all_vals sts))"
  "tpl_refs (map (map_stmt_vals f) sts) =
     concat (map (\<lambda>(e, k, v). refs_of (f e k v)) (all_vals sts))"
  "tpl_aliases (map (map_stmt_vals f) sts) =
     concat (map (\<lambda>(e, k, v). aliases_of (f e k v)) (all_vals sts))"
  by (induction sts) (simp_all add: all_vals_def extract_map_stmt_vals)

lemma set_tpl_collectors:
  "set (tpl_holes sts) = (\<Union>(e, k, v) \<in> set (all_vals sts). set (holes_of v))"
  "set (tpl_refs sts) = (\<Union>(e, k, v) \<in> set (all_vals sts). set (refs_of v))"
  "set (tpl_aliases sts) = (\<Union>(e, k, v) \<in> set (all_vals sts). set (aliases_of v))"
  by (auto simp: tpl_collectors_all_vals)

lemma set_tpl_collectors_map_stmt_vals:
  "set (tpl_holes (map (map_stmt_vals f) sts)) =
     (\<Union>(e, k, v) \<in> set (all_vals sts). set (holes_of (f e k v)))"
  "set (tpl_refs (map (map_stmt_vals f) sts)) =
     (\<Union>(e, k, v) \<in> set (all_vals sts). set (refs_of (f e k v)))"
  "set (tpl_aliases (map (map_stmt_vals f) sts)) =
     (\<Union>(e, k, v) \<in> set (all_vals sts). set (aliases_of (f e k v)))"
  by (auto simp: tpl_collectors_map_stmt_vals)

lemma decl_idents_simps [simp]:
  "decl_idents [] = []"
  "decl_idents (CmdStmt n # sts) = decl_idents sts"
  "decl_idents (DeclStmt x e # sts) = x # decl_idents sts"
  by (simp_all add: decl_idents_def)

lemma decl_idents_append [simp]: "decl_idents (xs @ ys) = decl_idents xs @ decl_idents ys"
  by (induction xs rule: declaration_nodes.induct) simp_all

lemma decl_idents_map_stmt_vals [simp]:
  "decl_idents (map (map_stmt_vals f) sts) = decl_idents sts"
proof (induction sts rule: declaration_nodes.induct)
  case (3 x e sts)
  then show ?case by (cases e) simp_all
qed simp_all

lemma length_map_command_nodes [simp]: "length (map_command_nodes f sts) = length sts"
  by (induction f sts rule: map_command_nodes.induct) simp_all

lemma command_nodes_map_command_nodes [simp]:
  "command_nodes (map_command_nodes f sts) = map f (command_nodes sts)"
  by (induction f sts rule: map_command_nodes.induct) simp_all

lemma decl_idents_map_command_nodes [simp]:
  "decl_idents (map_command_nodes f sts) = decl_idents sts"
  by (induction f sts rule: map_command_nodes.induct) simp_all

lemma visit_command_nodes_e_all_Inr:
  assumes "\<forall>n \<in> set (command_nodes sts). f n = Inr (g n)"
  shows "visit_command_nodes_e f sts = (map_command_nodes g sts, None)"
  using assms by (induction f sts rule: visit_command_nodes_e.induct) simp_all

lemma visit_command_nodes_e_first_Inl:
  assumes "\<forall>n \<in> set ns. f n = Inr (g n)" and "f m = Inl e"
    and "command_nodes sts = ns @ m # ms"
  shows "snd (visit_command_nodes_e f sts) = Some e"
  using assms
proof (induction f sts arbitrary: ns rule: visit_command_nodes_e.induct)
  case (2 f n sts)
  then show ?case by (cases ns) (auto split: prod.splits)
next
  case (3 f x n sts)
  then show ?case by (cases ns) (auto split: prod.splits)
qed (auto split: prod.splits)


lemma visit_command_nodes_e_None_iff:
  "snd (visit_command_nodes_e f sts) = None \<longleftrightarrow> (\<forall>n \<in> set (command_nodes sts). \<not> isl (f n))"
  by (induction f sts rule: visit_command_nodes_e.induct) (auto split: sum.splits prod.splits)

lemma map_stmt_vals_ident [simp]: "map_stmt_vals (\<lambda>_ _ v. v) st = st"
  by (induction "\<lambda>(_::string) (_::string) (v::val). v" st rule: map_stmt_vals.induct)
     (simp_all add: node_map_vals_def)

lemma node_map_vals_id_on:
  assumes "\<And>k v. (k, v) \<in> set (params n) \<Longrightarrow> f (entity n) k v = v"
  shows "node_map_vals f n = n"
proof -
  have "map (\<lambda>(k, v). (k, f (entity n) k v)) (params n) = params n"
    by (rule map_idI) (auto simp: assms split: prod.splits)
  then show ?thesis by (simp add: node_map_vals_def)
qed

lemma map_stmt_vals_id_on:
  "(\<And>e k v. (e, k, v) \<in> set (stmt_vals st) \<Longrightarrow> f e k v = v) \<Longrightarrow> map_stmt_vals f st = st"
  by (induction f st rule: map_stmt_vals.induct) (auto intro!: node_map_vals_id_on)

lemma map_stmt_vals_id_all:
  "(\<And>e k v. (e, k, v) \<in> set (all_vals sts) \<Longrightarrow> f e k v = v) \<Longrightarrow> map (map_stmt_vals f) sts = sts"
  by (auto simp: all_vals_def intro!: map_idI map_stmt_vals_id_on)

lemma command_nodes_map_stmt_vals [simp]:
  "command_nodes (map (map_stmt_vals f) sts) = map (node_map_vals f) (command_nodes sts)"
  by (induction sts rule: command_nodes.induct) simp_all


text \<open>\<open>HasErrors\<close> statement by statement.\<close>

lemma has_errors_simps [simp]:
  "has_errors [] = False"
  "has_errors (CmdStmt n # sts) \<longleftrightarrow> cmd_err n \<noteq> None \<or> has_errors sts"
  "has_errors (DeclStmt x (CmdExpr n) # sts) \<longleftrightarrow> cmd_err n \<noteq> None \<or> has_errors sts"
  "has_errors (DeclStmt x (ValueExpr v) # sts) \<longleftrightarrow> has_errors sts"
  by (auto simp: has_errors_def)

lemma command_nodes_append [simp]:
  "command_nodes (xs @ ys) = command_nodes xs @ command_nodes ys"
  by (induction xs rule: command_nodes.induct) simp_all

lemma has_errors_append [simp]: "has_errors (xs @ ys) \<longleftrightarrow> has_errors xs \<or> has_errors ys"
  by (auto simp: has_errors_def)

lemma has_errors_Cons: "has_errors (st # sts) \<longleftrightarrow> has_errors [st] \<or> has_errors sts"
  using has_errors_append[of "[st]" sts] by simp

lemma has_errors_butlast_Cons:
  "has_errors (butlast (st # rest)) \<longleftrightarrow> rest \<noteq> [] \<and> (has_errors [st] \<or> has_errors (butlast rest))"
  using has_errors_Cons[of st "butlast rest"] by (cases rest) auto


lemma visit_command_nodes_e_Some:
  "snd (visit_command_nodes_e f sts) = Some err \<Longrightarrow> \<exists>n \<in> set (command_nodes sts). f n = Inl err"
  by (induction f sts rule: visit_command_nodes_e.induct) (auto split: sum.splits prod.splits)

lemma command_declaration_nodes_simps [simp]:
  "command_declaration_nodes [] = []"
  "command_declaration_nodes (CmdStmt n # sts) = command_declaration_nodes sts"
  "command_declaration_nodes (DeclStmt x (CmdExpr n) # sts) = (x, n) # command_declaration_nodes sts"
  "command_declaration_nodes (DeclStmt x (ValueExpr v) # sts) = command_declaration_nodes sts"
  by (simp_all add: command_declaration_nodes_def List.map_filter_def)

text \<open>\<open>visitCommandDeclarationNodes\<close> is \<open>visitDeclarationNodes\<close> with a callback
  that leaves the declarations of values alone.\<close>

lemma map_command_declaration_nodes_restrict:
  "map_command_declaration_nodes f sts =
     map_declaration_nodes
       (\<lambda>(x, e). case e of CmdExpr n \<Rightarrow> f (x, e) | ValueExpr v \<Rightarrow> (x, e)) sts"
  by (induction f sts rule: map_command_declaration_nodes.induct) (simp_all split: prod.splits)

lemma map_declaration_nodes_length [simp]: "length (map_declaration_nodes f sts) = length sts"
  by (induction f sts rule: map_declaration_nodes.induct) (simp_all split: prod.splits)

lemma map_declaration_nodes_commands:
  "[n. CmdStmt n \<leftarrow> map_declaration_nodes f sts] = [n. CmdStmt n \<leftarrow> sts]"
  by (induction f sts rule: map_declaration_nodes.induct) (simp_all split: prod.splits)

end
