(* ===== verification/Driver.thy ===== *)
theory Driver
  imports Contract
begin

text \<open>
  \<open>src/template/driver/driver.go\<close>: the command lifecycle (\<open>DryRun\<close>, \<open>Run\<close>),
  the composite driver (\<open>MultiDriver\<close>) and the execution context; and the drivers
  generated into \<open>src/aws/driver/gen_drivers.go\<close>, whose lookups never find anything.

  \<open>Run(cmd, ctx, params)\<close> probes the command for each capability in turn:
  \<open>Inject\<close> (which overwrites the object's fields), \<open>Validate\<close>, \<open>Run\<close> and
  \<open>AfterRun\<close>; the first error ends the call. The model returns the Go pair and the
  command object as it is afterwards, since injection mutates it.
\<close>

section \<open>Definitions\<close>

text \<open>Steps shared by \<open>DryRun\<close> and \<open>Run\<close>: the optional \<open>Inject\<close> and \<open>Validate\<close>.\<close>

definition inject_step :: "command \<Rightarrow> dparams \<Rightarrow> string + command" where
  "inject_step c ps =
     (case cmd_inject c of
        None \<Rightarrow> Inr c
      | Some injf \<Rightarrow>
          (case injf (cmd_fields c) ps of
             Inl e \<Rightarrow> Inl e
           | Inr fs \<Rightarrow> Inr (c\<lparr>cmd_fields := fs\<rparr>)))"

definition validate_step :: "command \<Rightarrow> string option" where
  "validate_step c = (case cmd_validate c of None \<Rightarrow> None | Some v \<Rightarrow> v (cmd_fields c))"

definition driver_dry_run :: "command \<Rightarrow> ctx \<Rightarrow> dparams \<Rightarrow> outcome \<times> command" where
  "driver_dry_run c ctx ps =
     (case inject_step c ps of
        Inl e \<Rightarrow> ((None, Some e), c)
      | Inr c' \<Rightarrow>
          (case validate_step c' of
             Some e \<Rightarrow> ((None, Some e), c')
           | None \<Rightarrow>
               (case cmd_dry_run c' of
                  None \<Rightarrow> ((None, Some ''Command is not a dry runner''), c')
                | Some dr \<Rightarrow>
                    (case dr (cmd_fields c') of
                       (r, Some e) \<Rightarrow> ((r, Some e), c')
                     | (r, None) \<Rightarrow> ((r, None), c')))))"

definition driver_run :: "command \<Rightarrow> ctx \<Rightarrow> dparams \<Rightarrow> outcome \<times> command" where
  "driver_run c ctx ps =
     (case inject_step c ps of
        Inl e \<Rightarrow> ((None, Some e), c)
      | Inr c' \<Rightarrow>
          (case validate_step c' of
             Some e \<Rightarrow> ((None, Some e), c')
           | None \<Rightarrow>
               (case cmd_run c' of
                  None \<Rightarrow> ((None, Some ''Command is not a runner''), c')
                | Some rn \<Rightarrow>
                    (case rn (cmd_fields c') of
                       (r, Some e) \<Rightarrow> ((r, Some e), c')
                     | (r, None) \<Rightarrow>
                         (case cmd_after_run c' of
                            None \<Rightarrow> ((r, None), c')
                          | Some ar \<Rightarrow>
                              (case ar (cmd_fields c') of
                                 Some e \<Rightarrow> ((r, Some e), c')
                               | None \<Rightarrow> ((r, None), c')))))))"

text \<open>
  Drivers. \<open>ErrDriverFnNotFound\<close> is a sentinel error compared by identity; the other
  errors are the messages the composite builds.
\<close>

datatype drv_error =
    ErrDriverFnNotFound
  | DrvErr string
  | NotFoundInDrivers "string list"
  | MultipleFound nat "string list"

type_synonym driver_fn = "ctx \<Rightarrow> dparams \<Rightarrow> outcome"

record driver =
  drv_lookup :: "string list \<Rightarrow> drv_error + driver_fn"
  drv_lookup_iface :: "string list \<Rightarrow> drv_error + command option"

text \<open>\<open>MultiDriver.Lookup\<close>: ask every driver; skip the not-found sentinel, stop at any
  other error; succeed only when exactly one driver has the function.\<close>

fun multi_collect :: "driver list \<Rightarrow> string list \<Rightarrow> drv_error + driver_fn list" where
  "multi_collect [] ls = Inr []"
| "multi_collect (d # ds) ls =
     (case drv_lookup d ls of
        Inl ErrDriverFnNotFound \<Rightarrow> multi_collect ds ls
      | Inl e \<Rightarrow> Inl e
      | Inr fn \<Rightarrow> (case multi_collect ds ls of Inl e \<Rightarrow> Inl e | Inr fns \<Rightarrow> Inr (fn # fns)))"

definition multi_lookup :: "driver list \<Rightarrow> string list \<Rightarrow> drv_error + driver_fn" where
  "multi_lookup ds ls =
     (case multi_collect ds ls of
        Inl e \<Rightarrow> Inl e
      | Inr [] \<Rightarrow> Inl (NotFoundInDrivers ls)
      | Inr [fn] \<Rightarrow> Inr fn
      | Inr fns \<Rightarrow> Inl (MultipleFound (length fns) ls))"

text \<open>\<open>MultiDriver.LookupIface\<close>: the first error or the first non-nil command.\<close>

fun multi_lookup_iface :: "driver list \<Rightarrow> string list \<Rightarrow> drv_error + command option" where
  "multi_lookup_iface [] ls = Inr None"
| "multi_lookup_iface (d # ds) ls =
     (case drv_lookup_iface d ls of
        Inl e \<Rightarrow> Inl e
      | Inr (Some c) \<Rightarrow> Inr (Some c)
      | Inr None \<Rightarrow> multi_lookup_iface ds ls)"

definition new_multi_driver :: "driver list \<Rightarrow> driver" where
  "new_multi_driver ds = \<lparr>drv_lookup = multi_lookup ds, drv_lookup_iface = multi_lookup_iface ds\<rparr>"

text \<open>Every driver of \<open>gen_drivers.go\<close> (\<open>Ec2Driver\<close>, \<open>Elbv2Driver\<close>, \<dots>): the
  function lookup answers the sentinel, the interface lookup answers nil.\<close>

definition gen_driver :: driver where
  "gen_driver = \<lparr>drv_lookup = (\<lambda>_. Inl ErrDriverFnNotFound), drv_lookup_iface = (\<lambda>_. Inr None)\<rparr>"

text \<open>\<open>copyMap\<close>: a nil map (\<open>None\<close>) gives a fresh empty map; a copy of a map
  value is the same map.\<close>

definition copy_map :: "ctx option \<Rightarrow> ctx" where
  "copy_map m = (case m of None \<Rightarrow> Map.empty | Some vs \<Rightarrow> vs)"

text \<open>\<open>NewContext(vars).Variables()\<close>: the context hands out a copy of its variables.\<close>

definition context_variables :: "ctx option \<Rightarrow> ctx" where
  "context_variables vs = copy_map vs"

section \<open>Lemmas\<close>

lemma inject_step_frame:
  "inject_step c ps = Inr c' \<Longrightarrow> c' = c\<lparr>cmd_fields := cmd_fields c'\<rparr>"
  by (auto simp: inject_step_def split: option.splits sum.splits)

lemma multi_collect_gen_drivers:
  "set ds \<subseteq> {gen_driver} \<Longrightarrow> multi_collect ds ls = Inr []"
  by (induction ds) (auto simp: gen_driver_def)

lemma multi_collect_Inr:
  "multi_collect ds ls = Inr fns \<longleftrightarrow>
     list_all (\<lambda>d. case drv_lookup d ls of Inl err \<Rightarrow> err = ErrDriverFnNotFound | Inr f \<Rightarrow> True) ds \<and>
     fns = map projr (filter (\<lambda>r. \<not> isl r) (map (\<lambda>d. drv_lookup d ls) ds))"
proof -
  let ?ok = "\<lambda>d. case drv_lookup d ls of Inl err \<Rightarrow> err = ErrDriverFnNotFound | Inr f \<Rightarrow> True"
  let ?fns = "map projr (filter (\<lambda>r. \<not> isl r) (map (\<lambda>d. drv_lookup d ls) ds))"
  have "multi_collect ds ls = Inr fns \<Longrightarrow> list_all ?ok ds \<and> fns = ?fns" for fns
    by (induction ds arbitrary: fns) (auto split: sum.splits drv_error.splits)
  moreover have "list_all ?ok ds \<Longrightarrow> multi_collect ds ls = Inr ?fns"
    by (induction ds) (auto split: sum.splits drv_error.splits)
  ultimately show ?thesis by blast
qed

text \<open>C27: \<open>MultiDriver.Lookup\<close> returns a function exactly when every driver either
  has the function or answers \<open>ErrDriverFnNotFound\<close>, and exactly one of them has it;
  that function is the one returned.\<close>

theorem multi_lookup_found:
  "multi_lookup ds ls = Inr fn \<longleftrightarrow>
     list_all (\<lambda>d. case drv_lookup d ls of Inl err \<Rightarrow> err = ErrDriverFnNotFound | Inr f \<Rightarrow> True) ds \<and>
     map projr (filter (\<lambda>r. \<not> isl r) (map (\<lambda>d. drv_lookup d ls) ds)) = [fn]"
proof -
  have "multi_lookup ds ls = Inr fn \<longleftrightarrow> multi_collect ds ls = Inr [fn]"
    by (auto simp: multi_lookup_def split: sum.splits list.splits)
  then show ?thesis by (simp add: multi_collect_Inr eq_commute[of "[fn]"])
qed

end
