(* ===== verification/Env.thy ===== *)
theory Env
  imports Template Driver
begin

text \<open>
  The compilation environment of \<open>src/template/compile.go\<close> (\<open>Env\<close>, \<open>NewEnv\<close>,
  \<open>AddFillers\<close>, \<open>addToProcessedFillers\<close>, \<open>GetProcessedFillers\<close>), the helpers
  \<open>foundIn\<close> and \<open>cmdErr\<close>, and the errors of the compiler and the runner as values:
  one constructor per \<open>fmt.Errorf\<close> of the source, carrying its arguments. A Go
  runtime panic (a call through a nil function, a failed type assertion) is the
  constructor \<open>Panic\<close>: the model makes the crash a visible outcome.

  Go function fields that may be nil are \<open>option\<close>s. Maps are HOL maps; the
  \<open>Fillers\<close> map is nil until \<open>AddFillers\<close> creates it, and reading a nil map
  in Go yields nothing, so nil and empty are both \<open>Map.empty\<close>. A definition
  schema (\<open>Definition\<close>, not under \<open>src/\<close>) is its pair of required and extra keys.
\<close>

section \<open>Definitions\<close>

datatype error =
    LookuperUndefined
  | CannotFindCommand string
  | ValidateCannotFindCommand string
  | NormalizeCannotFindCommand string
  | ConvertCannotFindCommand string
  | InjectCannotFindCommand string
  | CmdErr string string string
  | ValidationError string
  | ValidationErrors "string list"
  | DefLookupUndefined
  | NoTemplateDefinition string
  | UnexpectedParamKey string string string "string list" "string list"
  | UndefinedReference ident
  | AlreadyAssigned ident
  | CannotResolveAliases "string list"
  | UnresolvedHoles "string list"
  | UnresolvedAlias "string list"
  | UnknownNodeType
  | NewRunnerNoCommand string string
  | DriverFunctionFailed
  | DriverLookupFailed drv_error
  | Panic string

type_synonym definition_schema = "string list \<times> string list"

record env =
  env_driver :: "driver option"
  lookuper :: "lookup_fn option"
  is_dry_run :: bool
  is_new_runner :: bool
  resolved_variables :: "ident \<rightharpoonup> plain"
  fillers :: "string \<rightharpoonup> val"
  def_lookup_func :: "(string \<Rightarrow> definition_schema option) option"
  alias_func :: "(string \<Rightarrow> string \<Rightarrow> string \<Rightarrow> string) option"
  missing_holes_func :: "(string \<Rightarrow> val) option"
  processed_fillers :: "string \<rightharpoonup> val"

text \<open>\<open>NewEnv\<close>: the default lookuper answers nil for every key.\<close>

definition new_env :: env where
  "new_env =
     \<lparr>env_driver = None, lookuper = Some (\<lambda>_. None), is_dry_run = False,
      is_new_runner = False, resolved_variables = Map.empty, fillers = Map.empty,
      def_lookup_func = None, alias_func = None, missing_holes_func = None,
      processed_fillers = Map.empty\<rparr>"

text \<open>\<open>AddFillers\<close>: the maps are merged in order, a later map overriding.\<close>

definition add_fillers :: "env \<Rightarrow> (string \<rightharpoonup> val) list \<Rightarrow> env" where
  "add_fillers e fs = e\<lparr>fillers := fold (\<lambda>f m. m ++ f) fs (fillers e)\<rparr>"

definition add_to_processed_fillers :: "env \<Rightarrow> (string \<rightharpoonup> val) list \<Rightarrow> env" where
  "add_to_processed_fillers e fs =
     e\<lparr>processed_fillers := fold (\<lambda>f m. m ++ f) fs (processed_fillers e)\<rparr>"

text \<open>\<open>GetProcessedFillers\<close> returns a copy; a copy of a map is the map.\<close>

definition get_processed_fillers :: "env \<Rightarrow> string \<rightharpoonup> val" where
  "get_processed_fillers e = processed_fillers e"

definition found_in :: "string \<Rightarrow> string list \<Rightarrow> bool" where
  "found_in key slice \<longleftrightarrow> (\<exists>k \<in> set slice. k = key)"

text \<open>\<open>cmdErr(node, msg)\<close>: the message prefixed with the node's action and entity.\<close>

definition cmd_err_of :: "command_node \<Rightarrow> string \<Rightarrow> error" where
  "cmd_err_of n msg = CmdErr (action n) (entity n) msg"

text \<open>The command key \<open>fmt.Sprintf("%s%s", node.Action, node.Entity)\<close>.\<close>

definition cmd_key :: "command_node \<Rightarrow> string" where
  "cmd_key n = action n @ entity n"

text \<open>\<open>env.Lookuper(key)\<close> as the passes call it; through a nil lookuper Go panics.\<close>

definition lookup_command :: "env \<Rightarrow> command_node \<Rightarrow> error + command option" where
  "lookup_command e n =
     (case lookuper e of None \<Rightarrow> Inl (Panic ''nil lookuper'') | Some f \<Rightarrow> Inr (f [cmd_key n]))"

text \<open>A pass maps a template and an environment to both, and possibly an error.\<close>

type_synonym pass = "template \<Rightarrow> env \<Rightarrow> template \<times> env \<times> error option"

section \<open>Lemmas\<close>

lemma found_in_iff [simp]: "found_in key slice \<longleftrightarrow> key \<in> set slice"
  by (auto simp: found_in_def)

lemma add_to_processed_fillers_dom [simp]:
  "dom (processed_fillers (add_to_processed_fillers e fs)) =
     dom (processed_fillers e) \<union> (\<Union>f \<in> set fs. dom f)"
proof (induction fs arbitrary: e rule: rev_induct)
  case (snoc f fs)
  then show ?case by (auto simp: add_to_processed_fillers_def)
qed (simp add: add_to_processed_fillers_def)

lemma add_to_processed_fillers_frame [simp]:
  "fillers (add_to_processed_fillers e fs) = fillers e"
  "resolved_variables (add_to_processed_fillers e fs) = resolved_variables e"
  "alias_func (add_to_processed_fillers e fs) = alias_func e"
  "missing_holes_func (add_to_processed_fillers e fs) = missing_holes_func e"
  "lookuper (add_to_processed_fillers e fs) = lookuper e"
  "def_lookup_func (add_to_processed_fillers e fs) = def_lookup_func e"
  by (simp_all add: add_to_processed_fillers_def)

end
