(* ===== verification/Passes.thy ===== *)
theory Passes
  imports Env
begin

text \<open>
  The passes of the lenient and strict pipelines of \<open>src/template/compile.go\<close>, one
  definition per Go function, each of type \<open>pass\<close>: the template, the environment and
  the error the Go function returns. Their loops are the walks of theory
  \<open>Template\<close> or a recursion of their own over the statements, in source order. The
  passes of the new-runner pipeline, which consult command objects, are in theory
  \<open>Command_Passes\<close>.
\<close>

section \<open>Definitions\<close>

subsection \<open>Invalid-reference check\<close>

text \<open>
  \<open>checkInvalidReferenceDeclarationsPass\<close>. The first loop of the Go function fills
  a set \<open>usedRefs\<close> that nothing reads; it has no effect and is not modelled. The
  second loop walks the statements with the identifiers declared so far: the first
  reference of a statement that is not yet declared is an error, and so is a
  declaration of an identifier already declared.
\<close>

fun check_refs_walk :: "ident list \<Rightarrow> stmt list \<Rightarrow> error option" where
  "check_refs_walk known [] = None"
| "check_refs_walk known (st # sts) =
     (case find (\<lambda>r. r \<notin> set known) (expr_refs (extract_expression st)) of
        Some r \<Rightarrow> Some (UndefinedReference r)
      | None \<Rightarrow>
          (case st of
             DeclStmt x e \<Rightarrow>
               (if x \<in> set known then Some (AlreadyAssigned x)
                else check_refs_walk (x # known) sts)
           | CmdStmt n \<Rightarrow> check_refs_walk known sts))"

definition check_invalid_reference_declarations_pass :: pass where
  "check_invalid_reference_declarations_pass tpl e = (tpl, e, check_refs_walk [] (statements tpl))"

text \<open>
  The rule the pass enforces (spec invariants 1 and 2), relative to identifiers \<open>K\<close>
  known before the statements: no identifier is declared twice or redeclares one of
  \<open>K\<close>, and every reference of a statement names an identifier of \<open>K\<close> or one
  declared by an earlier statement.
\<close>

definition scoped :: "ident set \<Rightarrow> stmt list \<Rightarrow> bool" where
  "scoped K sts \<longleftrightarrow>
     distinct (decl_idents sts) \<and> set (decl_idents sts) \<inter> K = {} \<and>
     (\<forall>xs st ys. sts = xs @ st # ys \<longrightarrow>
        set (expr_refs (extract_expression st)) \<subseteq> K \<union> set (decl_idents xs))"

definition well_scoped :: "stmt list \<Rightarrow> bool" where
  "well_scoped sts \<longleftrightarrow> scoped {} sts"

subsection \<open>Definition schemas, holes, aliases, inlining, terminal guards\<close>

text \<open>Adding a hole \<open>entity.key\<close> for a parameter (\<open>node.Params[k] = ast.NewHoleValue(...)\<close>).\<close>

definition add_hole_param :: "string \<Rightarrow> command_node \<Rightarrow> command_node" where
  "add_hole_param k n = n\<lparr>params := AList.update k (Hole (entity n @ ''.'' @ k)) (params n)\<rparr>"

definition def_check_node ::
  "(string \<Rightarrow> definition_schema option) \<Rightarrow> command_node \<Rightarrow> error option" where
  "def_check_node lf n =
     (case lf (cmd_key n) of
        None \<Rightarrow> Some (NoTemplateDefinition (cmd_key n))
      | Some (req, extra) \<Rightarrow>
          (case find (\<lambda>k. \<not> found_in k req \<and> \<not> found_in k extra) (node_keys n) of
             None \<Rightarrow> None
           | Some k \<Rightarrow> Some (UnexpectedParamKey (action n) (entity n) k req extra)))"

definition add_required_holes ::
  "(string \<Rightarrow> definition_schema option) \<Rightarrow> command_node \<Rightarrow> command_node" where
  "add_required_holes lf n =
     fold (\<lambda>r m. if r \<in> set (node_keys m) then m else add_hole_param r m)
       (case lf (cmd_key n) of None \<Rightarrow> [] | Some (req, extra) \<Rightarrow> req) n"

definition resolve_against_definitions :: pass where
  "resolve_against_definitions tpl e =
     (case def_lookup_func e of
        None \<Rightarrow> (tpl, e, Some DefLookupUndefined)
      | Some lf \<Rightarrow>
          (case snd (visit_command_nodes_e
                       (\<lambda>n. case def_check_node lf n of None \<Rightarrow> Inr n | Some err \<Rightarrow> Inl err)
                       (statements tpl)) of
             Some err \<Rightarrow> (tpl, e, Some err)
           | None \<Rightarrow>
               (tpl\<lparr>statements := map_command_nodes (add_required_holes lf) (statements tpl)\<rparr>,
                e, None)))"

text \<open>The fill step both hole passes end with: every expression consumes the fillers
  its holes name, and what it consumed is added to the processed fillers.\<close>

definition process_holes_step :: "(string \<rightharpoonup> val) \<Rightarrow> template \<Rightarrow> env \<Rightarrow> template \<times> env" where
  "process_holes_step f tpl e =
     (tpl\<lparr>statements := map (map_stmt_vals (\<lambda>_ _. fill_holes f)) (statements tpl)\<rparr>,
      add_to_processed_fillers e
        (map (\<lambda>x. f |` set (expr_holes x)) (expression_nodes (statements tpl))))"

definition resolve_holes_pass :: pass where
  "resolve_holes_pass tpl e =
     (let (tpl', e') = process_holes_step (fillers e) tpl e in (tpl', e', None))"

definition missing_hole_prompts :: "stmt list \<Rightarrow> string list" where
  "missing_hole_prompts sts = sort (remdups (tpl_holes sts))"

definition missing_fillers :: "env \<Rightarrow> string list \<Rightarrow> string \<rightharpoonup> val" where
  "missing_fillers e ks =
     (case missing_holes_func e of
        None \<Rightarrow> Map.empty
      | Some f \<Rightarrow> map_of (map (\<lambda>k. (k, f k)) ks))"

definition resolve_missing_holes_pass :: pass where
  "resolve_missing_holes_pass tpl e =
     (let (tpl', e') =
        process_holes_step (missing_fillers e (missing_hole_prompts (statements tpl))) tpl e
      in (tpl', e', None))"

text \<open>The closure \<open>resolvAliasFunc(entity, key)\<close>: with no alias function every alias is
  left as it is and nothing is recorded; an empty answer records the alias as failed.\<close>

definition alias_resolver :: "env \<Rightarrow> string \<Rightarrow> string \<Rightarrow> string \<Rightarrow> string option \<times> string list" where
  "alias_resolver e ent key a =
     (case alias_func e of
        None \<Rightarrow> (None, [])
      | Some f \<Rightarrow> (let r = f ent key a in if r = '''' then (None, [a]) else (Some r, [])))"

definition failed_aliases :: "env \<Rightarrow> stmt list \<Rightarrow> string list" where
  "failed_aliases e sts =
     concat (map (\<lambda>(ent, key, v). concat (map (snd \<circ> alias_resolver e ent key) (aliases_of v)))
       (concat (map stmt_vals sts)))"

definition resolve_alias_pass :: pass where
  "resolve_alias_pass tpl e =
     (let sts = statements tpl;
          sts' = map (map_stmt_vals (\<lambda>ent key. subst_alias (fst \<circ> alias_resolver e ent key))) sts;
          failed = failed_aliases e sts
      in (tpl\<lparr>statements := sts'\<rparr>, e,
          if failed = [] then None else Some (CannotResolveAliases failed)))"

function inline_walk :: "(ident \<rightharpoonup> plain) \<Rightarrow> stmt list \<Rightarrow> stmt list \<times> (ident \<rightharpoonup> plain)" where
  "inline_walk rv [] = ([], rv)"
| "inline_walk rv (st # sts) =
     (case st of
        DeclStmt x (ValueExpr v) \<Rightarrow>
          (let rv' = (case value_of v of None \<Rightarrow> rv | Some p \<Rightarrow> rv(x \<mapsto> p));
               (rest, rv'') = inline_walk rv' (map (map_stmt_vals (\<lambda>_ _. replace_ref x v)) sts)
           in (if is_resolved v then rest else st # rest, rv''))
      | _ \<Rightarrow> (let (rest, rv') = inline_walk rv sts in (st # rest, rv')))"
  by pat_completeness auto
termination
  by (relation "measure (\<lambda>(rv, sts). length sts)") auto

definition inline_variable_value_pass :: pass where
  "inline_variable_value_pass tpl e =
     (let (sts', rv) = inline_walk (resolved_variables e) (statements tpl)
      in (tpl\<lparr>statements := sts'\<rparr>, e\<lparr>resolved_variables := rv\<rparr>, None))"

definition fail_on_unresolved_holes_pass :: pass where
  "fail_on_unresolved_holes_pass tpl e =
     (let unresolved = tpl_holes (statements tpl)
      in (tpl, e, if unresolved = [] then None else Some (UnresolvedHoles unresolved)))"

definition fail_on_unresolved_alias_pass :: pass where
  "fail_on_unresolved_alias_pass tpl e =
     (let unresolved = tpl_aliases (statements tpl)
      in (tpl, e, if unresolved = [] then None else Some (UnresolvedAlias unresolved)))"

subsection \<open>Passes that only shrink what a statement holds\<close>

text \<open>\<open>stmt_sub C s s'\<close>: statement \<open>s'\<close> declares what \<open>s\<close> declares, and holds no
  more of the collector \<open>C\<close> (holes, references or aliases) than \<open>s\<close>.\<close>

primrec decl_ident_of :: "stmt \<Rightarrow> ident option" where
  "decl_ident_of (CmdStmt n) = None"
| "decl_ident_of (DeclStmt x e) = Some x"

definition stmt_sub :: "(expr_node \<Rightarrow> string list) \<Rightarrow> stmt \<Rightarrow> stmt \<Rightarrow> bool" where
  "stmt_sub C s s' \<longleftrightarrow>
     decl_ident_of s' = decl_ident_of s \<and>
     set (C (extract_expression s')) \<subseteq> set (C (extract_expression s))"

section \<open>Lemmas\<close>

subsection \<open>Scoping\<close>

lemma scoped_Nil [simp]: "scoped K []"
  by (simp add: scoped_def)

lemma scoped_Cons:
  "scoped K (st # sts) \<longleftrightarrow>
     set (expr_refs (extract_expression st)) \<subseteq> K \<and>
     (case st of
        DeclStmt x e \<Rightarrow> x \<notin> K \<and> scoped (insert x K) sts
      | CmdStmt n \<Rightarrow> scoped K sts)"
proof -
  have split: "(\<forall>xs s ys. st # sts = xs @ s # ys \<longrightarrow> P xs s) \<longleftrightarrow>
      P [] st \<and> (\<forall>xs s ys. sts = xs @ s # ys \<longrightarrow> P (st # xs) s)" for P
    by (auto simp: Cons_eq_append_conv)
  show ?thesis
  proof (cases st)
    case (CmdStmt n)
    then show ?thesis
      unfolding scoped_def
      by (subst split[where P = "\<lambda>xs s. set (expr_refs (extract_expression s))
            \<subseteq> K \<union> set (decl_idents xs)"]) auto
  next
    case (DeclStmt x e)
    then show ?thesis
      unfolding scoped_def
      by (subst split[where P = "\<lambda>xs s. set (expr_refs (extract_expression s))
            \<subseteq> K \<union> set (decl_idents xs)"]) auto
  qed
qed

lemma check_refs_walk_None_iff: "check_refs_walk known sts = None \<longleftrightarrow> scoped (set known) sts"
proof (induction sts arbitrary: known)
  case (Cons st sts)
  have refs0: "find (\<lambda>r. r \<notin> set known) (expr_refs (extract_expression st)) = None \<longleftrightarrow>
      set (expr_refs (extract_expression st)) \<subseteq> set known"
    by (auto simp: find_None_iff)
  show ?case
  proof (cases st)
    case (CmdStmt n)
    with Cons.IH[of known] refs0 show ?thesis
      by (auto simp: scoped_Cons split: option.splits)
  next
    case (DeclStmt x e)
    with Cons.IH[of "x # known"] refs0 show ?thesis
      by (auto simp: scoped_Cons split: option.splits)
  qed
qed simp


subsection \<open>Holes and aliases\<close>

lemma process_holes_step_frame [simp]:
  "tpl_id (fst (process_holes_step f tpl e)) = tpl_id tpl"
  "decl_idents (statements (fst (process_holes_step f tpl e))) = decl_idents (statements tpl)"
  "fillers (snd (process_holes_step f tpl e)) = fillers e"
  "resolved_variables (snd (process_holes_step f tpl e)) = resolved_variables e"
  "alias_func (snd (process_holes_step f tpl e)) = alias_func e"
  "missing_holes_func (snd (process_holes_step f tpl e)) = missing_holes_func e"
  by (simp_all add: process_holes_step_def)

lemma process_holes_step_holes:
  assumes "\<forall>w \<in> ran f. holes_of w = []"
  shows "set (tpl_holes (statements (fst (process_holes_step f tpl e)))) =
           set (tpl_holes (statements tpl)) - dom f"
proof -
  let ?sts = "statements tpl"
  have "set (tpl_holes (map (map_stmt_vals (\<lambda>_ _. fill_holes f)) ?sts)) =
      (\<Union>(e, k, v) \<in> set (all_vals ?sts). set (holes_of (fill_holes f v)))"
    by (rule set_tpl_collectors_map_stmt_vals)
  also have "\<dots> = (\<Union>(e, k, v) \<in> set (all_vals ?sts). set (holes_of v)) - dom f"
    using holes_fill_holes[OF assms] by auto
  also have "\<dots> = set (tpl_holes ?sts) - dom f"
    by (simp add: set_tpl_collectors)
  finally show ?thesis by (simp add: process_holes_step_def)
qed

lemma process_holes_step_env:
  "snd (process_holes_step f tpl e) =
     e\<lparr>processed_fillers := processed_fillers e ++ f |` set (tpl_holes (statements tpl))\<rparr>"
  by (simp add: process_holes_step_def add_to_processed_fillers_def fold_map_add_restrict
      tpl_holes_def)

lemma process_holes_step_processed:
  "processed_fillers (snd (process_holes_step f tpl e)) =
     processed_fillers e ++ f |` set (tpl_holes (statements tpl))"
  by (simp add: process_holes_step_def add_to_processed_fillers_def fold_map_add_restrict
      tpl_holes_def)

text \<open>When no filler value holds a hole that has a filler, a second fill step with the
  same fillers changes nothing: the holes left are not filled, so nothing is consumed.\<close>

lemma process_holes_step_idem:
  assumes "\<forall>w \<in> ran f. set (holes_of w) \<inter> dom f = {}"
  shows "process_holes_step f (fst (process_holes_step f tpl e)) (snd (process_holes_step f tpl e)) =
           process_holes_step f tpl e"
proof -
  let ?t1 = "fst (process_holes_step f tpl e)" and ?e1 = "snd (process_holes_step f tpl e)"
  have t1: "statements ?t1 = map (map_stmt_vals (\<lambda>_ _. fill_holes f)) (statements tpl)"
    by (simp add: process_holes_step_def)
  have "set (tpl_holes (statements ?t1)) =
      (\<Union>(e, k, v) \<in> set (all_vals (statements tpl)). set (holes_of (fill_holes f v)))"
    unfolding t1 by (rule set_tpl_collectors_map_stmt_vals)
  then have disj: "set (tpl_holes (statements ?t1)) \<inter> dom f = {}"
    using holes_fill_holes_outside[of f] assms by fastforce
  then have noh: "set (holes_of v) \<inter> dom f = {}"
    if "(e', k, v) \<in> set (all_vals (statements ?t1))" for e' k v
    using that by (auto simp: set_tpl_collectors)
  have "map (map_stmt_vals (\<lambda>_ _. fill_holes f)) (statements ?t1) = statements ?t1"
    by (rule map_stmt_vals_id_all) (simp add: fill_holes_no_dom noh)
  then have "fst (process_holes_step f ?t1 ?e1) = ?t1"
    by (simp add: process_holes_step_def[of f ?t1 ?e1])
  moreover have "f |` set (tpl_holes (statements ?t1)) = Map.empty"
    using disj by (auto simp: restrict_map_def fun_eq_iff)
  then have "snd (process_holes_step f ?t1 ?e1) = ?e1"
    by (simp add: process_holes_step_env)
  ultimately show ?thesis by (simp add: prod_eq_iff)
qed

lemma missing_fillers_Some:
  assumes "missing_holes_func e = Some f"
  shows "missing_fillers e ks = (\<lambda>k. if k \<in> set ks then Some (f k) else None)"
proof -
  have "map_of (map (\<lambda>k. (k, f k)) ks) k = (if k \<in> set ks then Some (f k) else None)" for k
    by (induction ks) auto
  with assms show ?thesis by (auto simp: missing_fillers_def)
qed

lemma missing_fillers_dom: "missing_holes_func e = Some f \<Longrightarrow> dom (missing_fillers e ks) = set ks"
  by (auto simp: missing_fillers_Some split: if_splits)

lemma missing_fillers_ran:
  "missing_holes_func e = Some f \<Longrightarrow> ran (missing_fillers e ks) = f ` set ks"
  by (auto simp: missing_fillers_Some ran_def split: if_splits)

lemma missing_hole_prompts_props:
  "sorted (missing_hole_prompts sts)" "distinct (missing_hole_prompts sts)"
  "set (missing_hole_prompts sts) = set (tpl_holes sts)"
  by (simp_all add: missing_hole_prompts_def)

lemma resolve_missing_holes_no_holes:
  assumes "missing_holes_func e = Some f" and "\<forall>k. holes_of (f k) = []"
  shows "tpl_holes (statements (fst (resolve_missing_holes_pass tpl e))) = []"
proof -
  let ?F = "missing_fillers e (missing_hole_prompts (statements tpl))"
  have "\<forall>w \<in> ran ?F. holes_of w = []"
    using assms by (simp add: missing_fillers_ran)
  then have "set (tpl_holes (statements (fst (process_holes_step ?F tpl e)))) =
      set (tpl_holes (statements tpl)) - dom ?F"
    by (rule process_holes_step_holes)
  also have "\<dots> = {}"
    using assms(1) by (simp add: missing_fillers_dom missing_hole_prompts_props)
  finally show ?thesis
    by (simp add: resolve_missing_holes_pass_def split_def Let_def)
qed

lemma alias_resolver_Some_sel:
  "alias_func e = Some f \<Longrightarrow>
     fst (alias_resolver e ent key a) = (if f ent key a = '''' then None else Some (f ent key a))"
  "alias_func e = Some f \<Longrightarrow>
     snd (alias_resolver e ent key a) = (if f ent key a = '''' then [a] else [])"
  by (simp_all add: alias_resolver_def Let_def)

lemma failed_aliases_Some:
  "alias_func e = Some f \<Longrightarrow>
     failed_aliases e sts =
       concat (map (\<lambda>(ent, key, v). filter (\<lambda>a. f ent key a = '''') (aliases_of v)) (all_vals sts))"
  by (auto simp: failed_aliases_def alias_resolver_Some_sel all_vals_def[symmetric] comp_def
      intro!: arg_cong[where f = concat])

lemma resolve_alias_pass_remaining:
  "alias_func e = Some f \<Longrightarrow>
     tpl_aliases (statements (fst (resolve_alias_pass tpl e))) = failed_aliases e (statements tpl)"
  by (auto simp: resolve_alias_pass_def Let_def tpl_collectors_map_stmt_vals aliases_subst_alias
      failed_aliases_Some alias_resolver_Some_sel comp_def intro!: arg_cong[where f = concat])

lemma subst_alias_None [simp]: "subst_alias (\<lambda>_. None) v = v"
  by (induction v) (simp_all add: map_idI)

subsection \<open>Inlining\<close>

lemma stmt_refs_replace_ref:
  "set (expr_refs (extract_expression (map_stmt_vals (\<lambda>_ _. replace_ref x w) st))) =
     set (expr_refs (extract_expression st)) - {x} \<union>
     (if x \<in> set (expr_refs (extract_expression st)) then set (refs_of w) else {})"
proof -
  have "set (expr_refs (extract_expression (map_stmt_vals (\<lambda>_ _. replace_ref x w) st))) =
      (\<Union>(e, k, v) \<in> set (stmt_vals st). set (refs_of (replace_ref x w v)))"
    by (simp add: extract_map_stmt_vals split_def)
  moreover have "set (expr_refs (extract_expression st)) =
      (\<Union>(e, k, v) \<in> set (stmt_vals st). set (refs_of v))"
    by (simp add: stmt_vals_collectors(2)[symmetric] split_def)
  ultimately show ?thesis
    by (auto simp: refs_replace_ref split: if_splits)
qed

lemma map_stmt_vals_kind:
  "map_stmt_vals f (CmdStmt n) = CmdStmt (node_map_vals f n)"
  "\<exists>e'. map_stmt_vals f (DeclStmt x e) = DeclStmt x e'"
  by (cases e; simp)+

lemma scoped_mono:
  "scoped K sts \<Longrightarrow> K \<subseteq> K' \<Longrightarrow> set (decl_idents sts) \<inter> K' = {} \<Longrightarrow> scoped K' sts"
  unfolding scoped_def by blast

lemma scoped_decls: "scoped K sts \<Longrightarrow> set (decl_idents sts) \<inter> K = {}"
  by (simp add: scoped_def)

lemma scoped_replace_ref:
  "scoped (insert x K) sts \<Longrightarrow> set (refs_of w) \<subseteq> K \<Longrightarrow> x \<notin> K \<Longrightarrow>
     scoped K (map (map_stmt_vals (\<lambda>_ _. replace_ref x w)) sts)"
proof (induction sts arbitrary: K)
  case Nil
  then show ?case by simp
next
  case (Cons st sts)
  have refs: "set (expr_refs (extract_expression (map_stmt_vals (\<lambda>_ _. replace_ref x w) st)))
      \<subseteq> K"
    using Cons.prems by (auto simp: stmt_refs_replace_ref scoped_Cons)
  show ?case
  proof (cases st)
    case (CmdStmt n)
    with Cons refs show ?thesis by (auto simp: scoped_Cons)
  next
    case (DeclStmt y e)
    then obtain e' where st': "map_stmt_vals (\<lambda>_ _. replace_ref x w) st = DeclStmt y e'"
      using map_stmt_vals_kind(2) by blast
    from Cons.prems DeclStmt have y: "y \<notin> insert x K"
      and rest: "scoped (insert x (insert y K)) sts"
      by (auto simp: scoped_Cons insert_commute)
    have "scoped (insert y K) (map (map_stmt_vals (\<lambda>_ _. replace_ref x w)) sts)"
      using Cons.IH[OF rest] Cons.prems y by auto
    with refs st' y show ?thesis by (simp add: scoped_Cons)
  qed
qed

lemma inline_walk_scoped:
  "scoped K sts \<Longrightarrow> scoped K (fst (inline_walk rv sts))"
proof (induction rv sts arbitrary: K rule: inline_walk.induct)
  case (1 rv)
  then show ?case by simp
next
  case (2 rv st sts)
  show ?case
  proof (cases st)
    case (CmdStmt n)
    with "2" show ?thesis by (auto simp: scoped_Cons split: prod.splits)
  next
    case (DeclStmt x e)
    show ?thesis
    proof (cases e)
      case (CmdExpr n)
      with DeclStmt "2" show ?thesis by (auto simp: scoped_Cons split: prod.splits)
    next
      case (ValueExpr v)
      let ?rv' = "case value_of v of None \<Rightarrow> rv | Some p \<Rightarrow> rv(x \<mapsto> p)"
      let ?sts' = "map (map_stmt_vals (\<lambda>_ _. replace_ref x v)) sts"
      from "2.prems" DeclStmt ValueExpr have refs: "set (refs_of v) \<subseteq> K" and x: "x \<notin> K"
        and rest: "scoped (insert x K) sts"
        by (auto simp: scoped_Cons)
      have sc: "scoped K ?sts'"
        using scoped_replace_ref[OF rest refs x] .
      have IH: "scoped K' (fst (inline_walk ?rv' ?sts'))" if "scoped K' ?sts'" for K'
        using "2.IH"(3)[OF DeclStmt ValueExpr refl, of K'] that by simp
      have "x \<notin> set (decl_idents ?sts')"
        using scoped_decls[OF rest] by auto
      then have sc': "scoped (insert x K) ?sts'"
        using scoped_mono[OF sc, of "insert x K"] scoped_decls[OF sc] by blast
      show ?thesis
        using IH[OF sc] IH[OF sc'] refs x DeclStmt ValueExpr
        by (auto simp: scoped_Cons split: prod.splits)
    qed
  qed
qed


subsection \<open>Definition schemas\<close>

lemma node_keys_add_hole_param [simp]:
  "set (node_keys (add_hole_param k n)) = insert k (set (node_keys n))"
  by (simp add: add_hole_param_def node_keys_def)

lemma add_hole_param_frame [simp]:
  "action (add_hole_param k n) = action n" "entity (add_hole_param k n) = entity n"
  "cmd_key (add_hole_param k n) = cmd_key n"
  by (simp_all add: add_hole_param_def cmd_key_def)

lemma add_required_holes_frame [simp]:
  "action (add_required_holes lf n) = action n" "entity (add_required_holes lf n) = entity n"
  "cmd_key (add_required_holes lf n) = cmd_key n"
proof -
  have "action (fold (\<lambda>r m. if r \<in> set (node_keys m) then m else add_hole_param r m) rs m) =
      action m \<and> entity (fold (\<lambda>r m. if r \<in> set (node_keys m) then m else add_hole_param r m) rs m) =
      entity m" for rs m
    by (induction rs arbitrary: m) auto
  then show "action (add_required_holes lf n) = action n" "entity (add_required_holes lf n) = entity n"
    "cmd_key (add_required_holes lf n) = cmd_key n"
    by (simp_all add: add_required_holes_def cmd_key_def)
qed

lemma add_required_holes_keys:
  "lf (cmd_key n) = Some (req, extra) \<Longrightarrow>
     set (node_keys (add_required_holes lf n)) = set (node_keys n) \<union> set req"
proof -
  have "set (node_keys (fold (\<lambda>r m. if r \<in> set (node_keys m) then m else add_hole_param r m) rs m))
      = set (node_keys m) \<union> set rs" for rs m
    by (induction rs arbitrary: m) auto
  then show "lf (cmd_key n) = Some (req, extra) \<Longrightarrow> ?thesis"
    by (simp add: add_required_holes_def)
qed

lemma def_check_node_None_iff:
  "def_check_node lf n = None \<longleftrightarrow>
     (\<exists>req extra. lf (cmd_key n) = Some (req, extra) \<and> set (node_keys n) \<subseteq> set req \<union> set extra)"
  by (auto simp: def_check_node_def find_None_iff dest!: find_Some_iff[THEN iffD1]
      split: option.splits) (use nth_mem in blast)

lemma node_map_vals_frame [simp]:
  "action (node_map_vals f n) = action n" "entity (node_map_vals f n) = entity n"
  "cmd_key (node_map_vals f n) = cmd_key n" "node_keys (node_map_vals f n) = node_keys n"
  by (simp_all add: node_map_vals_def cmd_key_def node_keys_def comp_def split_def)

subsection \<open>Inlining, continued\<close>

lemma inline_walk_command_nodes:
  "map (\<lambda>n. (cmd_key n, node_keys n)) (command_nodes (fst (inline_walk rv sts))) =
     map (\<lambda>n. (cmd_key n, node_keys n)) (command_nodes sts)"
proof (induction rv sts rule: inline_walk.induct)
  case (2 rv st sts)
  show ?case
  proof (cases st)
    case (CmdStmt n)
    with "2.IH"(1) show ?thesis by (simp add: split_def Let_def)
  next
    case (DeclStmt x e)
    then show ?thesis
    proof (cases e)
      case (CmdExpr n)
      with DeclStmt "2.IH"(2) show ?thesis by (simp add: split_def Let_def)
    next
      case (ValueExpr v)
      with DeclStmt "2.IH"(3)[OF DeclStmt ValueExpr refl] show ?thesis
        by (simp add: comp_def split_def Let_def)
    qed
  qed
qed simp

lemma inline_walk_no_resolved_decls:
  "DeclStmt x (ValueExpr v) \<in> set (fst (inline_walk rv sts)) \<Longrightarrow> \<not> is_resolved v"
proof (induction rv sts rule: inline_walk.induct)
  case (2 rv st sts)
  show ?case
  proof (cases st)
    case (CmdStmt n)
    with "2.IH"(1) "2.prems" show ?thesis by (auto split: prod.splits)
  next
    case (DeclStmt y e)
    then show ?thesis
    proof (cases e)
      case (CmdExpr n)
      with DeclStmt "2.IH"(2) "2.prems" show ?thesis by (auto split: prod.splits)
    next
      case (ValueExpr w)
      with DeclStmt "2.IH"(3)[OF DeclStmt ValueExpr refl] "2.prems" show ?thesis
        by (auto split: prod.splits if_splits)
    qed
  qed
qed simp


subsection \<open>Shrinking passes\<close>

lemma decl_idents_stmt_sub:
  "list_all2 (stmt_sub C) sts sts' \<Longrightarrow> decl_idents sts' = decl_idents sts"
proof (induction rule: list_all2_induct)
  case (Cons s sts s' sts')
  then show ?case by (cases s; cases s') (auto simp: stmt_sub_def)
qed simp

lemma scoped_stmt_sub:
  "list_all2 (stmt_sub expr_refs) sts sts' \<Longrightarrow> scoped K sts \<Longrightarrow> scoped K sts'"
proof (induction arbitrary: K rule: list_all2_induct)
  case (Cons s sts s' sts')
  then show ?case
    by (cases s; cases s') (auto simp: stmt_sub_def scoped_Cons)
qed simp

lemma collector_stmt_sub:
  "list_all2 (stmt_sub C) sts sts' \<Longrightarrow>
     set (concat (map C (expression_nodes sts'))) \<subseteq> set (concat (map C (expression_nodes sts)))"
  by (induction rule: list_all2_induct) (auto simp: stmt_sub_def expression_nodes_def)

lemma stmt_sub_refl [simp]: "list_all2 (stmt_sub C) sts sts"
  by (simp add: list_all2_refl stmt_sub_def)

lemma stmt_sub_map_stmt_vals:
  assumes "\<And>e k v. set (refs_of (f e k v)) \<subseteq> set (refs_of v)"
  shows "list_all2 (stmt_sub expr_refs) sts (map (map_stmt_vals f) sts)"
proof -
  have "stmt_sub expr_refs st (map_stmt_vals f st)" for st
  proof -
    have "set (expr_refs (extract_expression (map_stmt_vals f st))) =
        (\<Union>(e, k, v) \<in> set (stmt_vals st). set (refs_of (f e k v)))"
      by (simp add: extract_map_stmt_vals split_def)
    also have "\<dots> \<subseteq> (\<Union>(e, k, v) \<in> set (stmt_vals st). set (refs_of v))"
      using assms by (fastforce simp: split_def)
    also have "\<dots> = set (expr_refs (extract_expression st))"
      by (simp add: stmt_vals_collectors(2)[symmetric] split_def)
    finally show ?thesis
      by (cases "(f, st)" rule: map_stmt_vals.cases) (auto simp: stmt_sub_def)
  qed
  then show ?thesis by (simp add: list_all2_conv_all_nth)
qed

lemma stmt_sub_visit:
  assumes "\<And>n m. f n = Inr m \<Longrightarrow> set (C (CmdExpr m)) \<subseteq> set (C (CmdExpr n))"
  shows "list_all2 (stmt_sub C) sts (fst (visit_command_nodes_e f sts))"
  using assms
  by (induction f sts rule: visit_command_nodes_e.induct)
     (auto simp: stmt_sub_def list_all2_refl split: sum.splits prod.splits)

end
