(* ===== verification/Command_Passes.thy ===== *)
theory Command_Passes
  imports Passes
begin

text \<open>
  The passes of the new-runner pipeline of \<open>src/template/compile.go\<close>, which consult the
  command objects the environment's lookuper returns: \<open>verifyCommandsDefinedPass\<close>,
  \<open>validateCommandsParamsPass\<close>, \<open>normalizeMissingRequiredParamsAsHolePass\<close>,
  \<open>convertParamsPass\<close>, \<open>validateCommandsPass\<close> and \<open>injectCommandsPass\<close>.

  Each per-node callback is a function \<open>command_node \<Rightarrow> error + command_node\<close> run by
  \<open>visit_command_nodes_e\<close>, the model of \<open>visitCommandNodesE\<close>: nodes before a
  failing one are already rewritten (the Go callbacks mutate the nodes in place), the
  rest untouched. Calling a nil lookuper and asserting a nil interface to
  \<open>ast.Command\<close> are Go panics, the error \<open>Panic\<close>; a panic is never swallowed.
\<close>

section \<open>Definitions\<close>

text \<open>\<open>verifyCommandsDefinedPass\<close>: the first command node with no command is an error.\<close>

definition verify_commands_defined_pass :: pass where
  "verify_commands_defined_pass tpl e =
     (case lookuper e of
        None \<Rightarrow> (tpl, e, Some LookuperUndefined)
      | Some lf \<Rightarrow>
          (case find (\<lambda>n. lf [cmd_key n] = None) (command_nodes (statements tpl)) of
             Some n \<Rightarrow> (tpl, e, Some (CannotFindCommand (cmd_key n)))
           | None \<Rightarrow> (tpl, e, None)))"

text \<open>The callback of \<open>validateCommandsParamsPass\<close>: the command must implement
  \<open>ValidateParams\<close>, and the node's keys must pass it.\<close>

definition validate_params_node :: "env \<Rightarrow> command_node \<Rightarrow> error + command_node" where
  "validate_params_node e n =
     (case lookup_command e n of
        Inl p \<Rightarrow> Inl p
      | Inr None \<Rightarrow> Inl (ValidateCannotFindCommand (cmd_key n))
      | Inr (Some c) \<Rightarrow>
          (case cmd_validate_params c of
             None \<Rightarrow> Inl (cmd_err_of n ''command does not implement param validation'')
           | Some vp \<Rightarrow>
               (case snd (vp (node_keys n)) of
                  Some err \<Rightarrow> Inl (cmd_err_of n err)
                | None \<Rightarrow> Inr n)))"

definition validate_commands_params_pass :: pass where
  "validate_commands_params_pass tpl e =
     (tpl, e, snd (visit_command_nodes_e (validate_params_node e) (statements tpl)))"

text \<open>The callback of \<open>normalizeMissingRequiredParamsAsHolePass\<close>: every key the command
  reports missing becomes the hole \<open>entity.key\<close> (\<open>node.Params[e] = ...\<close>).\<close>

definition normalize_node :: "env \<Rightarrow> command_node \<Rightarrow> error + command_node" where
  "normalize_node e n =
     (case lookup_command e n of
        Inl p \<Rightarrow> Inl p
      | Inr None \<Rightarrow> Inl (NormalizeCannotFindCommand (cmd_key n))
      | Inr (Some c) \<Rightarrow>
          (case cmd_validate_params c of
             None \<Rightarrow> Inl (cmd_err_of n ''command does not implement param normalization'')
           | Some vp \<Rightarrow>
               (case vp (node_keys n) of
                  (missing, Some err) \<Rightarrow> Inl (cmd_err_of n err)
                | (missing, None) \<Rightarrow> Inr (fold add_hole_param missing n))))"

definition normalize_missing_required_params_as_hole_pass :: pass where
  "normalize_missing_required_params_as_hole_pass tpl e =
     (let (sts', err) = visit_command_nodes_e (normalize_node e) (statements tpl)
      in (tpl\<lparr>statements := sts'\<rparr>, e, err))"

text \<open>
  The callback of \<open>convertParamsPass\<close>: the driver-form values of the converter's keys
  go through the converter; the keys are deleted and its output merged back as literal
  values (\<open>ast.NewInterfaceValue\<close>). A command without a converter is left alone.
\<close>

text \<open>The converter's input: the driver parameters of the node for the converter's keys.\<close>

definition convert_values :: "string list \<Rightarrow> command_node \<Rightarrow> dparams" where
  "convert_values keys n =
     List.map_filter (\<lambda>k. map_option (Pair k) (map_of (to_driver_params n) k)) keys"

definition convert_node :: "env \<Rightarrow> command_node \<Rightarrow> error + command_node" where
  "convert_node e n =
     (case lookup_command e n of
        Inl p \<Rightarrow> Inl p
      | Inr None \<Rightarrow> Inl (ConvertCannotFindCommand (cmd_key n))
      | Inr (Some c) \<Rightarrow>
          (case cmd_convert_params c of
             None \<Rightarrow> Inr n
           | Some (keys, conv) \<Rightarrow>
               (case conv (convert_values keys n) of
                  Inl err \<Rightarrow> Inl (cmd_err_of n err)
                | Inr converted \<Rightarrow>
                    Inr (n\<lparr>params :=
                           fold (\<lambda>(k, v). AList.update k (of_plain v)) converted
                             (fold AList.delete keys (params n))\<rparr>))))"

text \<open>The Go pass drops the error of its walk (\<open>tpl.visitCommandNodesE(convert)\<close>
  with the result unused): only a panic escapes.\<close>

definition panics_only :: "error option \<Rightarrow> error option" where
  "panics_only err = (case err of Some (Panic m) \<Rightarrow> Some (Panic m) | _ \<Rightarrow> None)"

definition convert_params_pass :: pass where
  "convert_params_pass tpl e =
     (let (sts', err) = visit_command_nodes_e (convert_node e) (statements tpl)
      in (tpl\<lparr>statements := sts'\<rparr>, e, panics_only err))"

text \<open>
  \<open>validateCommandsPass\<close>. The keys of the parameters that still hold a reference;
  Go ranges over the parameter map, the model over the association list.
\<close>

definition ref_keys :: "command_node \<Rightarrow> string list" where
  "ref_keys n = map fst (filter (\<lambda>(k, v). refs_of v \<noteq> []) (params n))"

text \<open>The callback appends each message of \<open>ValidateCommand\<close>, prefixed with the
  node's action and entity, to \<open>errs\<close>; the walk stops at a node with no command.\<close>

fun validate_walk :: "env \<Rightarrow> command_node list \<Rightarrow> string list \<times> error option" where
  "validate_walk e [] = ([], None)"
| "validate_walk e (n # ns) =
     (case lookup_command e n of
        Inl p \<Rightarrow> ([], Some p)
      | Inr None \<Rightarrow> ([], Some (ValidateCannotFindCommand (cmd_key n)))
      | Inr (Some c) \<Rightarrow>
          (let errs = (case cmd_validate_command c of
                         None \<Rightarrow> []
                       | Some vc \<Rightarrow>
                           map (\<lambda>m. action n @ '' '' @ entity n @ '': '' @ m)
                             (vc (to_driver_params n) (ref_keys n)));
               (rest, stop) = validate_walk e ns
           in (errs @ rest, stop)))"

definition validate_commands_pass :: pass where
  "validate_commands_pass tpl e =
     (let (errs, stop) = validate_walk e (command_nodes (statements tpl))
      in (tpl, e,
          case panics_only stop of
            Some p \<Rightarrow> Some p
          | None \<Rightarrow>
              (case errs of
                 [] \<Rightarrow> None
               | [m] \<Rightarrow> Some (ValidationError m)
               | ms \<Rightarrow> Some (ValidationErrors ms))))"

text \<open>
  \<open>injectCommandsPass\<close>: \<open>node.Command = env.Lookuper(key).(ast.Command)\<close>. The
  non-checked type assertion panics when the lookuper answers nil, before the
  \<open>node.Command == nil\<close> test that follows it can run.
\<close>

definition inject_node :: "env \<Rightarrow> command_node \<Rightarrow> error + command_node" where
  "inject_node e n =
     (case lookup_command e n of
        Inl p \<Rightarrow> Inl p
      | Inr None \<Rightarrow> Inl (Panic ''interface conversion: interface is nil, not ast.Command'')
      | Inr (Some c) \<Rightarrow> Inr (n\<lparr>node_command := Some c\<rparr>))"

definition inject_commands_pass :: pass where
  "inject_commands_pass tpl e =
     (let (sts', err) = visit_command_nodes_e (inject_node e) (statements tpl)
      in (tpl\<lparr>statements := sts'\<rparr>, e, err))"

section \<open>Lemmas\<close>

lemma panics_only_simps [simp]:
  "panics_only None = None" "panics_only (Some (Panic m)) = Some (Panic m)"
  "(\<forall>m. err \<noteq> Panic m) \<Longrightarrow> panics_only (Some err) = None"
  by (auto simp: panics_only_def split: error.splits)

lemma panics_only_cases: "panics_only err = None \<or> (\<exists>m. panics_only err = Some (Panic m))"
  by (auto simp: panics_only_def split: option.splits error.splits)


subsection \<open>What conversion and injection do to a node\<close>

lemma vals_collector_subset:
  assumes "snd ` set ps \<subseteq> snd ` set qs \<union> range of_plain" and "\<And>p. C (of_plain p) = []"
  shows "set (concat (map (C \<circ> snd) ps)) \<subseteq> set (concat (map (C \<circ> snd) qs))"
proof
  fix x assume "x \<in> set (concat (map (C \<circ> snd) ps))"
  then obtain kv where kv: "kv \<in> set ps" "x \<in> set (C (snd kv))" by auto
  with assms(1) have "snd kv \<in> snd ` set qs \<union> range of_plain" by auto
  with kv(2) assms(2) show "x \<in> set (concat (map (C \<circ> snd) qs))" by force
qed

lemma node_collectors_vals_subset:
  assumes "snd ` set (params m) \<subseteq> snd ` set (params n) \<union> range of_plain"
  shows "set (node_refs m) \<subseteq> set (node_refs n)" "set (node_holes m) \<subseteq> set (node_holes n)"
    "set (node_aliases m) \<subseteq> set (node_aliases n)"
  unfolding node_refs_def node_holes_def node_aliases_def
  by (rule vals_collector_subset[OF assms]; simp)+

lemma fold_update_of_plain_vals:
  "snd ` set (fold (\<lambda>(k, v). AList.update k (of_plain v)) cs al) \<subseteq> snd ` set al \<union> range of_plain"
proof (induction cs arbitrary: al)
  case (Cons c cs)
  obtain k v where c: "c = (k, v)" by fastforce
  have "snd ` set (AList.update k (of_plain v) al) \<subseteq> snd ` set al \<union> range of_plain"
    using alist_update_vals[of k "of_plain v" al] by blast
  with Cons.IH[of "AList.update k (of_plain v) al"] c show ?case
    by auto
qed simp

lemma convert_node_vals:
  assumes "convert_node e n = Inr m"
  shows "snd ` set (params m) \<subseteq> snd ` set (params n) \<union> range of_plain"
proof -
  from assms have "m = n \<or> (\<exists>ks cs. params m =
      fold (\<lambda>(k, v). AList.update k (of_plain v)) cs (fold AList.delete ks (params n)))"
    unfolding convert_node_def Let_def
    by (simp split: sum.splits option.splits prod.splits) (hypsubst, rule disjI2, simp, blast)
  then show ?thesis
  proof
    assume "\<exists>ks cs. params m =
      fold (\<lambda>(k, v). AList.update k (of_plain v)) cs (fold AList.delete ks (params n))"
    then obtain ks cs where "params m =
      fold (\<lambda>(k, v). AList.update k (of_plain v)) cs (fold AList.delete ks (params n))"
      by blast
    then show ?thesis
      using fold_update_of_plain_vals[of cs "fold AList.delete ks (params n)"]
        fold_delete_vals[of ks "params n"] by auto
  qed auto
qed

lemma convert_node_shrinks:
  assumes "convert_node e n = Inr m" and "C \<in> {expr_refs, expr_holes, expr_aliases}"
  shows "set (C (CmdExpr m)) \<subseteq> set (C (CmdExpr n))"
  using node_collectors_vals_subset[OF convert_node_vals[OF assms(1)]] assms(2) by auto

text \<open>What the converter writes with \<open>NewInterfaceValue\<close>, \<open>ToDriverParams\<close> reads back.\<close>

lemma convert_node_params:
  assumes "lookup_command e n = Inr (Some c)" and "cmd_convert_params c = Some (keys, conv)"
    and "conv (convert_values keys n) = Inr converted"
  shows "convert_node e n = Inr (n\<lparr>params := fold (\<lambda>(k, v). AList.update k (of_plain v)) converted
                                    (fold AList.delete keys (params n))\<rparr>)"
  using assms by (simp add: convert_node_def)

lemma to_driver_params_converted:
  assumes "distinct (map fst converted)" and "distinct (node_keys n)"
    and n'_def: "n' = n\<lparr>params := fold (\<lambda>(k, v). AList.update k (of_plain v)) converted
                               (fold AList.delete keys (params n))\<rparr>"
  shows "distinct (node_keys n')"
    and "map_of (to_driver_params n') k =
           (case map_of converted k of Some v \<Rightarrow> Some v
            | None \<Rightarrow> if k \<in> set keys then None else map_of (to_driver_params n) k)"
proof -
  show dn': "distinct (node_keys n')" using assms(2) by (auto simp: n'_def node_keys_def)
  have "map_of (to_driver_params n') k = Option.bind (map_of (params n') k) value_of"
    by (rule map_of_to_driver_params[OF dn'])
  also have "\<dots> = (case map_of converted k of Some v \<Rightarrow> Some v
            | None \<Rightarrow> if k \<in> set keys then None else map_of (to_driver_params n) k)"
    using assms(2)
    by (simp add: n'_def map_of_to_driver_params map_of_fold_update[OF assms(1)]
        map_of_fold_delete split: option.split)
  finally show "map_of (to_driver_params n') k =
           (case map_of converted k of Some v \<Rightarrow> Some v
            | None \<Rightarrow> if k \<in> set keys then None else map_of (to_driver_params n) k)" .
qed

lemma inject_node_frame:
  "inject_node e n = Inr m \<Longrightarrow> m = n\<lparr>node_command := node_command m\<rparr> \<and> node_command m \<noteq> None"
  by (auto simp: inject_node_def split: sum.splits option.splits)

lemma inject_node_shrinks:
  assumes "inject_node e n = Inr m" and "C \<in> {expr_refs, expr_holes, expr_aliases}"
  shows "set (C (CmdExpr m)) \<subseteq> set (C (CmdExpr n))"
proof -
  from assms(1) have "params m = params n"
    by (auto simp: inject_node_def split: sum.splits option.splits)
  with assms(2) show ?thesis by (auto simp: node_refs_def node_holes_def node_aliases_def)
qed

lemma inject_commands_pass_commands:
  assumes "snd (visit_command_nodes_e (inject_node e) sts) = None"
  shows "\<forall>n \<in> set (command_nodes (fst (visit_command_nodes_e (inject_node e) sts))).
      node_command n \<noteq> None"
proof -
  let ?g = "\<lambda>n. projr (inject_node e n)"
  have "\<forall>n \<in> set (command_nodes sts). inject_node e n = Inr (?g n)"
    using assms by (auto simp: visit_command_nodes_e_None_iff isl_def split: sum.splits)
  then show ?thesis
    by (auto simp: visit_command_nodes_e_all_Inr dest: inject_node_frame)
qed

end
