(* ===== verification/Compiler.thy ===== *)
theory Compiler
  imports Command_Passes
begin

text \<open>
  The pass pipeline of \<open>src/template/compile.go\<close>: \<open>multiPass.compile\<close> runs the
  passes in list order and stops at the first error, returning the template and the
  environment as that pass left them; \<open>Compile\<close> runs the first mode it is given,
  \<open>NormalCompileMode\<close> when none. The three modes are the lists of the source.

  To reason about a pipeline the theory uses Hoare triples over passes:
  \<open>pass_spec P p Q\<close> says that a successful run of \<open>p\<close> from a state satisfying
  \<open>P\<close> ends in a state satisfying \<open>Q\<close>; \<open>runs_spec\<close> says the same of a list of passes
  run by \<open>run_passes\<close>. The composition rule \<open>runs_spec_Cons\<close> then turns the per-pass
  lemmas into properties of whole modes.
\<close>

section \<open>Definitions\<close>

fun run_passes :: "pass list \<Rightarrow> pass" where
  "run_passes [] tpl e = (tpl, e, None)"
| "run_passes (p # ps) tpl e =
     (case p tpl e of
        (tpl', e', Some err) \<Rightarrow> (tpl', e', Some err)
      | (tpl', e', None) \<Rightarrow> run_passes ps tpl' e')"

definition lenient_compile_mode :: "pass list" where
  "lenient_compile_mode =
     [resolve_against_definitions, check_invalid_reference_declarations_pass,
      resolve_holes_pass, resolve_missing_holes_pass, resolve_alias_pass,
      inline_variable_value_pass]"

definition normal_compile_mode :: "pass list" where
  "normal_compile_mode =
     lenient_compile_mode @ [fail_on_unresolved_holes_pass, fail_on_unresolved_alias_pass]"

definition new_runner_compile_mode :: "pass list" where
  "new_runner_compile_mode =
     [verify_commands_defined_pass, validate_commands_params_pass,
      normalize_missing_required_params_as_hole_pass,
      check_invalid_reference_declarations_pass, resolve_holes_pass,
      resolve_missing_holes_pass, resolve_alias_pass, inline_variable_value_pass,
      fail_on_unresolved_holes_pass, fail_on_unresolved_alias_pass,
      convert_params_pass, validate_commands_pass, inject_commands_pass]"

text \<open>\<open>Compile(tpl, env, mode...)\<close>: only the first mode given counts.\<close>

definition compile :: "template \<Rightarrow> env \<Rightarrow> pass list list \<Rightarrow> template \<times> env \<times> error option" where
  "compile tpl e modes =
     run_passes (case modes of [] \<Rightarrow> normal_compile_mode | m # _ \<Rightarrow> m) tpl e"

text \<open>Hoare triples over passes, for successful runs.\<close>

definition pass_spec :: "(template \<Rightarrow> env \<Rightarrow> bool) \<Rightarrow> pass \<Rightarrow> (template \<Rightarrow> env \<Rightarrow> bool) \<Rightarrow> bool" where
  "pass_spec P p Q \<longleftrightarrow>
     (\<forall>tpl e tpl' e'. P tpl e \<longrightarrow> p tpl e = (tpl', e', None) \<longrightarrow> Q tpl' e')"

definition runs_spec ::
  "(template \<Rightarrow> env \<Rightarrow> bool) \<Rightarrow> pass list \<Rightarrow> (template \<Rightarrow> env \<Rightarrow> bool) \<Rightarrow> bool" where
  "runs_spec P ps Q \<longleftrightarrow>
     (\<forall>tpl e tpl' e'. P tpl e \<longrightarrow> run_passes ps tpl e = (tpl', e', None) \<longrightarrow> Q tpl' e')"

text \<open>The environment supplies no references through hole values: the spec's fillers
  and prompted values are plain values or alias expressions.\<close>

definition env_ref_free :: "env \<Rightarrow> bool" where
  "env_ref_free e \<longleftrightarrow>
     (\<forall>w \<in> ran (fillers e). refs_of w = []) \<and>
     (\<forall>f. missing_holes_func e = Some f \<longrightarrow> (\<forall>k. refs_of (f k) = []))"

text \<open>What a successful strict compilation promises (spec properties P2 and P3): every
  reference names an identifier declared earlier, and no hole or alias is left.\<close>

definition compiled_ok :: "template \<Rightarrow> bool" where
  "compiled_ok t \<longleftrightarrow>
     well_scoped (statements t) \<and> tpl_holes (statements t) = [] \<and> tpl_aliases (statements t) = []"

text \<open>The declarations of a value that is a reference, \<open>x = $s\<close>, and the identifiers
  declared by a command; \<open>value_ref_to_command\<close> says that some declared value is a
  reference to a command's result.\<close>

fun value_refs :: "stmt list \<Rightarrow> (ident \<times> ident) list" where
  "value_refs [] = []"
| "value_refs (DeclStmt x (ValueExpr (Ref s)) # sts) = (x, s) # value_refs sts"
| "value_refs (st # sts) = value_refs sts"

definition cmd_idents :: "stmt list \<Rightarrow> ident list" where
  "cmd_idents sts = map fst (command_declaration_nodes sts)"

definition value_ref_to_command :: "stmt list \<Rightarrow> bool" where
  "value_ref_to_command sts \<longleftrightarrow> list_ex (\<lambda>(x, s). s \<in> set (cmd_idents sts)) (value_refs sts)"

section \<open>Lemmas\<close>

subsection \<open>The pipeline\<close>

lemma run_passes_append:
  "run_passes (ps @ qs) tpl e =
     (case run_passes ps tpl e of
        (tpl', e', Some err) \<Rightarrow> (tpl', e', Some err)
      | (tpl', e', None) \<Rightarrow> run_passes qs tpl' e')"
  by (induction ps arbitrary: tpl e) (auto split: prod.splits option.splits)

lemma run_passes_Cons_None:
  "run_passes (p # ps) tpl e = (tpl', e', None) \<longleftrightarrow>
     (\<exists>t1 e1. p tpl e = (t1, e1, None) \<and> run_passes ps t1 e1 = (tpl', e', None))"
  by (auto split: prod.splits option.splits)

lemma runs_spec_Nil: "(\<And>tpl e. P tpl e \<Longrightarrow> Q tpl e) \<Longrightarrow> runs_spec P [] Q"
  by (simp add: runs_spec_def)

lemma runs_spec_Cons:
  "pass_spec P p R \<Longrightarrow> runs_spec R ps Q \<Longrightarrow> runs_spec P (p # ps) Q"
  unfolding pass_spec_def runs_spec_def run_passes_Cons_None by blast

lemma runs_spec_append:
  "runs_spec P ps R \<Longrightarrow> runs_spec R qs Q \<Longrightarrow> runs_spec P (ps @ qs) Q"
  unfolding runs_spec_def run_passes_append by (fastforce split: prod.splits option.splits)

lemma pass_spec_conj:
  "pass_spec P p Q \<Longrightarrow> pass_spec P p R \<Longrightarrow> pass_spec P p (\<lambda>t e. Q t e \<and> R t e)"
  by (simp add: pass_spec_def)

lemma pass_spec_weaken:
  "pass_spec P' p Q \<Longrightarrow> (\<And>t e. P t e \<Longrightarrow> P' t e) \<Longrightarrow> pass_spec P p Q"
  unfolding pass_spec_def by blast

lemma runs_specD:
  "runs_spec P ps Q \<Longrightarrow> P tpl e \<Longrightarrow> run_passes ps tpl e = (tpl', e', None) \<Longrightarrow> Q tpl' e'"
  by (simp add: runs_spec_def)


subsection \<open>Pass specifications\<close>

lemma env_ref_free_frame [simp]:
  "env_ref_free (add_to_processed_fillers e fs) \<longleftrightarrow> env_ref_free e"
  "env_ref_free (e\<lparr>resolved_variables := rv\<rparr>) \<longleftrightarrow> env_ref_free e"
  "env_ref_free (snd (process_holes_step f tpl e)) \<longleftrightarrow> env_ref_free e"
  by (simp_all add: env_ref_free_def)

lemma pass_spec_keep_env:
  assumes "\<And>tpl e. fst (snd (p tpl e)) = e"
  shows "pass_spec (\<lambda>t e. Q e) p (\<lambda>t e. Q e)"
  unfolding pass_spec_def using assms by (metis fst_conv snd_conv)

lemma pass_spec_keep:
  assumes "\<And>tpl e. fst (p tpl e) = tpl \<and> fst (snd (p tpl e)) = e"
  shows "pass_spec Q p Q"
  unfolding pass_spec_def using assms by (metis fst_conv snd_conv)

lemma process_holes_step_scoped:
  assumes "\<forall>w \<in> ran f. refs_of w = []" and "scoped K (statements tpl)"
  shows "scoped K (statements (fst (process_holes_step f tpl e)))"
proof -
  have "set (refs_of (fill_holes f v)) \<subseteq> set (refs_of v)" for v
    using refs_fill_holes[of f v] assms(1) by auto
  then have "list_all2 (stmt_sub expr_refs) (statements tpl)
      (map (map_stmt_vals (\<lambda>_ _. fill_holes f)) (statements tpl))"
    by (intro stmt_sub_map_stmt_vals)
  with assms(2) show ?thesis
    by (simp add: process_holes_step_def scoped_stmt_sub)
qed

lemma missing_fillers_ref_free:
  "env_ref_free e \<Longrightarrow> \<forall>w \<in> ran (missing_fillers e ks). refs_of w = []"
  by (cases "missing_holes_func e")
     (auto simp: env_ref_free_def missing_fillers_ran, simp add: missing_fillers_def)

lemma check_spec:
  "pass_spec (\<lambda>t e. Q e) check_invalid_reference_declarations_pass
     (\<lambda>t e. Q e \<and> well_scoped (statements t))"
  by (simp add: pass_spec_def check_invalid_reference_declarations_pass_def
      check_refs_walk_None_iff well_scoped_def)

lemma resolve_holes_spec:
  "pass_spec (\<lambda>t e. env_ref_free e \<and> well_scoped (statements t)) resolve_holes_pass
     (\<lambda>t e. env_ref_free e \<and> well_scoped (statements t))"
  unfolding pass_spec_def resolve_holes_pass_def well_scoped_def
  by (auto simp: split_def Let_def env_ref_free_def intro!: process_holes_step_scoped)

lemma resolve_missing_holes_spec:
  "pass_spec (\<lambda>t e. env_ref_free e \<and> well_scoped (statements t)) resolve_missing_holes_pass
     (\<lambda>t e. env_ref_free e \<and> well_scoped (statements t))"
  unfolding pass_spec_def resolve_missing_holes_pass_def well_scoped_def
  by (auto simp: split_def Let_def intro!: process_holes_step_scoped missing_fillers_ref_free)

lemma resolve_alias_spec:
  "pass_spec (\<lambda>t e. Q e \<and> well_scoped (statements t)) resolve_alias_pass
     (\<lambda>t e. Q e \<and> well_scoped (statements t))"
proof -
  have "list_all2 (stmt_sub expr_refs) sts
      (map (map_stmt_vals (\<lambda>ent key. subst_alias (fst \<circ> alias_resolver e ent key))) sts)" for sts e
    by (rule stmt_sub_map_stmt_vals) simp
  then show ?thesis
    unfolding pass_spec_def resolve_alias_pass_def well_scoped_def
    by (auto simp: Let_def intro: scoped_stmt_sub)
qed

lemma inline_spec:
  "pass_spec (\<lambda>t e. env_ref_free e \<and> well_scoped (statements t)) inline_variable_value_pass
     (\<lambda>t e. env_ref_free e \<and> well_scoped (statements t))"
  unfolding pass_spec_def inline_variable_value_pass_def well_scoped_def
  by (auto simp: split_def Let_def dest: inline_walk_scoped)

lemma fail_holes_spec:
  "pass_spec Q fail_on_unresolved_holes_pass (\<lambda>t e. Q t e \<and> tpl_holes (statements t) = [])"
  by (simp add: pass_spec_def fail_on_unresolved_holes_pass_def Let_def)

lemma fail_alias_spec:
  "pass_spec Q fail_on_unresolved_alias_pass (\<lambda>t e. Q t e \<and> tpl_aliases (statements t) = [])"
  by (simp add: pass_spec_def fail_on_unresolved_alias_pass_def Let_def)

lemma resolve_against_definitions_spec:
  "pass_spec (\<lambda>t e. Q e) resolve_against_definitions (\<lambda>t e. Q e)"
  by (rule pass_spec_keep_env) (simp add: resolve_against_definitions_def split: option.splits)

text \<open>The lenient passes followed by the two guards, the passes of
  \<open>NormalCompileMode\<close>.\<close>

lemma strict_passes_spec:
  "runs_spec (\<lambda>t e. env_ref_free e)
     (lenient_compile_mode @ [fail_on_unresolved_holes_pass, fail_on_unresolved_alias_pass])
     (\<lambda>t e. well_scoped (statements t) \<and> tpl_holes (statements t) = [] \<and>
            tpl_aliases (statements t) = [])"
  unfolding lenient_compile_mode_def
  by (rule runs_spec_Cons resolve_against_definitions_spec check_spec resolve_holes_spec
        resolve_missing_holes_spec resolve_alias_spec inline_spec fail_holes_spec
        fail_alias_spec runs_spec_Nil | simp)+

lemma compiled_ok_stmt_sub:
  assumes "list_all2 (stmt_sub expr_refs) (statements t) (statements t')"
    and "list_all2 (stmt_sub expr_holes) (statements t) (statements t')"
    and "list_all2 (stmt_sub expr_aliases) (statements t) (statements t')"
    and "compiled_ok t"
  shows "compiled_ok t'"
proof -
  have "well_scoped (statements t')"
    using scoped_stmt_sub[OF assms(1)] assms(4) by (simp add: compiled_ok_def well_scoped_def)
  moreover have "tpl_holes (statements t') = []"
    using collector_stmt_sub[OF assms(2)] assms(4) by (simp add: compiled_ok_def tpl_holes_def)
  moreover have "tpl_aliases (statements t') = []"
    using collector_stmt_sub[OF assms(3)] assms(4) by (simp add: compiled_ok_def tpl_aliases_def)
  ultimately show ?thesis by (simp add: compiled_ok_def)
qed

lemma compiled_ok_visit:
  assumes "\<And>n m C. f n = Inr m \<Longrightarrow> C \<in> {expr_refs, expr_holes, expr_aliases} \<Longrightarrow>
      set (C (CmdExpr m)) \<subseteq> set (C (CmdExpr n))"
    and "compiled_ok t"
  shows "compiled_ok (t\<lparr>statements := fst (visit_command_nodes_e f (statements t))\<rparr>)"
proof -
  have "list_all2 (stmt_sub C) (statements t) (fst (visit_command_nodes_e f (statements t)))"
    if "C \<in> {expr_refs, expr_holes, expr_aliases}" for C
    by (rule stmt_sub_visit) (rule assms(1)[OF _ that])
  then show ?thesis
    using compiled_ok_stmt_sub[of t "t\<lparr>statements := fst (visit_command_nodes_e f (statements t))\<rparr>"]
      assms(2) by simp
qed

lemma convert_spec:
  "pass_spec (\<lambda>t e. Q e \<and> compiled_ok t) convert_params_pass (\<lambda>t e. Q e \<and> compiled_ok t)"
  unfolding pass_spec_def
proof (intro allI impI)
  fix tpl tpl' :: template and e e' :: env
  assume pre: "Q e \<and> compiled_ok tpl" and run: "convert_params_pass tpl e = (tpl', e', None)"
  then have "tpl' = tpl\<lparr>statements := fst (visit_command_nodes_e (convert_node e) (statements tpl))\<rparr>"
    and "e' = e"
    by (auto simp: convert_params_pass_def split_def Let_def)
  with pre show "Q e' \<and> compiled_ok tpl'"
    using compiled_ok_visit[of "convert_node e" tpl] convert_node_shrinks by blast
qed

lemma inject_spec:
  "pass_spec (\<lambda>t e. Q e \<and> compiled_ok t) inject_commands_pass
     (\<lambda>t e. Q e \<and> compiled_ok t \<and>
            (\<forall>n \<in> set (command_nodes (statements t)). node_command n \<noteq> None))"
  unfolding pass_spec_def
proof (intro allI impI)
  fix tpl tpl' :: template and e e' :: env
  let ?r = "visit_command_nodes_e (inject_node e) (statements tpl)"
  assume pre: "Q e \<and> compiled_ok tpl" and run: "inject_commands_pass tpl e = (tpl', e', None)"
  then have tpl': "tpl' = tpl\<lparr>statements := fst ?r\<rparr>" and e': "e' = e" and ok: "snd ?r = None"
    by (auto simp: inject_commands_pass_def split_def Let_def)
  have "compiled_ok tpl'"
    using compiled_ok_visit[of "inject_node e" tpl] inject_node_shrinks pre tpl' by blast
  moreover have "\<forall>n \<in> set (command_nodes (statements tpl')). node_command n \<noteq> None"
    using inject_commands_pass_commands[OF ok] tpl' by simp
  ultimately show "Q e' \<and> compiled_ok tpl' \<and>
      (\<forall>n \<in> set (command_nodes (statements tpl')). node_command n \<noteq> None)"
    using pre e' by blast
qed

text \<open>The passes of \<open>NewRunnerCompileMode\<close>, in its order.\<close>

lemma new_runner_passes_spec:
  "runs_spec (\<lambda>t e. env_ref_free e)
     [verify_commands_defined_pass, validate_commands_params_pass,
      normalize_missing_required_params_as_hole_pass,
      check_invalid_reference_declarations_pass, resolve_holes_pass,
      resolve_missing_holes_pass, resolve_alias_pass, inline_variable_value_pass,
      fail_on_unresolved_holes_pass, fail_on_unresolved_alias_pass,
      convert_params_pass, validate_commands_pass, inject_commands_pass]
     (\<lambda>t e. compiled_ok t \<and> (\<forall>n \<in> set (command_nodes (statements t)). node_command n \<noteq> None))"
proof -
  have keep_v: "pass_spec Q verify_commands_defined_pass Q" for Q
    by (rule pass_spec_keep) (simp add: verify_commands_defined_pass_def split: option.splits)
  have keep_vp: "pass_spec Q validate_commands_params_pass Q" for Q
    by (rule pass_spec_keep) (simp add: validate_commands_params_pass_def)
  have keep_n: "pass_spec (\<lambda>t e. Q e) normalize_missing_required_params_as_hole_pass (\<lambda>t e. Q e)" for Q
    by (rule pass_spec_keep_env) (simp add: normalize_missing_required_params_as_hole_pass_def split_def Let_def)
  have keep_vc: "pass_spec Q validate_commands_pass Q" for Q
    by (rule pass_spec_keep) (simp add: validate_commands_pass_def split_def Let_def)
  have guards: "runs_spec (\<lambda>t e. env_ref_free e \<and> well_scoped (statements t))
      [fail_on_unresolved_holes_pass, fail_on_unresolved_alias_pass]
      (\<lambda>t e. env_ref_free e \<and> compiled_ok t)"
    by (intro runs_spec_Cons[OF fail_holes_spec] runs_spec_Cons[OF fail_alias_spec] runs_spec_Nil)
       (simp add: compiled_ok_def)
  have tail: "runs_spec (\<lambda>t e. env_ref_free e \<and> compiled_ok t)
      [convert_params_pass, validate_commands_pass, inject_commands_pass]
      (\<lambda>t e. compiled_ok t \<and> (\<forall>n \<in> set (command_nodes (statements t)). node_command n \<noteq> None))"
    by (intro runs_spec_Cons[OF convert_spec] runs_spec_Cons[OF keep_vc]
        runs_spec_Cons[OF inject_spec] runs_spec_Nil) simp
  have front: "runs_spec (\<lambda>t e. env_ref_free e)
      [verify_commands_defined_pass, validate_commands_params_pass,
       normalize_missing_required_params_as_hole_pass,
       check_invalid_reference_declarations_pass, resolve_holes_pass,
       resolve_missing_holes_pass, resolve_alias_pass, inline_variable_value_pass]
      (\<lambda>t e. env_ref_free e \<and> well_scoped (statements t))"
    by (intro runs_spec_Cons[OF keep_v] runs_spec_Cons[OF keep_vp] runs_spec_Cons[OF keep_n]
        runs_spec_Cons[OF check_spec] runs_spec_Cons[OF resolve_holes_spec]
        runs_spec_Cons[OF resolve_missing_holes_spec] runs_spec_Cons[OF resolve_alias_spec]
        runs_spec_Cons[OF inline_spec] runs_spec_Nil)
  show ?thesis
    using runs_spec_append[OF runs_spec_append[OF front guards] tail] by simp
qed


subsection \<open>A value declaration of a command's result survives compilation\<close>

text \<open>No pass removes \<open>x = $s\<close> when \<open>s\<close> is declared by a command: the passes over
  command nodes leave declarations of values alone, filling holes and resolving
  aliases leave a reference as it is, and the inlining pass only replaces references
  to values, of which \<open>s\<close>, declared once (after the reference check), is not one.\<close>

lemma cmd_idents_simps [simp]:
  "cmd_idents [] = []"
  "cmd_idents (CmdStmt n # sts) = cmd_idents sts"
  "cmd_idents (DeclStmt x (CmdExpr n) # sts) = x # cmd_idents sts"
  "cmd_idents (DeclStmt x (ValueExpr v) # sts) = cmd_idents sts"
  by (simp_all add: cmd_idents_def)

lemma stmt_cases3 [case_names Cmd CmdDecl ValDecl]:
  "(\<And>n. st = CmdStmt n \<Longrightarrow> P) \<Longrightarrow> (\<And>x n. st = DeclStmt x (CmdExpr n) \<Longrightarrow> P) \<Longrightarrow>
   (\<And>x v. st = DeclStmt x (ValueExpr v) \<Longrightarrow> P) \<Longrightarrow> P"
  by (metis expr_node.exhaust stmt.exhaust)

lemma map_stmt_vals_ValueExpr_inv:
  "map_stmt_vals f a = DeclStmt s (ValueExpr w) \<Longrightarrow> \<exists>v. a = DeclStmt s (ValueExpr v)"
  by (cases rule: stmt_cases3[of a]) auto

lemma value_refs_ValueExpr [simp]:
  "value_refs (DeclStmt x (ValueExpr v) # sts) =
     (case v of Ref s \<Rightarrow> [(x, s)] | _ \<Rightarrow> []) @ value_refs sts"
  by (cases v) simp_all

lemma value_refs_Cons_sub: "set (value_refs sts) \<subseteq> set (value_refs (st # sts))"
  by (cases rule: stmt_cases3[of st]) (auto split: val.splits)

lemma value_refs_set: "(x, s) \<in> set (value_refs sts) \<longleftrightarrow> DeclStmt x (ValueExpr (Ref s)) \<in> set sts"
proof (induction sts)
  case (Cons st sts)
  then show ?case by (cases rule: stmt_cases3[of st]) (auto split: val.splits)
qed simp

lemma cmd_idents_set: "s \<in> set (cmd_idents sts) \<longleftrightarrow> (\<exists>n. DeclStmt s (CmdExpr n) \<in> set sts)"
proof (induction sts)
  case (Cons st sts)
  then show ?case by (cases rule: stmt_cases3[of st]) auto
qed simp

lemma cmd_idents_decl_idents: "s \<in> set (cmd_idents sts) \<Longrightarrow> s \<in> set (decl_idents sts)"
proof (induction sts)
  case (Cons st sts)
  then show ?case by (cases rule: stmt_cases3[of st]) auto
qed simp

lemma map_stmt_vals_idents [simp]:
  "cmd_idents (map (map_stmt_vals f) sts) = cmd_idents sts"
  "decl_idents (map (map_stmt_vals f) sts) = decl_idents sts"
proof (induction sts)
  case (Cons st sts)
  { case 1 show ?case using Cons.IH(1) by (cases rule: stmt_cases3[of st]) auto }
  { case 2 show ?case using Cons.IH(2) by (cases rule: stmt_cases3[of st]) auto }
qed simp_all

lemma value_refs_map_stmt_vals:
  "f '''' '''' (Ref s) = Ref s \<Longrightarrow> (x, s) \<in> set (value_refs sts) \<Longrightarrow>
   (x, s) \<in> set (value_refs (map (map_stmt_vals f) sts))"
proof (induction sts rule: value_refs.induct)
  case (2 y r sts)
  then show ?case using value_refs_Cons_sub by fastforce
qed (use value_refs_Cons_sub in fastforce)+

lemma value_ref_to_command_map_stmt_vals:
  "(\<And>s. f '''' '''' (Ref s) = Ref s) \<Longrightarrow> value_ref_to_command sts \<Longrightarrow>
   value_ref_to_command (map (map_stmt_vals f) sts)"
  unfolding value_ref_to_command_def list_ex_iff
  by (fastforce intro: value_refs_map_stmt_vals)

lemma visit_command_nodes_e_decls:
  "value_refs (fst (visit_command_nodes_e f sts)) = value_refs sts \<and>
   cmd_idents (fst (visit_command_nodes_e f sts)) = cmd_idents sts"
  by (induction f sts rule: visit_command_nodes_e.induct)
     (auto split: sum.splits prod.splits)

lemma scoped_distinct: "scoped K sts \<Longrightarrow> distinct (decl_idents sts)"
proof (induction sts arbitrary: K)
  case (Cons st sts)
  then show ?case
    using scoped_decls by (cases st) (auto simp: scoped_Cons)
qed simp

lemma inline_walk_cmd_idents: "cmd_idents (fst (inline_walk rv sts)) = cmd_idents sts"
proof (induction rv sts rule: inline_walk.induct)
  case (2 rv st sts)
  show ?case
  proof (cases rule: stmt_cases3[of st])
    case (ValDecl y v)
    define rv' where "rv' = (case value_of v of None \<Rightarrow> rv | Some p \<Rightarrow> rv(y \<mapsto> p))"
    have "cmd_idents (fst (inline_walk rv' (map (map_stmt_vals (\<lambda>_ _. replace_ref y v)) sts))) =
        cmd_idents sts"
      using "2.IH"(3)[OF ValDecl refl rv'_def] by simp
    with ValDecl rv'_def show ?thesis by (auto simp: Let_def split: prod.splits)
  qed (use "2" in \<open>auto split: prod.splits\<close>)
qed simp

lemma value_decl_map_stmt_vals:
  "DeclStmt s (ValueExpr w) \<in> set (map (map_stmt_vals f) sts) \<Longrightarrow>
   \<exists>v. DeclStmt s (ValueExpr v) \<in> set sts"
  by (induction sts) (auto dest: map_stmt_vals_ValueExpr_inv[OF sym])

lemma inline_walk_keeps_value_ref:
  "(x, s) \<in> set (value_refs sts) \<Longrightarrow> (\<And>v. DeclStmt s (ValueExpr v) \<notin> set sts) \<Longrightarrow>
   (x, s) \<in> set (value_refs (fst (inline_walk rv sts)))"
proof (induction rv sts rule: inline_walk.induct)
  case (2 rv st sts)
  show ?case
  proof (cases rule: stmt_cases3[of st])
    case (ValDecl y v)
    let ?sts' = "map (map_stmt_vals (\<lambda>_ _. replace_ref y v)) sts"
    define rv' where "rv' = (case value_of v of None \<Rightarrow> rv | Some p \<Rightarrow> rv(y \<mapsto> p))"
    have ys: "y \<noteq> s" using "2.prems"(2)[of v] ValDecl by auto
    show ?thesis
    proof (cases "v = Ref s \<and> y = x")
      case True
      then have "\<not> is_resolved v" by (simp add: is_resolved_def)
      with True ValDecl show ?thesis by (auto simp: Let_def split: prod.splits)
    next
      case False
      then have "(x, s) \<in> set (value_refs sts)"
        using "2.prems"(1) ValDecl by (auto split: val.splits)
      then have "(x, s) \<in> set (value_refs ?sts')"
        using ys by (intro value_refs_map_stmt_vals) simp_all
      moreover have "DeclStmt s (ValueExpr w) \<notin> set ?sts'" for w
        using "2.prems"(2) ValDecl value_decl_map_stmt_vals[of s w _ sts] by fastforce
      ultimately have "(x, s) \<in> set (value_refs (fst (inline_walk rv' ?sts')))"
        using "2.IH"(3)[OF ValDecl refl rv'_def] by blast
      then show ?thesis using ValDecl rv'_def value_refs_Cons_sub
        by (auto simp: Let_def split: prod.splits)
    qed
  qed (use "2" in \<open>auto split: prod.splits\<close>)
qed simp

lemma distinct_cmd_ident_no_value_decl:
  "distinct (decl_idents sts) \<Longrightarrow> s \<in> set (cmd_idents sts) \<Longrightarrow> DeclStmt s (ValueExpr v) \<notin> set sts"
proof (induction sts)
  case (Cons st sts)
  have decl: "DeclStmt y w \<in> set sts \<Longrightarrow> y \<in> set (decl_idents sts)" for y w
    by (induction sts rule: declaration_nodes.induct) auto
  from Cons show ?case
    by (cases rule: stmt_cases3[of st]) (auto dest: decl cmd_idents_decl_idents)
qed simp

lemma value_ref_to_command_visit [simp]:
  "value_ref_to_command (fst (visit_command_nodes_e f sts)) = value_ref_to_command sts"
  by (simp add: value_ref_to_command_def visit_command_nodes_e_decls)

lemma value_ref_to_command_inline:
  assumes "value_ref_to_command sts" and "distinct (decl_idents sts)"
  shows "value_ref_to_command (fst (inline_walk rv sts))"
proof -
  obtain x s where xs: "(x, s) \<in> set (value_refs sts)" "s \<in> set (cmd_idents sts)"
    using assms(1) by (auto simp: value_ref_to_command_def list_ex_iff)
  have "(x, s) \<in> set (value_refs (fst (inline_walk rv sts)))"
    using inline_walk_keeps_value_ref[OF xs(1)] distinct_cmd_ident_no_value_decl[OF assms(2) xs(2)]
    by blast
  with xs(2) show ?thesis
    by (auto simp: value_ref_to_command_def list_ex_iff inline_walk_cmd_idents)
qed

lemma pass_spec_keep_tpl:
  "(\<And>tpl e. fst (p tpl e) = tpl) \<Longrightarrow> pass_spec (\<lambda>t e. Q t) p (\<lambda>t e. Q t)"
  unfolding pass_spec_def by (metis fst_conv)

lemma new_runner_passes_keep_value_ref:
  "runs_spec (\<lambda>t e. value_ref_to_command (statements t))
     [verify_commands_defined_pass, validate_commands_params_pass,
      normalize_missing_required_params_as_hole_pass,
      check_invalid_reference_declarations_pass, resolve_holes_pass,
      resolve_missing_holes_pass, resolve_alias_pass, inline_variable_value_pass,
      fail_on_unresolved_holes_pass, fail_on_unresolved_alias_pass,
      convert_params_pass, validate_commands_pass, inject_commands_pass]
     (\<lambda>t e. value_ref_to_command (statements t))"
proof -
  let ?V = "\<lambda>t e. value_ref_to_command (statements t)"
  let ?VD = "\<lambda>t e. value_ref_to_command (statements t) \<and> distinct (decl_idents (statements t))"
  have keep: "pass_spec ?V p ?V" if "\<And>tpl e. fst (p tpl e) = tpl" for p
    using pass_spec_keep_tpl[OF that] .
  have vis: "pass_spec ?V p ?V"
    if "p \<in> {normalize_missing_required_params_as_hole_pass, convert_params_pass, inject_commands_pass}"
    for p
    using that
    by (auto simp: pass_spec_def normalize_missing_required_params_as_hole_pass_def
        convert_params_pass_def inject_commands_pass_def split_def Let_def)
  have check: "pass_spec ?V check_invalid_reference_declarations_pass ?VD"
    by (auto simp: pass_spec_def check_invalid_reference_declarations_pass_def
        check_refs_walk_None_iff intro: scoped_distinct)
  have mapped: "pass_spec ?VD p ?VD"
    if "p \<in> {resolve_holes_pass, resolve_missing_holes_pass, resolve_alias_pass}" for p
    using that
    by (auto simp: pass_spec_def resolve_holes_pass_def resolve_missing_holes_pass_def
        resolve_alias_pass_def process_holes_step_def split_def Let_def
        intro!: value_ref_to_command_map_stmt_vals)
  have inline: "pass_spec ?VD inline_variable_value_pass ?V"
    by (auto simp: pass_spec_def inline_variable_value_pass_def split_def Let_def
        intro: value_ref_to_command_inline)
  show ?thesis
    by (intro runs_spec_Cons[OF keep] runs_spec_Cons[OF vis] runs_spec_Cons[OF check]
        runs_spec_Cons[OF mapped] runs_spec_Cons[OF inline] runs_spec_Nil)
       (simp_all add: verify_commands_defined_pass_def validate_commands_params_pass_def
        fail_on_unresolved_holes_pass_def fail_on_unresolved_alias_pass_def
        validate_commands_pass_def split_def Let_def split: option.splits)
qed


subsection \<open>Evaluation\<close>

text \<open>The equations that evaluate the pipelines on a concrete template.\<close>

lemmas new_runner_eval =
  new_runner_compile_mode_def verify_commands_defined_pass_def validate_commands_params_pass_def
  validate_params_node_def lookup_command_def normalize_missing_required_params_as_hole_pass_def
  normalize_node_def convert_params_pass_def convert_node_def panics_only_def
  validate_commands_pass_def ref_keys_def to_driver_params_def inject_commands_pass_def
  inject_node_def

lemmas compile_eval =
  compile_def normal_compile_mode_def lenient_compile_mode_def new_env_def
  resolve_against_definitions_def def_check_node_def cmd_key_def
  new_command_node_def node_keys_def add_required_holes_def
  check_invalid_reference_declarations_pass_def node_refs_def
  resolve_holes_pass_def process_holes_step_def node_map_vals_def
  add_to_processed_fillers_def expression_nodes_def node_holes_def
  resolve_missing_holes_pass_def missing_hole_prompts_def tpl_holes_def missing_fillers_def
  resolve_alias_pass_def failed_aliases_def alias_resolver_def
  inline_variable_value_pass_def fail_on_unresolved_holes_pass_def
  fail_on_unresolved_alias_pass_def tpl_aliases_def node_aliases_def

end
