(* ===== verification/Runner.thy ===== *)
theory Runner
  imports Compiler
begin

text \<open>
  The runner of \<open>src/template/template.go\<close>: \<open>Template.Run\<close>, which executes the
  compiled statements in order, \<open>prefixError\<close>, and \<open>runCmd\<close>, the driver-based
  executor that nothing in the repository calls.

  \<open>Template.Run\<close> appends a clone of each statement to the template it returns before
  executing it, so the returned template holds exactly the statements reached. A command
  node first takes the values of the references bound so far (\<open>ProcessRefs(vars)\<close>);
  then, in dry-run mode, the command's \<open>DryRun(ctx, params)\<close> runs when the command has
  one, and its error is prefixed with \<open>"dry run"\<close>; otherwise the node runs its command
  through the lifecycle of \<open>driver.Run\<close> (spec 4.3; the node's \<open>Run\<close> is in the
  package \<open>ast\<close>, not under \<open>src/\<close>, and a nil command is a Go panic), and a failure
  stops the run with a nil error. A declaration binds the identifier to the node's result.
  A declaration of a value stops the run with \<open>unknown type of node\<close>.

  The run's identifier is a fresh ULID; the model takes it as an argument.
\<close>

section \<open>Definitions\<close>

definition prefix_error :: "string option \<Rightarrow> string \<Rightarrow> string option" where
  "prefix_error err p = map_option (\<lambda>m. p @ '': '' @ m) err"

text \<open>\<open>n.ProcessRefs(vars)\<close> on a command node.\<close>

definition process_refs :: "(ident \<rightharpoonup> plain) \<Rightarrow> command_node \<Rightarrow> command_node" where
  "process_refs vars n = map_params (process_refs_val vars) n"

text \<open>One command node of \<open>Template.Run\<close>: \<open>Inl\<close> is a Go panic; otherwise the executed
  node and whether the run stops here.\<close>

definition exec_node :: "env \<Rightarrow> (ident \<rightharpoonup> plain) \<Rightarrow> command_node \<Rightarrow> error + command_node \<times> bool" where
  "exec_node e vars n =
     (let n1 = process_refs vars n; ps = to_driver_params n1; ctx = resolved_variables e
      in if is_dry_run e then
           (case node_command n1 of
              None \<Rightarrow> Inr (n1, False)
            | Some c \<Rightarrow>
                (case cmd_ctx_dry_run c of
                   None \<Rightarrow> Inr (n1, False)
                 | Some dr \<Rightarrow>
                     (case dr ctx ps of
                        (r, err) \<Rightarrow>
                          Inr (n1\<lparr>cmd_result := r, cmd_err := prefix_error err ''dry run''\<rparr>, False))))
         else
           (case node_command n1 of
              None \<Rightarrow> Inl (Panic ''invalid memory address or nil pointer dereference'')
            | Some c \<Rightarrow>
                (case driver_run c ctx ps of
                   ((r, err), c') \<Rightarrow>
                     Inr (n1\<lparr>cmd_result := r, cmd_err := err, node_command := Some c'\<rparr>,
                          err \<noteq> None))))"

text \<open>The statement loop of \<open>Template.Run\<close>: the statements reached, and the error.\<close>

fun run_walk :: "env \<Rightarrow> (ident \<rightharpoonup> plain) \<Rightarrow> stmt list \<Rightarrow> stmt list \<times> error option" where
  "run_walk e vars [] = ([], None)"
| "run_walk e vars (CmdStmt n # sts) =
     (case exec_node e vars n of
        Inl p \<Rightarrow> ([CmdStmt (process_refs vars n)], Some p)
      | Inr (n', True) \<Rightarrow> ([CmdStmt n'], None)
      | Inr (n', False) \<Rightarrow>
          (case run_walk e vars sts of (rest, err) \<Rightarrow> (CmdStmt n' # rest, err)))"
| "run_walk e vars (DeclStmt x (CmdExpr n) # sts) =
     (case exec_node e vars n of
        Inl p \<Rightarrow> ([DeclStmt x (CmdExpr (process_refs vars n))], Some p)
      | Inr (n', True) \<Rightarrow> ([DeclStmt x (CmdExpr n')], None)
      | Inr (n', False) \<Rightarrow>
          (case run_walk e (vars(x := cmd_result n')) sts of
             (rest, err) \<Rightarrow> (DeclStmt x (CmdExpr n') # rest, err)))"
| "run_walk e vars (DeclStmt x (ValueExpr v) # sts) = ([DeclStmt x (ValueExpr v)], Some UnknownNodeType)"

definition template_run :: "env \<Rightarrow> string \<Rightarrow> template \<Rightarrow> template \<times> error option" where
  "template_run e rid tpl =
     (case run_walk e Map.empty (statements tpl) of
        (sts, err) \<Rightarrow> (\<lparr>tpl_id = rid, statements = sts\<rparr>, err))"

text \<open>
  \<open>runCmd\<close>. With the new runner it looks the command up by action and entity, runs
  \<open>driver.DryRun\<close> in dry-run mode and then, with no \<open>else\<close>, \<open>driver.Run\<close> in every
  mode; the dry run's outcome is overwritten. Otherwise it calls the driver's function.
  The command object the lifecycle mutates is threaded from one call to the next.
\<close>

definition run_cmd ::
  "env \<Rightarrow> (ident \<rightharpoonup> plain) \<Rightarrow> command_node \<Rightarrow> command_node \<times> error option" where
  "run_cmd e vars n =
     (let n1 = process_refs vars n; ps = to_driver_params n1;
          ctx = context_variables (Some (resolved_variables e))
      in if is_new_runner e then
           (case lookuper e of
              None \<Rightarrow> (n1, Some (Panic ''nil lookuper''))
            | Some lf \<Rightarrow>
                (case lf [action n1, entity n1] of
                   None \<Rightarrow> (n1, Some (NewRunnerNoCommand (action n1) (entity n1)))
                 | Some c \<Rightarrow>
                     (let c1 = (if is_dry_run e then snd (driver_dry_run c ctx ps) else c)
                      in case driver_run c1 ctx ps of
                           ((r, err), c2) \<Rightarrow> (n1\<lparr>cmd_result := r, cmd_err := err\<rparr>, None))))
         else
           (case env_driver e of
              None \<Rightarrow> (n1, Some (Panic ''nil driver''))
            | Some d \<Rightarrow>
                (case drv_lookup d [action n1, entity n1] of
                   Inl err \<Rightarrow> (n1, Some (DriverLookupFailed err))
                 | Inr fn \<Rightarrow>
                     (case fn ctx ps of
                        (r, err) \<Rightarrow>
                          (n1\<lparr>cmd_result := r, cmd_err := err\<rparr>,
                           if err = None then None else Some DriverFunctionFailed)))))"

text \<open>The shape of a statement, which execution keeps: the identifier it declares and
  the action and entity of its command.\<close>

primrec stmt_head :: "stmt \<Rightarrow> ident option \<times> (string \<times> string) option" where
  "stmt_head (CmdStmt n) = (None, Some (action n, entity n))"
| "stmt_head (DeclStmt x e) =
     (Some x, case e of CmdExpr n \<Rightarrow> Some (action n, entity n) | ValueExpr v \<Rightarrow> None)"

section \<open>Lemmas\<close>

lemma process_refs_frame [simp]:
  "action (process_refs vars n) = action n" "entity (process_refs vars n) = entity n"
  "node_command (process_refs vars n) = node_command n" "cmd_err (process_refs vars n) = cmd_err n"
  "cmd_result (process_refs vars n) = cmd_result n"
  by (simp_all add: process_refs_def)

lemma exec_node_frame:
  "exec_node e vars n = Inr (n', h) \<Longrightarrow> action n' = action n \<and> entity n' = entity n"
  by (auto simp: exec_node_def Let_def split: option.splits prod.splits if_splits)

lemma exec_node_halt:
  "exec_node e vars n = Inr (n', h) \<Longrightarrow> h \<longleftrightarrow> \<not> is_dry_run e \<and> cmd_err n' \<noteq> None"
  by (auto simp: exec_node_def Let_def split: option.splits prod.splits if_splits)

lemma exec_node_panic:
  "exec_node e vars n = Inl p \<Longrightarrow> \<not> is_dry_run e \<and> node_command n = None"
  by (auto simp: exec_node_def Let_def split: option.splits prod.splits if_splits)

lemma run_walk_prefix:
  "run_walk e vars sts = (out, err) \<Longrightarrow> map stmt_head out = map stmt_head (take (length out) sts)"
proof (induction e vars sts arbitrary: out err rule: run_walk.induct)
  case (2 e vars n sts)
  then show ?case
    by (auto simp: fun_upd_def split: sum.splits prod.splits bool.splits if_splits dest: exec_node_frame)
next
  case (3 e vars x n sts)
  then show ?case
    by (auto simp: fun_upd_def split: sum.splits prod.splits bool.splits if_splits dest: exec_node_frame)
qed auto

lemma run_walk_length: "run_walk e vars sts = (out, err) \<Longrightarrow> length out \<le> length sts"
proof (induction e vars sts arbitrary: out err rule: run_walk.induct)
  case (2 e vars n sts)
  then show ?case by (auto simp: fun_upd_def split: sum.splits prod.splits bool.splits)
next
  case (3 e vars x n sts)
  then show ?case by (auto simp: fun_upd_def split: sum.splits prod.splits bool.splits)
qed auto

lemma run_walk_nonempty: "run_walk e vars sts = (out, err) \<Longrightarrow> sts \<noteq> [] \<Longrightarrow> out \<noteq> []"
  by (cases "(e, vars, sts)" rule: run_walk.cases) (auto split: sum.splits prod.splits bool.splits)

lemma exec_node_continue:
  "\<not> is_dry_run e \<Longrightarrow> exec_node e vars n = Inr (n', False) \<Longrightarrow> cmd_err n' = None"
  using exec_node_halt by blast

lemma run_walk_no_error_before_last:
  "\<not> is_dry_run e \<Longrightarrow> run_walk e vars sts = (out, err) \<Longrightarrow> \<not> has_errors (butlast out)"
proof (induction e vars sts arbitrary: out err rule: run_walk.induct)
  case (2 e vars n sts)
  show ?case
  proof (cases "exec_node e vars n")
    case (Inr r)
    then obtain n' h where r: "exec_node e vars n = Inr (n', h)" by (cases r) auto
    show ?thesis
    proof (cases h)
      case False
      obtain rest err' where rest: "run_walk e vars sts = (rest, err')" by fastforce
      with "2.prems" r False have "out = CmdStmt n' # rest" by simp
      moreover have "cmd_err n' = None"
        using exec_node_continue[OF "2.prems"(1)] r False by simp
      ultimately show ?thesis
        using "2.IH"[OF _ _ _ "2.prems"(1) rest] r False by (auto simp: has_errors_butlast_Cons)
    qed (use "2.prems" r in auto)
  qed (use "2.prems" in auto)
next
  case (3 e vars x n sts)
  show ?case
  proof (cases "exec_node e vars n")
    case (Inr r)
    then obtain n' h where r: "exec_node e vars n = Inr (n', h)" by (cases r) auto
    show ?thesis
    proof (cases h)
      case False
      obtain rest err' where rest: "run_walk e (vars(x := cmd_result n')) sts = (rest, err')"
        by fastforce
      with "3.prems" r False have "out = DeclStmt x (CmdExpr n') # rest" by simp
      moreover have "cmd_err n' = None"
        using exec_node_continue[OF "3.prems"(1)] r False by simp
      ultimately show ?thesis
        using "3.IH"[OF _ _ _ "3.prems"(1)] rest r False
        by (auto simp: has_errors_butlast_Cons fun_upd_def)
    qed (use "3.prems" r in auto)
  qed (use "3.prems" in auto)
qed auto

lemma run_walk_errors:
  "run_walk e vars sts = (out, Some err) \<Longrightarrow> err = UnknownNodeType \<or> (\<exists>m. err = Panic m)"
proof (induction e vars sts arbitrary: out rule: run_walk.induct)
  case (2 e vars n sts)
  then show ?case
    by (auto simp: fun_upd_def exec_node_def Let_def split: sum.splits prod.splits bool.splits if_splits option.splits)
next
  case (3 e vars x n sts)
  then show ?case
    by (auto simp: fun_upd_def exec_node_def Let_def split: sum.splits prod.splits bool.splits if_splits option.splits)
qed auto

lemma run_walk_early_stop:
  "run_walk e vars sts = (out, None) \<Longrightarrow> length out < length sts \<Longrightarrow>
     \<not> is_dry_run e \<and> has_errors [last out]"
proof (induction e vars sts arbitrary: out rule: run_walk.induct)
  case (2 e vars n sts)
  show ?case
  proof (cases "exec_node e vars n")
    case (Inr r)
    then obtain n' h where r: "exec_node e vars n = Inr (n', h)" by (cases r) auto
    show ?thesis
    proof (cases h)
      case True
      with "2.prems" r exec_node_halt[OF r] show ?thesis by auto
    next
      case False
      obtain rest err' where rest: "run_walk e vars sts = (rest, err')" by fastforce
      with "2.prems" r False have out: "out = CmdStmt n' # rest" and "err' = None" by simp_all
      with "2.prems"(2) "2.IH"[OF _ _ _ ] rest r False run_walk_nonempty[OF rest]
      show ?thesis by (cases sts) auto
    qed
  qed (use "2.prems" in auto)
next
  case (3 e vars x n sts)
  show ?case
  proof (cases "exec_node e vars n")
    case (Inr r)
    then obtain n' h where r: "exec_node e vars n = Inr (n', h)" by (cases r) auto
    show ?thesis
    proof (cases h)
      case True
      with "3.prems" r exec_node_halt[OF r] show ?thesis by auto
    next
      case False
      obtain rest err' where rest: "run_walk e (vars(x := cmd_result n')) sts = (rest, err')"
        by fastforce
      with "3.prems" r False have out: "out = DeclStmt x (CmdExpr n') # rest" and "err' = None"
        by simp_all
      with "3.prems"(2) "3.IH" rest r False run_walk_nonempty[OF rest]
      show ?thesis by (cases sts) (auto simp: fun_upd_def)
    qed
  qed (use "3.prems" in auto)
qed auto

lemma run_walk_panic_nil_command:
  "run_walk e vars sts = (out, Some (Panic m)) \<Longrightarrow> \<exists>n \<in> set (command_nodes sts). node_command n = None"
proof (induction e vars sts arbitrary: out rule: run_walk.induct)
  case (2 e vars n sts)
  then show ?case
    by (auto split: sum.splits prod.splits bool.splits dest: exec_node_panic)
next
  case (3 e vars x n sts)
  then show ?case
    by (auto simp: fun_upd_def split: sum.splits prod.splits bool.splits dest: exec_node_panic)
qed auto

lemma run_walk_dry_run_complete:
  "is_dry_run e \<Longrightarrow> run_walk e vars sts = (out, None) \<Longrightarrow> length out = length sts"
  using run_walk_early_stop run_walk_length by fastforce

lemma driver_dry_run_no_inject: "cmd_inject c = None \<Longrightarrow> snd (driver_dry_run c ctx ps) = c"
  by (auto simp: driver_dry_run_def inject_step_def split: option.splits prod.splits)


text \<open>The equations that evaluate a run on a concrete template.\<close>

text \<open>A run that reaches a declaration of a value rejects it: a dry run, which never
  halts, ends in \<open>unknown type of node\<close>, and a run with no error stopped at a failed
  command.\<close>

lemma run_walk_value_decl:
  "DeclStmt x (ValueExpr v) \<in> set sts \<Longrightarrow> run_walk e vars sts = (out, err) \<Longrightarrow>
   (is_dry_run e \<longrightarrow> err = Some UnknownNodeType) \<and> (err = None \<longrightarrow> has_errors out)"
proof (induction e vars sts arbitrary: out err rule: run_walk.induct)
  case (2 e vars n sts)
  show ?case
  proof (cases "exec_node e vars n")
    case (Inl p)
    with "2.prems"(2) show ?thesis by (auto dest: exec_node_panic)
  next
    case (Inr r)
    obtain n' h where r: "exec_node e vars n = Inr (n', h)" using Inr by (cases r) auto
    show ?thesis
    proof (cases h)
      case True
      with r "2.prems"(2) show ?thesis by (auto dest: exec_node_halt)
    next
      case False
      obtain rest err' where rest: "run_walk e vars sts = (rest, err')" by fastforce
      have "DeclStmt x (ValueExpr v) \<in> set sts" using "2.prems"(1) by auto
      moreover have "h = False" using False by simp
      ultimately show ?thesis using "2.IH"[OF r refl _ _ rest] "2.prems"(2) r rest
        by auto
    qed
  qed
next
  case (3 e vars y n sts)
  show ?case
  proof (cases "exec_node e vars n")
    case (Inl p)
    with "3.prems"(2) show ?thesis by (auto dest: exec_node_panic)
  next
    case (Inr r)
    obtain n' h where r: "exec_node e vars n = Inr (n', h)" using Inr by (cases r) auto
    show ?thesis
    proof (cases h)
      case True
      with r "3.prems"(2) show ?thesis by (auto dest: exec_node_halt)
    next
      case False
      obtain rest err' where rest: "run_walk e (vars(y := cmd_result n')) sts = (rest, err')"
        by fastforce
      have "DeclStmt x (ValueExpr v) \<in> set sts" using "3.prems"(1) by auto
      moreover have "h = False" using False by simp
      ultimately show ?thesis using "3.IH"[OF r refl _ _ rest] "3.prems"(2) r rest
        by auto
    qed
  qed
qed auto

lemmas run_eval = template_run_def exec_node_def process_refs_def map_params_def
  to_driver_params_def driver_run_def inject_step_def validate_step_def new_command_node_def

end
