(* ===== verification/Runner_Steps.thy ===== *)
theory Runner_Steps
  imports Runner
begin

text \<open>
  \<open>Template.Run\<close> as a state machine. A state of the run holds the statements still to
  execute, the variables bound so far (\<open>vars\<close>), the statements executed, in order (the
  \<open>current\<close> template of the Go code) and the status of the loop: running, stopped on a
  failed command (the \<open>return current, nil\<close> of the source), or failed with an error.
  \<open>run_step\<close> executes one statement, one rule per branch of the loop body.

  The theory proves, by rule induction over the steps, the invariants of the states a
  run reaches: a step is taken only while the loop runs, the relation is deterministic,
  the executed and remaining statements keep the shape of the template, the variables
  are those bound by the executed declarations, and a live (not dry) run that is still
  running has recorded no error.
\<close>

section \<open>Definitions\<close>

datatype run_status = Running | Halted | Failed error

record run_state =
  rs_todo :: "stmt list"
  rs_vars :: "ident \<rightharpoonup> plain"
  rs_done :: "stmt list"
  rs_status :: run_status

inductive run_step :: "env \<Rightarrow> run_state \<Rightarrow> run_state \<Rightarrow> bool" for e where
  cmd_next:
    "exec_node e vars n = Inr (n', False) \<Longrightarrow>
     run_step e \<lparr>rs_todo = CmdStmt n # sts, rs_vars = vars, rs_done = ds, rs_status = Running\<rparr>
                \<lparr>rs_todo = sts, rs_vars = vars, rs_done = ds @ [CmdStmt n'], rs_status = Running\<rparr>"
| cmd_halt:
    "exec_node e vars n = Inr (n', True) \<Longrightarrow>
     run_step e \<lparr>rs_todo = CmdStmt n # sts, rs_vars = vars, rs_done = ds, rs_status = Running\<rparr>
                \<lparr>rs_todo = sts, rs_vars = vars, rs_done = ds @ [CmdStmt n'], rs_status = Halted\<rparr>"
| cmd_panic:
    "exec_node e vars n = Inl p \<Longrightarrow>
     run_step e \<lparr>rs_todo = CmdStmt n # sts, rs_vars = vars, rs_done = ds, rs_status = Running\<rparr>
                \<lparr>rs_todo = sts, rs_vars = vars, rs_done = ds @ [CmdStmt (process_refs vars n)],
                 rs_status = Failed p\<rparr>"
| decl_next:
    "exec_node e vars n = Inr (n', False) \<Longrightarrow>
     run_step e \<lparr>rs_todo = DeclStmt x (CmdExpr n) # sts, rs_vars = vars, rs_done = ds,
                 rs_status = Running\<rparr>
                \<lparr>rs_todo = sts, rs_vars = vars(x := cmd_result n'),
                 rs_done = ds @ [DeclStmt x (CmdExpr n')], rs_status = Running\<rparr>"
| decl_halt:
    "exec_node e vars n = Inr (n', True) \<Longrightarrow>
     run_step e \<lparr>rs_todo = DeclStmt x (CmdExpr n) # sts, rs_vars = vars, rs_done = ds,
                 rs_status = Running\<rparr>
                \<lparr>rs_todo = sts, rs_vars = vars, rs_done = ds @ [DeclStmt x (CmdExpr n')],
                 rs_status = Halted\<rparr>"
| decl_panic:
    "exec_node e vars n = Inl p \<Longrightarrow>
     run_step e \<lparr>rs_todo = DeclStmt x (CmdExpr n) # sts, rs_vars = vars, rs_done = ds,
                 rs_status = Running\<rparr>
                \<lparr>rs_todo = sts, rs_vars = vars,
                 rs_done = ds @ [DeclStmt x (CmdExpr (process_refs vars n))], rs_status = Failed p\<rparr>"
| decl_value:
    "run_step e \<lparr>rs_todo = DeclStmt x (ValueExpr v) # sts, rs_vars = vars, rs_done = ds,
                 rs_status = Running\<rparr>
                \<lparr>rs_todo = sts, rs_vars = vars, rs_done = ds @ [DeclStmt x (ValueExpr v)],
                 rs_status = Failed UnknownNodeType\<rparr>"

text \<open>The start of a run over statements.\<close>

definition run_start :: "stmt list \<Rightarrow> run_state" where
  "run_start sts = \<lparr>rs_todo = sts, rs_vars = Map.empty, rs_done = [], rs_status = Running\<rparr>"

text \<open>The variables a run has bound after executing statements: each executed command
  declaration binds its identifier to the node's result, a later one overriding an earlier.\<close>

fun bind_decl :: "stmt \<Rightarrow> (ident \<rightharpoonup> plain) \<Rightarrow> (ident \<rightharpoonup> plain)" where
  "bind_decl (DeclStmt x (CmdExpr n)) vars = vars(x := cmd_result n)"
| "bind_decl st vars = vars"

definition decl_results :: "stmt list \<Rightarrow> ident \<rightharpoonup> plain" where
  "decl_results ds = fold bind_decl ds Map.empty"

section \<open>Lemmas\<close>

inductive_cases run_step_CmdE [elim!]: "run_step e \<lparr>rs_todo = CmdStmt n # sts, rs_vars = vars,
  rs_done = ds, rs_status = st\<rparr> s'"
inductive_cases run_step_DeclE [elim!]: "run_step e \<lparr>rs_todo = DeclStmt x ex # sts, rs_vars = vars,
  rs_done = ds, rs_status = st\<rparr> s'"
inductive_cases run_step_NilE [elim!]: "run_step e \<lparr>rs_todo = [], rs_vars = vars,
  rs_done = ds, rs_status = st\<rparr> s'"

lemma run_step_running: "run_step e s s' \<Longrightarrow> rs_status s = Running"
  by (induction rule: run_step.induct) simp_all

lemma run_step_deterministic: "run_step e s s' \<Longrightarrow> run_step e s s'' \<Longrightarrow> s'' = s'"
  by (induction rule: run_step.induct) auto

subsection \<open>Invariants of the steps\<close>

lemma run_step_shape:
  "run_step e s s' \<Longrightarrow> map stmt_head (rs_done s' @ rs_todo s') = map stmt_head (rs_done s @ rs_todo s)"
  by (induction rule: run_step.induct) (auto dest: exec_node_frame)

lemma run_step_length:
  "run_step e s s' \<Longrightarrow> length (rs_todo s) = Suc (length (rs_todo s'))"
  by (induction rule: run_step.induct) simp_all

lemma run_step_vars:
  "run_step e s s' \<Longrightarrow> rs_status s' = Running \<Longrightarrow> rs_vars s = decl_results (rs_done s) \<Longrightarrow>
   rs_vars s' = decl_results (rs_done s')"
  by (induction rule: run_step.induct) (simp_all add: decl_results_def)

lemma run_step_no_errors:
  "run_step e s s' \<Longrightarrow> \<not> is_dry_run e \<Longrightarrow> rs_status s' = Running \<Longrightarrow> \<not> has_errors (rs_done s) \<Longrightarrow>
   \<not> has_errors (rs_done s')"
  by (induction rule: run_step.induct) (auto dest: exec_node_continue)

lemma star_shape:
  "(run_step e)\<^sup>*\<^sup>* s s' \<Longrightarrow> map stmt_head (rs_done s' @ rs_todo s') = map stmt_head (rs_done s @ rs_todo s)"
  by (induction rule: rtranclp_induct) (auto dest!: run_step_shape)

lemma star_running:
  "(run_step e)\<^sup>*\<^sup>* s s' \<Longrightarrow> rs_status s' = Running \<Longrightarrow> rs_status s = Running"
  by (induction rule: rtranclp_induct) (auto dest: run_step_running)

lemma star_vars:
  "(run_step e)\<^sup>*\<^sup>* s s' \<Longrightarrow> rs_status s' = Running \<Longrightarrow> rs_vars s = decl_results (rs_done s) \<Longrightarrow>
   rs_vars s' = decl_results (rs_done s')"
  by (induction rule: rtranclp_induct) (auto dest: run_step_vars run_step_running)

lemma star_no_errors:
  "(run_step e)\<^sup>*\<^sup>* s s' \<Longrightarrow> \<not> is_dry_run e \<Longrightarrow> rs_status s' = Running \<Longrightarrow>
   \<not> has_errors (rs_done s) \<Longrightarrow> \<not> has_errors (rs_done s')"
  by (induction rule: rtranclp_induct) (auto dest: run_step_no_errors run_step_running)

end
