(* ===== verification/Aws_Drivers.thy ===== *)
theory Aws_Drivers
  imports Driver
begin

text \<open>
  The AWS drivers of \<open>src/aws/driver/gen_drivers.go\<close> and the generator that writes them,
  \<open>generateDriverTypes\<close> of \<open>src/gen/aws/generators/drivers.go\<close>.

  The generator executes the Go template \<open>typesTempl\<close> on the list of service
  definitions: for each service API name \<open>api\<close> it emits an import of the SDK interface
  package, a type \<open>Title(api) + "Driver"\<close> holding a dry-run flag, a logger and the SDK
  client, the setters \<open>SetDryRun\<close> and \<open>SetLogger\<close>, a constructor
  \<open>"New" + Title(api) + "Driver"\<close>, and the two lookups, which find nothing.
  \<open>gen_drivers.go\<close> is its output for the eighteen services it names; its import block
  is checked against what the template emits.

  \<open>strings.Title\<close> is modelled on ASCII characters (\<open>is_separator\<close> follows the ASCII
  branch of the Go library's \<open>isSeparator\<close>; every other byte is treated as a letter). The
  SDK client is represented by the service's API name; the helper
  \<open>ApiToInterface\<close>, the file write and the formatting by \<open>gofmt\<close> are not modelled.
\<close>

section \<open>Definitions\<close>

subsection \<open>The generated drivers\<close>

datatype logger = DiscardLogger | Logger string

record aws_driver =
  aws_api :: string
  aws_dry_run :: bool
  aws_logger :: logger

definition set_dry_run :: "bool \<Rightarrow> aws_driver \<Rightarrow> aws_driver" where
  "set_dry_run dry d = d\<lparr>aws_dry_run := dry\<rparr>"

definition set_logger :: "logger \<Rightarrow> aws_driver \<Rightarrow> aws_driver" where
  "set_logger l d = d\<lparr>aws_logger := l\<rparr>"

definition new_aws_driver :: "string \<Rightarrow> aws_driver" where
  "new_aws_driver api = \<lparr>aws_api = api, aws_dry_run = False, aws_logger = DiscardLogger\<rparr>"

definition aws_lookup_iface :: "aws_driver \<Rightarrow> string list \<Rightarrow> drv_error + command option" where
  "aws_lookup_iface d lookups = Inr None"

definition aws_lookup :: "aws_driver \<Rightarrow> string list \<Rightarrow> drv_error + driver_fn" where
  "aws_lookup d lookups = Inl ErrDriverFnNotFound"

text \<open>The \<open>driver.Driver\<close> interface value a constructor returns.\<close>

definition aws_as_driver :: "aws_driver \<Rightarrow> driver" where
  "aws_as_driver d = \<lparr>drv_lookup = aws_lookup d, drv_lookup_iface = aws_lookup_iface d\<rparr>"

text \<open>\<open>MultiDriver.SetDryRun\<close> and \<open>MultiDriver.SetLogger\<close> on a composite of
  generated drivers: the setting is forwarded to every driver.\<close>

definition multi_set_dry_run :: "bool \<Rightarrow> aws_driver list \<Rightarrow> aws_driver list" where
  "multi_set_dry_run dry ds = map (set_dry_run dry) ds"

definition multi_set_logger :: "logger \<Rightarrow> aws_driver list \<Rightarrow> aws_driver list" where
  "multi_set_logger l ds = map (set_logger l) ds"

subsection \<open>The generator\<close>

text \<open>\<open>strings.Title\<close>: a letter that follows a separator (or starts the string) is
  upper-cased.\<close>

definition ascii_lower :: "char \<Rightarrow> bool" where
  "ascii_lower c \<longleftrightarrow> CHR ''a'' \<le> c \<and> c \<le> CHR ''z''"

definition ascii_upper :: "char \<Rightarrow> bool" where
  "ascii_upper c \<longleftrightarrow> CHR ''A'' \<le> c \<and> c \<le> CHR ''Z''"

definition ascii_digit :: "char \<Rightarrow> bool" where
  "ascii_digit c \<longleftrightarrow> CHR ''0'' \<le> c \<and> c \<le> CHR ''9''"

definition is_separator :: "char \<Rightarrow> bool" where
  "is_separator c \<longleftrightarrow>
     of_char c \<le> (127::nat) \<and> \<not> (ascii_digit c \<or> ascii_lower c \<or> ascii_upper c \<or> c = CHR ''_'')"

definition to_title :: "char \<Rightarrow> char" where
  "to_title c = (if ascii_lower c then char_of (of_char c - (32::nat)) else c)"

fun title_acc :: "char \<Rightarrow> string \<Rightarrow> string" where
  "title_acc prev [] = []"
| "title_acc prev (c # cs) = (if is_separator prev then to_title c else c) # title_acc c cs"

definition title :: "string \<Rightarrow> string" where
  "title s = title_acc CHR '' '' s"

text \<open>What \<open>typesTempl\<close> emits for one service.\<close>

record driver_decl =
  dd_import :: string
  dd_type :: string
  dd_constructor :: string
  dd_api :: string

definition render_driver_decl :: "string \<Rightarrow> driver_decl" where
  "render_driver_decl api =
     \<lparr>dd_import = ''github.com/aws/aws-sdk-go/service/'' @ api @ ''/'' @ api @ ''iface'',
      dd_type = title api @ ''Driver'',
      dd_constructor = ''New'' @ title api @ ''Driver'',
      dd_api = api\<rparr>"

definition generate_driver_types :: "string list \<Rightarrow> driver_decl list" where
  "generate_driver_types defs = map render_driver_decl defs"

text \<open>The services of \<open>gen_drivers.go\<close>, in the order of its driver types.\<close>

definition gen_drivers_defs :: "string list" where
  "gen_drivers_defs =
     [''ec2'', ''elbv2'', ''autoscaling'', ''rds'', ''ecr'', ''ecs'', ''acm'', ''sts'', ''iam'',
      ''s3'', ''sns'', ''sqs'', ''route53'', ''lambda'', ''cloudwatch'', ''cloudfront'',
      ''cloudformation'', ''applicationautoscaling'']"

text \<open>The import block \<open>typesTempl\<close> emits: three fixed packages, then the SDK interface
  package of each service in the order of the definitions.\<close>

definition types_templ_imports :: "string list \<Rightarrow> string list" where
  "types_templ_imports defs =
     [''strings'', ''github.com/wallix/awless/template/driver'', ''github.com/wallix/awless/logger'']
     @ map dd_import (generate_driver_types defs)"

text \<open>The import block of \<open>gen_drivers.go\<close> as checked in, after the \<open>gofmt\<close> and
  \<open>goimports\<close> runs of \<open>main.go\<close>'s \<open>go:generate\<close> lines.\<close>

definition gen_drivers_go_imports :: "string list" where
  "gen_drivers_go_imports =
     [''github.com/aws/aws-sdk-go/service/acm/acmiface'',
      ''github.com/aws/aws-sdk-go/service/applicationautoscaling/applicationautoscalingiface'',
      ''github.com/aws/aws-sdk-go/service/autoscaling/autoscalingiface'',
      ''github.com/aws/aws-sdk-go/service/cloudformation/cloudformationiface'',
      ''github.com/aws/aws-sdk-go/service/cloudfront/cloudfrontiface'',
      ''github.com/aws/aws-sdk-go/service/cloudwatch/cloudwatchiface'',
      ''github.com/aws/aws-sdk-go/service/ec2/ec2iface'',
      ''github.com/aws/aws-sdk-go/service/ecr/ecriface'',
      ''github.com/aws/aws-sdk-go/service/ecs/ecsiface'',
      ''github.com/aws/aws-sdk-go/service/elbv2/elbv2iface'',
      ''github.com/aws/aws-sdk-go/service/iam/iamiface'',
      ''github.com/aws/aws-sdk-go/service/lambda/lambdaiface'',
      ''github.com/aws/aws-sdk-go/service/rds/rdsiface'',
      ''github.com/aws/aws-sdk-go/service/route53/route53iface'',
      ''github.com/aws/aws-sdk-go/service/s3/s3iface'',
      ''github.com/aws/aws-sdk-go/service/sns/snsiface'',
      ''github.com/aws/aws-sdk-go/service/sqs/sqsiface'',
      ''github.com/aws/aws-sdk-go/service/sts/stsiface'',
      ''github.com/wallix/awless/logger'',
      ''github.com/wallix/awless/template/driver'']"

section \<open>Lemmas\<close>

lemma aws_as_driver_gen_driver [simp]: "aws_as_driver d = gen_driver"
  by (simp add: aws_as_driver_def gen_driver_def aws_lookup_def aws_lookup_iface_def fun_eq_iff)

lemma new_aws_driver_state [simp]:
  "aws_api (new_aws_driver api) = api" "\<not> aws_dry_run (new_aws_driver api)"
  "aws_logger (new_aws_driver api) = DiscardLogger"
  by (simp_all add: new_aws_driver_def)

lemma setters_frame [simp]:
  "aws_dry_run (set_dry_run b d) = b" "aws_logger (set_dry_run b d) = aws_logger d"
  "aws_api (set_dry_run b d) = aws_api d"
  "aws_logger (set_logger l d) = l" "aws_dry_run (set_logger l d) = aws_dry_run d"
  "aws_api (set_logger l d) = aws_api d"
  by (simp_all add: set_dry_run_def set_logger_def)

lemma multi_lookup_iface_gen_drivers:
  "set ds \<subseteq> {gen_driver} \<Longrightarrow> multi_lookup_iface ds ls = Inr None"
  by (induction ds) (auto simp: gen_driver_def)

lemma render_names:
  "map dd_type (generate_driver_types defs) = map (\<lambda>a. title a @ ''Driver'') defs"
  "map dd_constructor (generate_driver_types defs) = map (\<lambda>a. ''New'' @ title a @ ''Driver'') defs"
  by (simp_all add: generate_driver_types_def render_driver_decl_def)

text \<open>The checked-in imports are what \<open>typesTempl\<close> emits for the eighteen services,
  each once, without the unused \<open>strings\<close> that \<open>goimports\<close> removes.\<close>

lemma gen_drivers_go_imports_generated:
  "set gen_drivers_go_imports = set (types_templ_imports gen_drivers_defs) - {''strings''}"
  "distinct gen_drivers_go_imports"
  "length gen_drivers_go_imports = length (types_templ_imports gen_drivers_defs) - 1"
  by (simp_all add: gen_drivers_go_imports_def types_templ_imports_def gen_drivers_defs_def
      generate_driver_types_def render_driver_decl_def insert_commute)

end
