(* ===== verification/Template_Validation.thy ===== *)
theory Template_Validation
  imports Template
begin

text \<open>
  \<open>Template.Validate\<close> and the error collection \<open>Errors\<close> of
  \<open>src/template/template.go\<close>. A validation rule (\<open>Validator.Execute\<close>, whose
  implementations are not part of this repository) is a function from the template to
  its errors. An error is represented by its message, \<open>err.Error()\<close>.
  \<open>strings.Join\<close> is given by \<open>join\<close>; \<open>split_on\<close>, its inverse for messages
  without the separator, is used only to state the round trip.
\<close>

section \<open>Definitions\<close>

type_synonym validator = "template \<Rightarrow> string list"

text \<open>\<open>Validate\<close>: the errors of every rule, in the order of the rules.\<close>

definition template_validate :: "template \<Rightarrow> validator list \<Rightarrow> string list" where
  "template_validate t rules = fold (\<lambda>rule all. all @ rule t) rules []"

record errors =
  errs :: "string list"

definition errors_errors :: "errors \<Rightarrow> string list \<times> bool" where
  "errors_errors d = (errs d, 0 < length (errs d))"

definition errors_add :: "string \<Rightarrow> errors \<Rightarrow> errors" where
  "errors_add err d = d\<lparr>errs := errs d @ [err]\<rparr>"

fun join :: "string \<Rightarrow> string list \<Rightarrow> string" where
  "join sep [] = []"
| "join sep [x] = x"
| "join sep (x # y # xs) = x @ sep @ join sep (y # xs)"

definition newline :: char where
  "newline = CHR 0x0A"

definition errors_error :: "errors \<Rightarrow> string" where
  "errors_error d = join [newline] (errs d)"

fun split_on :: "char \<Rightarrow> string \<Rightarrow> string list" where
  "split_on c [] = [[]]"
| "split_on c (x # xs) =
     (if x = c then [] # split_on c xs else (let ws = split_on c xs in (x # hd ws) # tl ws))"

section \<open>Lemmas\<close>

lemma template_validate_concat:
  "template_validate t rules = concat (map (\<lambda>rule. rule t) rules)"
proof -
  have "fold (\<lambda>rule all. all @ rule t) rules acc = acc @ concat (map (\<lambda>rule. rule t) rules)" for acc
    by (induction rules arbitrary: acc) simp_all
  then show ?thesis by (simp add: template_validate_def)
qed

lemma split_on_nonempty [simp]: "split_on c s \<noteq> []"
  by (induction c s rule: split_on.induct) (simp_all add: Let_def)

end
