(* ===== verification/Aws_Specs.thy ===== *)
theory Aws_Specs
  imports Prelude "HOL-Library.Word" "HOL-Library.Sublist"
begin

text \<open>
  The pure helpers of the AWS command specs, \<open>src/aws/spec/securitygroup.go\<close>:
  \<open>UpdateSecuritygroup.buildIpPermissions\<close>, which turns the parameters of
  \<open>update securitygroup\<close> into the EC2 permission it authorizes or revokes, and
  \<open>removeString\<close>. The SDK calls around them are not modelled.

  The Go library functions they call are given by their definitions for ASCII strings:
  \<open>strings.Contains(s, t)\<close> is \<open>sublist t s\<close> (a contiguous infix),
  \<open>strings.SplitN(s, "-", 2)\<close> splits at the first dash, \<open>strings.ToLower\<close> lowers
  ASCII letters, and \<open>strconv.ParseInt(s, 10, 64)\<close> is \<open>parse_int64\<close>: an optional
  sign, then decimal digits accumulated as in \<open>strconv.ParseUint\<close>, which fails with a
  range error as soon as the value read exceeds \<open>2^64 - 1\<close>, then the signed bound
  check. Ports are Go \<open>int64\<close> values, the type \<open>int64\<close> of \<open>64 word\<close>s read
  with \<open>sint\<close>.
\<close>

section \<open>Definitions\<close>

subsection \<open>Go library functions\<close>

type_synonym int64 = "64 word"

datatype num_error = ErrSyntax string | ErrRange string

definition is_digit :: "char \<Rightarrow> bool" where
  "is_digit c \<longleftrightarrow> CHR ''0'' \<le> c \<and> c \<le> CHR ''9''"

definition digit_val :: "char \<Rightarrow> nat" where
  "digit_val c = of_char c - of_char CHR ''0''"

definition max_uint64 :: nat where
  "max_uint64 = 2 ^ 64 - 1"

datatype uint_error = USyntax | URange

fun parse_uint_acc :: "nat \<Rightarrow> string \<Rightarrow> uint_error + nat" where
  "parse_uint_acc n [] = Inr n"
| "parse_uint_acc n (c # cs) =
     (if \<not> is_digit c then Inl USyntax
      else if max_uint64 < n * 10 + digit_val c then Inl URange
      else parse_uint_acc (n * 10 + digit_val c) cs)"

definition parse_uint64 :: "string \<Rightarrow> uint_error + nat" where
  "parse_uint64 s = (if s = [] then Inl USyntax else parse_uint_acc 0 s)"

definition parse_int64 :: "string \<Rightarrow> num_error + int64" where
  "parse_int64 s0 =
     (if s0 = [] then Inl (ErrSyntax s0)
      else
        (let (neg, s) = (if hd s0 = CHR ''+'' then (False, tl s0)
                         else if hd s0 = CHR ''-'' then (True, tl s0) else (False, s0))
         in case parse_uint64 s of
              Inl USyntax \<Rightarrow> Inl (ErrSyntax s0)
            | Inl URange \<Rightarrow> Inl (ErrRange s0)
            | Inr un \<Rightarrow>
                (if \<not> neg \<and> 2 ^ 63 \<le> un then Inl (ErrRange s0)
                 else if neg \<and> 2 ^ 63 < un then Inl (ErrRange s0)
                 else Inr (word_of_int (if neg then - int un else int un)))))"

definition to_lower :: "string \<Rightarrow> string" where
  "to_lower s =
     map (\<lambda>c. if CHR ''A'' \<le> c \<and> c \<le> CHR ''Z'' then char_of (of_char c + (32::nat)) else c) s"

definition split_dash :: "string \<Rightarrow> string \<times> string" where
  "split_dash s = (takeWhile (\<lambda>c. c \<noteq> CHR ''-'') s, drop 1 (dropWhile (\<lambda>c. c \<noteq> CHR ''-'') s))"

definition string_value :: "string option \<Rightarrow> string" where
  "string_value s = (case s of None \<Rightarrow> [] | Some v \<Rightarrow> v)"

subsection \<open>The command and the permission\<close>

record update_securitygroup =
  usg_id :: "string option"
  usg_protocol :: "string option"
  usg_cidr :: "string option"
  usg_securitygroup :: "string option"
  usg_inbound :: "string option"
  usg_outbound :: "string option"
  usg_portrange :: "string option"

record ip_permission =
  perm_ip_ranges :: "string list"
  perm_group_pairs :: "string list"
  perm_from_port :: "int64 option"
  perm_to_port :: "int64 option"
  perm_ip_protocol :: "string option"

datatype perm_error = MissingCidrOrGroup | PortError num_error

definition empty_ip_permission :: ip_permission where
  "empty_ip_permission =
     \<lparr>perm_ip_ranges = [], perm_group_pairs = [], perm_from_port = None, perm_to_port = None,
      perm_ip_protocol = None\<rparr>"

text \<open>The port switch of \<open>buildIpPermissions\<close>: the first case whose condition holds.\<close>

definition ports_of :: "string \<Rightarrow> string \<Rightarrow> num_error + int64 \<times> int64" where
  "ports_of p ports =
     (if sublist ''any'' ports then
        (if to_lower p = ''tcp'' \<or> to_lower p = ''udp'' then Inr (0, 65535) else Inr (-1, -1))
      else if sublist ''-'' ports then
        (case parse_int64 (fst (split_dash ports)) of
           Inl err \<Rightarrow> Inl err
         | Inr from \<Rightarrow>
             (case parse_int64 (snd (split_dash ports)) of
                Inl err \<Rightarrow> Inl err
              | Inr to \<Rightarrow> Inr (from, to)))
      else
        (case parse_int64 ports of Inl err \<Rightarrow> Inl err | Inr port \<Rightarrow> Inr (port, port)))"

definition build_ip_permissions :: "update_securitygroup \<Rightarrow> perm_error + ip_permission list" where
  "build_ip_permissions cmd =
     (let base =
        (case usg_cidr cmd of
           Some cidr \<Rightarrow> Some (empty_ip_permission\<lparr>perm_ip_ranges := [cidr]\<rparr>)
         | None \<Rightarrow>
             (case usg_securitygroup cmd of
                Some g \<Rightarrow> Some (empty_ip_permission\<lparr>perm_group_pairs := [g]\<rparr>)
              | None \<Rightarrow> None))
      in case base of
           None \<Rightarrow> Inl MissingCidrOrGroup
         | Some perm \<Rightarrow>
             (let p = string_value (usg_protocol cmd)
              in if sublist p ''any'' then
                   Inr [perm\<lparr>perm_from_port := Some (-1), perm_to_port := Some (-1),
                             perm_ip_protocol := Some ''-1''\<rparr>]
                 else
                   (case ports_of p (string_value (usg_portrange cmd)) of
                      Inl err \<Rightarrow> Inl (PortError err)
                    | Inr (from, to) \<Rightarrow>
                        Inr [perm\<lparr>perm_ip_protocol := Some p, perm_from_port := Some from,
                                  perm_to_port := Some to\<rparr>])))"

definition remove_string :: "string list \<Rightarrow> string \<Rightarrow> string list" where
  "remove_string arr s = fold (\<lambda>e out. if e \<noteq> s then out @ [e] else out) arr []"

section \<open>Lemmas\<close>

subsection \<open>Decimal digits\<close>

lemma digit_char_props:
  assumes "d < 10"
  shows "is_digit (digit_char d)" "digit_val (digit_char d) = d"
proof -
  have "d \<in> {0, 1, 2, 3, 4, 5, 6, 7, 8, 9}" using assms by auto
  then show "is_digit (digit_char d)" "digit_val (digit_char d) = d"
    by (auto simp: digit_char_def is_digit_def digit_val_def less_eq_char_def)
qed

lemma digit_not_sign: "is_digit c \<Longrightarrow> c \<noteq> CHR ''+'' \<and> c \<noteq> CHR ''-''"
  by (auto simp: is_digit_def less_eq_char_def)

lemma string_of_nat_step:
  "10 \<le> n \<Longrightarrow> string_of_nat n = string_of_nat (n div 10) @ [digit_char (n mod 10)]"
  by (subst string_of_nat.simps) simp

lemma string_of_nat_small: "n < 10 \<Longrightarrow> string_of_nat n = [digit_char n]"
  by (subst string_of_nat.simps) simp

lemma string_of_nat_digits: "list_all is_digit (string_of_nat n)"
proof (induction n rule: string_of_nat.induct)
  case (1 n)
  then show ?case
    by (cases "n < 10") (simp_all add: string_of_nat_small string_of_nat_step digit_char_props)
qed

lemma hd_string_of_nat_digit: "is_digit (hd (string_of_nat n))"
  using string_of_nat_digits[of n] string_of_nat_nonempty[of n]
  by (cases "string_of_nat n") simp_all

subsection \<open>Parsing\<close>

lemma parse_uint_acc_append:
  "parse_uint_acc n (xs @ ys) =
     (case parse_uint_acc n xs of Inl e \<Rightarrow> Inl e | Inr m \<Rightarrow> parse_uint_acc m ys)"
  by (induction n xs rule: parse_uint_acc.induct) simp_all

lemma parse_uint_acc_string_of_nat:
  "parse_uint_acc acc (string_of_nat n) =
     (let v = acc * 10 ^ length (string_of_nat n) + n in if v \<le> max_uint64 then Inr v else Inl URange)"
proof (induction n arbitrary: acc rule: string_of_nat.induct)
  case (1 n)
  show ?case
  proof (cases "n < 10")
    case True
    then show ?thesis by (simp add: string_of_nat_small digit_char_props not_less)
  next
    case False
    let ?L = "length (string_of_nat (n div 10))"
    let ?v' = "acc * 10 ^ ?L + n div 10"
    have v: "?v' * 10 + n mod 10 = acc * 10 ^ Suc ?L + n" by simp
    have IH: "parse_uint_acc acc (string_of_nat (n div 10)) =
        (if ?v' \<le> max_uint64 then Inr ?v' else Inl URange)"
      using "1.IH"[of acc] False by (simp add: Let_def)
    show ?thesis
    proof (cases "?v' \<le> max_uint64")
      case True
      with IH False v show ?thesis
        by (simp add: string_of_nat_step parse_uint_acc_append digit_char_props Let_def not_less)
    next
      case nok: False
      have "?v' \<le> ?v' * 10 + n mod 10" by simp
      then have "?v' \<le> acc * 10 ^ Suc ?L + n" by (simp only: v)
      with IH False nok show ?thesis
        by (simp add: string_of_nat_step parse_uint_acc_append Let_def)
    qed
  qed
qed

lemma parse_uint64_string_of_nat:
  "parse_uint64 (string_of_nat n) = (if n \<le> max_uint64 then Inr n else Inl URange)"
  by (simp add: parse_uint64_def parse_uint_acc_string_of_nat)

lemma sint_word_of_int_64:
  "- (2 ^ 63) \<le> v \<Longrightarrow> v < 2 ^ 63 \<Longrightarrow> sint (word_of_int v :: int64) = v"
  by (simp add: sint_sbintrunc' signed_take_bit_int_eq_self)

lemma parse_int64_string_of_int:
  "parse_int64 (string_of_int v) =
     (if - (2 ^ 63) \<le> v \<and> v < 2 ^ 63 then Inr (word_of_int v) else Inl (ErrRange (string_of_int v)))"
proof (cases "v < 0")
  case True
  let ?u = "nat (- v)"
  have s: "string_of_int v = CHR ''-'' # string_of_nat ?u" using True by (simp add: string_of_int_def)
  show ?thesis
    using True unfolding parse_int64_def s
    by (auto simp: parse_uint64_string_of_nat max_uint64_def)
next
  case False
  let ?u = "nat v"
  have s: "string_of_int v = string_of_nat ?u" using False by (simp add: string_of_int_def)
  have h: "hd (string_of_nat ?u) \<noteq> CHR ''+'' \<and> hd (string_of_nat ?u) \<noteq> CHR ''-''"
    using digit_not_sign[OF hd_string_of_nat_digit] .
  show ?thesis
    using False h unfolding parse_int64_def s
    by (auto simp: parse_uint64_string_of_nat max_uint64_def)
qed

subsection \<open>Building the permission\<close>

lemma sublist_chars: "sublist xs ys \<Longrightarrow> set xs \<subseteq> set ys"
  by (auto simp: sublist_def)

lemma not_any_in_digits:
  "list_all is_digit xs \<Longrightarrow> list_all is_digit ys \<Longrightarrow> \<not> sublist ''any'' (xs @ ''-'' @ ys)"
proof
  assume "list_all is_digit xs" "list_all is_digit ys" "sublist ''any'' (xs @ ''-'' @ ys)"
  then have "CHR ''a'' \<in> set xs \<union> set ys" using sublist_chars by fastforce
  with \<open>list_all is_digit xs\<close> \<open>list_all is_digit ys\<close> show False
    by (auto simp: list_all_iff is_digit_def less_eq_char_def)
qed

lemma split_dash_append:
  "CHR ''-'' \<notin> set xs \<Longrightarrow> split_dash (xs @ CHR ''-'' # ys) = (xs, ys)"
  by (induction xs) (auto simp: split_dash_def)

lemma digits_no_dash: "list_all is_digit xs \<Longrightarrow> CHR ''-'' \<notin> set xs"
  by (auto simp: list_all_iff dest: digit_not_sign)

lemma parse_int64_string_of_nat:
  "a < 2 ^ 63 \<Longrightarrow> parse_int64 (string_of_nat a) = Inr (of_nat a)"
  using parse_int64_string_of_int[of "int a"] by (simp add: string_of_int_def)

lemma digits_no_sublist:
  assumes "list_all is_digit xs" and "CHR ''a'' \<in> set t \<or> CHR ''-'' \<in> set t"
  shows "\<not> sublist t xs"
proof
  assume "sublist t xs"
  then have "set t \<subseteq> set xs" by (rule sublist_chars)
  then obtain c where "c \<in> set xs" "c = CHR ''a'' \<or> c = CHR ''-''" using assms(2) by blast
  with assms(1) show False by (auto simp: list_all_iff is_digit_def less_eq_char_def)
qed

lemma parse_int64_string_of_nat_range:
  "2 ^ 63 \<le> a \<Longrightarrow> parse_int64 (string_of_nat a) = Inl (ErrRange (string_of_nat a))"
  using parse_int64_string_of_int[of "int a"] by (simp add: string_of_int_def)

lemma ports_of_single:
  "ports_of p (string_of_nat a) =
     (if a < 2 ^ 63 then Inr (of_nat a, of_nat a) else Inl (ErrRange (string_of_nat a)))"
proof -
  have "\<not> sublist ''any'' (string_of_nat a)" "\<not> sublist ''-'' (string_of_nat a)"
    by (rule digits_no_sublist[OF string_of_nat_digits], simp)+
  then show ?thesis
    by (simp add: ports_of_def parse_int64_string_of_nat parse_int64_string_of_nat_range)
qed

lemma ports_of_range:
  assumes "a < 2 ^ 63" and "b < 2 ^ 63"
  shows "ports_of p (string_of_nat a @ ''-'' @ string_of_nat b) = Inr (of_nat a, of_nat b)"
proof -
  have "\<not> sublist ''any'' (string_of_nat a @ ''-'' @ string_of_nat b)"
    by (rule not_any_in_digits) (rule string_of_nat_digits)+
  moreover have "sublist ''-'' (string_of_nat a @ ''-'' @ string_of_nat b)"
    by (auto simp: sublist_def)
  moreover have "split_dash (string_of_nat a @ ''-'' @ string_of_nat b) = (string_of_nat a, string_of_nat b)"
    using split_dash_append[OF digits_no_dash[OF string_of_nat_digits]] by simp
  ultimately show ?thesis
    using assms by (simp add: ports_of_def parse_int64_string_of_nat)
qed

lemma remove_string_filter: "remove_string arr s = filter (\<lambda>e. e \<noteq> s) arr"
proof -
  have "fold (\<lambda>e out. if e \<noteq> s then out @ [e] else out) arr acc = acc @ filter (\<lambda>e. e \<noteq> s) arr"
    for acc
    by (induction arr arbitrary: acc) simp_all
  then show ?thesis by (simp add: remove_string_def)
qed

end
