(* ===== verification/Sg_Handlers.thy ===== *)
theory Sg_Handlers
  imports Aws_Specs Template_Validation
begin

text \<open>
  The handlers of the security-group commands of \<open>src/aws/spec/securitygroup.go\<close>
  around the EC2 calls they make: \<open>UpdateSecuritygroup.ManualRun\<close> up to the request it
  sends, \<open>CheckSecuritygroup\<close>'s state probe, \<open>fetchInstanceSecurityGroups\<close> and
  \<open>AttachSecuritygroup\<close>/\<open>DetachSecuritygroup.ManualRun\<close> up to the
  \<open>ModifyInstanceAttribute\<close> request. An EC2 read (\<open>DescribeInstanceAttribute\<close>,
  \<open>DescribeNetworkInterfaces\<close>) is a parameter of the handler: a function from the
  identifier asked for to the API error (its message) or the identifiers of the answer,
  each a Go \<open>*string\<close> that may be nil. The request a handler returns stands for the
  SDK call made with it; the call's own outcome, the logger's timing lines and the
  reflective \<open>setFieldWithType\<close> (not part of this repository) are not modelled.
\<close>

section \<open>Definitions\<close>

subsection \<open>Update: the request of \<open>ManualRun\<close>\<close>

datatype sg_input =
    AuthorizeIngress "ip_permission list"
  | RevokeIngress "ip_permission list"
  | AuthorizeEgress "ip_permission list"
  | RevokeEgress "ip_permission list"

datatype sg_error = SgPermError perm_error | BadInbound string | BadOutbound string | NoDirection

text \<open>One \<open>switch StringValue(d)\<close> of \<open>ManualRun\<close>: a nil direction leaves the input
  chosen so far, \<open>authorize\<close> and \<open>revoke\<close> replace it, any other value is an error.\<close>

definition direction_switch ::
  "(ip_permission list \<Rightarrow> sg_input) \<Rightarrow> (ip_permission list \<Rightarrow> sg_input) \<Rightarrow> (string \<Rightarrow> sg_error) \<Rightarrow>
   ip_permission list \<Rightarrow> string option \<Rightarrow> sg_input option \<Rightarrow> sg_error + sg_input option" where
  "direction_switch authorize revoke bad perms dir input =
     (case dir of
        None \<Rightarrow> Inr input
      | Some d \<Rightarrow>
          (if d = ''authorize'' then Inr (Some (authorize perms))
           else if d = ''revoke'' then Inr (Some (revoke perms))
           else Inl (bad d)))"

record sg_call =
  call_input :: sg_input
  call_group_id :: "string option"

definition update_sg_manual_run :: "update_securitygroup \<Rightarrow> sg_error + sg_call" where
  "update_sg_manual_run cmd =
     (case build_ip_permissions cmd of
        Inl err \<Rightarrow> Inl (SgPermError err)
      | Inr perms \<Rightarrow>
          (case direction_switch AuthorizeIngress RevokeIngress BadInbound perms (usg_inbound cmd) None of
             Inl err \<Rightarrow> Inl err
           | Inr input \<Rightarrow>
               (case direction_switch AuthorizeEgress RevokeEgress BadOutbound perms (usg_outbound cmd) input of
                  Inl err \<Rightarrow> Inl err
                | Inr None \<Rightarrow> Inl NoDirection
                | Inr (Some i) \<Rightarrow> Inr \<lparr>call_input = i, call_group_id = usg_id cmd\<rparr>)))"

subsection \<open>Check: the state probe\<close>

type_synonym ec2_read = "string \<Rightarrow> string + string option list"

text \<open>The \<open>fetchFunc\<close> of \<open>CheckSecuritygroup.ManualRun\<close>: the network interfaces that
  use the group, read by group id.\<close>

definition check_sg_fetch :: "ec2_read \<Rightarrow> string option \<Rightarrow> string + string" where
  "check_sg_fetch api gid =
     (case api (string_value gid) of
        Inl err \<Rightarrow> Inl err
      | Inr nis \<Rightarrow>
          (if length nis = 0 then Inr ''unused''
           else Inr (''used by '' @ join '', '' (map string_value nis))))"

subsection \<open>Attach and detach\<close>

record sg_instance_cmd =
  sgi_id :: "string option"
  sgi_instance :: "string option"

record modify_call =
  mod_instance :: "string option"
  mod_groups :: "string list"

definition fetch_instance_security_groups :: "ec2_read \<Rightarrow> string \<Rightarrow> string + string list" where
  "fetch_instance_security_groups api inst =
     (case api inst of Inl err \<Rightarrow> Inl err | Inr gs \<Rightarrow> Inr (map string_value gs))"

definition fetch_error :: "string \<Rightarrow> string \<Rightarrow> string" where
  "fetch_error inst err = ''fetching securitygroups for instance '' @ inst @ '': '' @ err"

definition attach_sg_manual_run :: "ec2_read \<Rightarrow> sg_instance_cmd \<Rightarrow> string + modify_call" where
  "attach_sg_manual_run api cmd =
     (case fetch_instance_security_groups api (string_value (sgi_instance cmd)) of
        Inl err \<Rightarrow> Inl (fetch_error (string_value (sgi_instance cmd)) err)
      | Inr groups \<Rightarrow>
          Inr \<lparr>mod_instance = sgi_instance cmd, mod_groups = groups @ [string_value (sgi_id cmd)]\<rparr>)"

text \<open>The flag is the \<open>logger.Errorf\<close> of an instance left without a group; the request
  is made either way.\<close>

definition detach_sg_manual_run :: "ec2_read \<Rightarrow> sg_instance_cmd \<Rightarrow> string + bool \<times> modify_call" where
  "detach_sg_manual_run api cmd =
     (case fetch_instance_security_groups api (string_value (sgi_instance cmd)) of
        Inl err \<Rightarrow> Inl (fetch_error (string_value (sgi_instance cmd)) err)
      | Inr groups \<Rightarrow>
          (let cleaned = remove_string groups (string_value (sgi_id cmd))
           in Inr (length cleaned = 0, \<lparr>mod_instance = sgi_instance cmd, mod_groups = cleaned\<rparr>)))"

subsection \<open>The instances' groups as EC2 keeps them\<close>

text \<open>Not code of the repository: the EC2 side the attach and detach requests act on,
  the groups of each instance; \<open>DescribeInstanceAttribute\<close> reads them and
  \<open>ModifyInstanceAttribute\<close> replaces them.\<close>

type_synonym group_store = "string \<Rightarrow> string list"

definition describe_groups :: "group_store \<Rightarrow> ec2_read" where
  "describe_groups s i = Inr (map Some (s i))"

definition modify_groups :: "group_store \<Rightarrow> modify_call \<Rightarrow> group_store" where
  "modify_groups s c = s(string_value (mod_instance c) := mod_groups c)"

text \<open>The direction values \<open>ManualRun\<close> accepts, as a predicate of the properties.\<close>

definition sg_direction_ok :: "string option \<Rightarrow> bool" where
  "sg_direction_ok d \<longleftrightarrow> d = None \<or> d = Some ''authorize'' \<or> d = Some ''revoke''"

text \<open>Concrete commands and EC2 answers the properties are applied to.\<close>

definition ex_usg :: update_securitygroup where
  "ex_usg =
     \<lparr>usg_id = Some ''sg-1'', usg_protocol = Some ''any'', usg_cidr = Some ''10.0.0.0/8'',
      usg_securitygroup = None, usg_inbound = Some ''authorize'', usg_outbound = Some ''revoke'',
      usg_portrange = None\<rparr>"

definition ex_any_perm :: ip_permission where
  "ex_any_perm =
     empty_ip_permission\<lparr>perm_ip_ranges := [''10.0.0.0/8''], perm_from_port := Some (-1),
       perm_to_port := Some (-1), perm_ip_protocol := Some ''-1''\<rparr>"

definition ex_sgi :: sg_instance_cmd where
  "ex_sgi = \<lparr>sgi_id = Some ''sg-b'', sgi_instance = Some ''i-1''\<rparr>"

definition ex_store :: group_store where
  "ex_store = (\<lambda>_. [])(''i-1'' := [''sg-a''])"

section \<open>Lemmas\<close>

lemma fetch_describe_groups [simp]:
  "fetch_instance_security_groups (describe_groups s) i = Inr (s i)"
  by (simp add: fetch_instance_security_groups_def describe_groups_def comp_def string_value_def)

lemma ex_usg_perms: "build_ip_permissions ex_usg = Inr [ex_any_perm]"
  by (simp add: build_ip_permissions_def ex_usg_def ex_any_perm_def string_value_def)

section \<open>Properties\<close>

text \<open>C36: \<open>UpdateSecuritygroup.ManualRun\<close> given both an inbound and an outbound
  direction, each \<open>authorize\<close> or \<open>revoke\<close>, sends only the egress request: the
  outbound switch overwrites the input the inbound switch chose, and the inbound
  request is dropped without an error.\<close>

theorem update_sg_both_directions:
  assumes "build_ip_permissions cmd = Inr perms"
    and "usg_inbound cmd = Some ''authorize'' \<or> usg_inbound cmd = Some ''revoke''"
    and "usg_outbound cmd = Some d" and "d = ''authorize'' \<or> d = ''revoke''"
  shows "update_sg_manual_run cmd =
    Inr \<lparr>call_input = (if d = ''authorize'' then AuthorizeEgress perms else RevokeEgress perms),
         call_group_id = usg_id cmd\<rparr>"
  using assms by (auto simp: update_sg_manual_run_def direction_switch_def)

theorem update_sg_both_directions_witness:
  "build_ip_permissions ex_usg = Inr [ex_any_perm] \<and>
   update_sg_manual_run ex_usg =
     Inr \<lparr>call_input = RevokeEgress [ex_any_perm], call_group_id = Some ''sg-1''\<rparr>"
proof -
  note perms = ex_usg_perms
  show ?thesis
    using update_sg_both_directions[OF perms, where d = "''revoke''"] perms
    by (simp add: ex_usg_def)
qed

text \<open>C37: \<open>UpdateSecuritygroup.ManualRun\<close> reaches its EC2 call exactly when the
  permission builds, each direction given is \<open>authorize\<close> or \<open>revoke\<close>, and at
  least one direction is given; every other command ends in one of its errors.\<close>

theorem update_sg_manual_run_ok:
  "(\<exists>c. update_sg_manual_run cmd = Inr c) \<longleftrightarrow>
     (\<exists>perms. build_ip_permissions cmd = Inr perms) \<and> sg_direction_ok (usg_inbound cmd) \<and>
     sg_direction_ok (usg_outbound cmd) \<and> \<not> (usg_inbound cmd = None \<and> usg_outbound cmd = None)"
  by (cases "build_ip_permissions cmd")
    (auto simp: update_sg_manual_run_def direction_switch_def sg_direction_ok_def
      split: sum.splits option.splits if_splits)

theorem update_sg_manual_run_ok_witness:
  "\<exists>c. update_sg_manual_run ex_usg = Inr c"
proof -
  note perms = ex_usg_perms
  show ?thesis
    using update_sg_manual_run_ok[of ex_usg] perms
    by (simp add: ex_usg_def sg_direction_ok_def)
qed

text \<open>C38: attaching a group an instance does not have and then detaching it, each
  handler reading the instance's groups from EC2 and replacing them, leaves every
  instance with the groups it had.\<close>

theorem attach_detach_roundtrip:
  assumes "string_value (sgi_id cmd) \<notin> set (s (string_value (sgi_instance cmd)))"
  shows "\<exists>c1 logged c2. attach_sg_manual_run (describe_groups s) cmd = Inr c1 \<and>
     detach_sg_manual_run (describe_groups (modify_groups s c1)) cmd = Inr (logged, c2) \<and>
     modify_groups (modify_groups s c1) c2 = s"
  using assms
  by (auto simp: attach_sg_manual_run_def detach_sg_manual_run_def modify_groups_def
      remove_string_filter Let_def filter_id_conv)

theorem attach_detach_roundtrip_witness:
  "\<exists>c1 logged c2. attach_sg_manual_run (describe_groups ex_store) ex_sgi = Inr c1 \<and>
     detach_sg_manual_run (describe_groups (modify_groups ex_store c1)) ex_sgi = Inr (logged, c2) \<and>
     modify_groups (modify_groups ex_store c1) c2 = ex_store"
  using attach_detach_roundtrip[of ex_sgi ex_store]
  by (simp add: ex_sgi_def ex_store_def string_value_def)

text \<open>C39: detaching the only group of an instance logs that an instance must keep a
  group and still sends \<open>ModifyInstanceAttribute\<close> with no group at all.\<close>

theorem detach_last_group:
  assumes "api (string_value (sgi_instance cmd)) = Inr gs"
    and "list_all (\<lambda>g. string_value g = string_value (sgi_id cmd)) gs"
  shows "detach_sg_manual_run api cmd = Inr (True, \<lparr>mod_instance = sgi_instance cmd, mod_groups = []\<rparr>)"
  using assms
  by (simp add: detach_sg_manual_run_def fetch_instance_security_groups_def remove_string_filter
      filter_empty_conv list_all_iff)

theorem detach_last_group_witness:
  "detach_sg_manual_run (\<lambda>_. Inr [Some ''sg-b'']) ex_sgi =
     Inr (True, \<lparr>mod_instance = Some ''i-1'', mod_groups = []\<rparr>)"
  using detach_last_group[of "\<lambda>_. Inr [Some ''sg-b'']" ex_sgi "[Some ''sg-b'']"]
  by (simp add: ex_sgi_def string_value_def)

text \<open>The probe of \<open>CheckSecuritygroup\<close> reports the state \<open>unused\<close>, the only
  state the command accepts, exactly when no network interface uses the group.\<close>

lemma check_sg_unused:
  "check_sg_fetch api gid = Inr ''unused'' \<longleftrightarrow> api (string_value gid) = Inr []"
  by (auto simp: check_sg_fetch_def split: sum.splits)

end
