(* ===== verification/Db_Checks.thy ===== *)
theory Db_Checks
  imports Aws_Specs
begin

text \<open>
  The state probe of \<open>CheckDatabase.ManualRun\<close> in \<open>src/aws/spec/database.go\<close>:
  the \<open>fetchFunc\<close> its checker polls until the database reaches the expected state.
  The RDS read \<open>DescribeDBInstances\<close> is a parameter: an error, either an
  \<open>awserr.Error\<close> with its code and message or another Go error, or the instances of the
  answer. The package constant \<open>notFoundState\<close> (declared outside this repository) is
  a parameter as well; the polling loop \<open>checker\<close> is not modelled.
\<close>

section \<open>Definitions\<close>

datatype aws_error = AwsError string string | GoError string

record db_instance =
  db_identifier :: "string option"
  db_status :: "string option"

type_synonym rds_read = "string option \<Rightarrow> aws_error + db_instance list"

definition check_db_fetch :: "string \<Rightarrow> rds_read \<Rightarrow> string option \<Rightarrow> string + string" where
  "check_db_fetch not_found api dbid =
     (case api dbid of
        Inl (AwsError code msg) \<Rightarrow> (if code = ''DatabaseNotFound'' then Inr not_found else Inr not_found)
      | Inl (GoError msg) \<Rightarrow> Inl msg
      | Inr res \<Rightarrow>
          (case find (\<lambda>i. string_value (db_identifier i) = string_value dbid) res of
             Some i \<Rightarrow> Inr (string_value (db_status i))
           | None \<Rightarrow> Inr not_found))"

section \<open>Properties\<close>

text \<open>C35: the probe of \<open>CheckDatabase\<close> turns every AWS error, whatever its code
  (throttling, denied access, not only \<open>DatabaseNotFound\<close>), into the state
  \<open>notFoundState\<close> with no error, so a check expecting that state succeeds on a failed
  read.\<close>

theorem check_db_fetch_masks_aws_errors:
  "api dbid = Inl (AwsError code msg) \<Longrightarrow> check_db_fetch not_found api dbid = Inr not_found"
  by (simp add: check_db_fetch_def)

theorem check_db_fetch_masks_aws_errors_witness:
  "check_db_fetch ''not-found'' (\<lambda>_. Inl (AwsError ''Throttling'' ''Rate exceeded'')) (Some ''db-1'')
     = Inr ''not-found''"
  using check_db_fetch_masks_aws_errors[of "\<lambda>_. Inl (AwsError ''Throttling'' ''Rate exceeded'')"]
  by simp

end
