(* ===== verification/Generators.thy ===== *)
theory Generators
  imports Aws_Drivers Template_Validation "HOL-Library.Sublist"
begin

text \<open>
  The driver of the code generators, \<open>src/gen/aws/generators/main.go\<close>: its
  \<open>go:generate\<close> directives, the output directories it declares and the order in which
  \<open>main\<close> calls the generators. Only \<open>generateDriverTypes\<close> is part of this
  repository (theory \<open>Aws_Drivers\<close>); the other generators are named by the call only.

  Go's \<open>filepath.Join\<close> and \<open>filepath.Clean\<close> (Unix flavour) are given by their
  documented lexical rules over the slash-separated elements of a path: empty and
  \<open>.\<close> elements go, an inner \<open>..\<close> removes the element before it, a \<open>..\<close> at the start
  of a rooted path goes, and an empty result is \<open>.\<close>. A \<open>gofmt -w\<close> or
  \<open>goimports -w\<close> of a directory rewrites every Go file below it.
\<close>

section \<open>Definitions\<close>

subsection \<open>Paths\<close>

fun clean_acc :: "bool \<Rightarrow> string list \<Rightarrow> string list \<Rightarrow> string list" where
  "clean_acc rooted acc [] = rev acc"
| "clean_acc rooted acc (e # es) =
     (if e = [] \<or> e = ''.'' then clean_acc rooted acc es
      else if e = ''..'' then
        (case acc of
           p # acc' \<Rightarrow>
             (if p = ''..'' then clean_acc rooted (e # acc) es else clean_acc rooted acc' es)
         | [] \<Rightarrow> (if rooted then clean_acc rooted [] es else clean_acc rooted [e] es))
      else clean_acc rooted (e # acc) es)"

definition path_clean :: "string \<Rightarrow> string" where
  "path_clean p =
     (let rooted = (p \<noteq> [] \<and> hd p = CHR ''/'');
          body = join ''/'' (clean_acc rooted [] (split_on (CHR ''/'') p))
      in if rooted then CHR ''/'' # body else if body = [] then ''.'' else body)"

text \<open>\<open>filepath.Join\<close>: the elements from the first non-empty one, joined by slashes
  and cleaned; the empty string when every element is empty.\<close>

definition filepath_join :: "string list \<Rightarrow> string" where
  "filepath_join elems =
     (case dropWhile (\<lambda>e. e = []) elems of
        [] \<Rightarrow> []
      | es \<Rightarrow> path_clean (join ''/'' es))"

subsection \<open>The generator program\<close>

definition root_dir :: string where
  "root_dir = filepath_join [''..'', ''..'', ''..'']"

text \<open>The output directories of the \<open>var\<close> block, by their Go names.\<close>

definition output_dirs :: "(string \<times> string) list" where
  "output_dirs =
     [(''FETCHERS_DIR'', filepath_join [root_dir, ''aws'', ''fetch'']),
      (''SERVICES_DIR'', filepath_join [root_dir, ''aws'', ''services'']),
      (''DRIVERS_DIR'', filepath_join [root_dir, ''aws'', ''driver'']),
      (''SPEC_DIR'', filepath_join [root_dir, ''aws'', ''spec'']),
      (''AWSAT_DIR'', filepath_join [root_dir, ''acceptance'', ''aws'']),
      (''DOC_DIR'', filepath_join [root_dir, ''aws'', ''doc'']),
      (''CLOUD_PROPERTIES_DIR'', filepath_join [root_dir, ''cloud'', ''properties'']),
      (''CLOUD_RDF_DIR'', filepath_join [root_dir, ''cloud'', ''rdf''])]"

datatype go_generator =
    FetcherFuncs | ServicesFuncs | TestMocks | NewDrivers | AcceptanceMocks
  | AcceptanceCommandsBuilder | DriverTypes | Properties | RDFProperties | ParamsDocLookup

text \<open>\<open>main\<close>: the generators in the order it calls them (the \<open>if true\<close> around
  \<open>generateParamsDocLookup\<close> always holds).\<close>

definition main_calls :: "go_generator list" where
  "main_calls =
     [FetcherFuncs, ServicesFuncs, TestMocks, NewDrivers, AcceptanceMocks,
      AcceptanceCommandsBuilder, DriverTypes, Properties, RDFProperties, ParamsDocLookup]"

text \<open>The file \<open>generateDriverTypes\<close> writes.\<close>

definition driver_types_file :: string where
  "driver_types_file = filepath_join [the (map_of output_dirs ''DRIVERS_DIR''), ''gen_drivers.go'']"

subsection \<open>The \<open>go:generate\<close> directives\<close>

datatype directive = GoRun "string list" | Gofmt string | Goimports string

text \<open>The directives of \<open>main.go\<close>, in file order; \<open>$GOFILE\<close> is \<open>main.go\<close>.\<close>

definition go_generate :: "directive list" where
  "go_generate =
     [GoRun [''main.go'', ''drivers.go'', ''properties.go'', ''paramsdoc.go'', ''mocks.go'',
             ''fetchers.go'', ''services.go'', ''new_drivers.go'', ''acceptance_mocks.go''],
      Gofmt ''../../../aws'', Goimports ''../../../aws'',
      Gofmt ''../../../aws/services'', Goimports ''../../../aws/services'',
      Gofmt ''../../../aws/fetch'', Goimports ''../../../aws/fetch'',
      Gofmt ''../../../aws/driver'', Goimports ''../../../aws/driver'',
      Gofmt ''../../../cloud/properties'', Goimports ''../../../cloud/properties'',
      Gofmt ''../../../cloud/rdf'', Goimports ''../../../cloud/rdf'',
      Gofmt ''../../../aws/spec'', Goimports ''../../../aws/spec'',
      Gofmt ''../../../acceptance/aws'', Goimports ''../../../acceptance/aws'']"

text \<open>A directory rewrites a path when the path's elements extend the directory's.\<close>

definition path_elems :: "string \<Rightarrow> string list" where
  "path_elems p = split_on (CHR ''/'') (path_clean p)"

definition covers :: "string \<Rightarrow> string \<Rightarrow> bool" where
  "covers dir p \<longleftrightarrow> prefix (path_elems dir) (path_elems p)"

text \<open>Whether a path is rewritten by both \<open>gofmt\<close> and \<open>goimports\<close> after a
  \<open>go run\<close> of the generators.\<close>

fun formatted_after_run :: "string \<Rightarrow> directive list \<Rightarrow> bool" where
  "formatted_after_run p [] = False"
| "formatted_after_run p (GoRun fs # ds) =
     ((list_ex (\<lambda>d. case d of Gofmt f \<Rightarrow> covers f p | _ \<Rightarrow> False) ds \<and>
       list_ex (\<lambda>d. case d of Goimports f \<Rightarrow> covers f p | _ \<Rightarrow> False) ds)
      \<or> formatted_after_run p ds)"
| "formatted_after_run p (d # ds) = formatted_after_run p ds"

section \<open>Lemmas\<close>

lemma root_dir_value: "root_dir = ''../../..''"
  by (simp add: root_dir_def filepath_join_def path_clean_def)

lemma driver_types_file_value: "driver_types_file = ''../../../aws/driver/gen_drivers.go''"
  by (simp add: driver_types_file_def output_dirs_def root_dir_value filepath_join_def
      path_clean_def)


text \<open>Run from \<open>src/gen/aws/generators\<close>, \<open>generateDriverTypes\<close> writes the
  checked-in \<open>src/aws/driver/gen_drivers.go\<close>.\<close>

lemma generator_writes_checked_in_file:
  "path_clean (''src/gen/aws/generators/'' @ driver_types_file) = ''src/aws/driver/gen_drivers.go''"
  by (simp add: driver_types_file_value path_clean_def)

text \<open>Every output directory of \<open>main.go\<close> is rewritten by \<open>gofmt\<close> and by
  \<open>goimports\<close> after the generators have run, the generated drivers among them: the
  form in which \<open>gen_drivers.go\<close> is checked in (sorted imports, no unused
  \<open>strings\<close>; see \<open>gen_drivers_go_imports_generated\<close>).\<close>

lemma output_dirs_formatted:
  "list_all (\<lambda>(n, d). formatted_after_run d go_generate) output_dirs"
  by (simp add: output_dirs_def root_dir_value go_generate_def covers_def path_elems_def
      filepath_join_def path_clean_def)

lemma driver_types_file_formatted: "formatted_after_run driver_types_file go_generate"
  by (simp add: driver_types_file_value go_generate_def covers_def path_elems_def path_clean_def)

end
