(* ===== verification/Containertask.thy ===== *)
theory Containertask
  imports Db_Checks Template_Validation
begin

text \<open>
  The container-task commands of \<open>src/aws/spec/containertask.go\<close> up to the ECS request
  each sends: \<open>AttachContainertask\<close> and \<open>DetachContainertask\<close>, which add a container
  to a task definition and take one out, \<open>DeleteContainertask\<close>, which deregisters
  one or every version, and the outcome check of \<open>StartContainertask\<close> for a task.
  Each ECS read (\<open>DescribeTaskDefinition\<close>, \<open>ListTaskDefinitions\<close>) is a parameter
  answering an \<open>aws_error\<close> or its output; a request stands for the call made with
  it. \<open>setFieldWithType\<close> (not in this repository) is taken to store the value it is
  given; its conversion errors are not modelled, nor are the logger's lines.
  A task definition's network mode, placement constraints, task role and volumes,
  which the handlers copy unchanged, are one opaque field.

  ECS itself is not code of the repository: its task definitions are a store, read by
  \<open>describe_ecs\<close> and changed by \<open>apply_ecs\<close>, and \<open>ecs_run\<close> relates a store to
  the stores a sequence of attach, detach and delete commands leaves. The theory proves
  the attach/detach round trip, that no run leaves a definition without a container,
  what the deletion of every version does on each outcome of its loop, when the start
  check accepts, and what ECS describes after an attach.
\<close>

section \<open>Definitions\<close>

subsection \<open>Containers and task definitions\<close>

record container_def =
  cd_name :: "string option"
  cd_image :: "string option"
  cd_memory :: "int64 option"
  cd_command :: "string list option"
  cd_environment :: "string list"
  cd_privileged :: "bool option"
  cd_workdir :: "string option"
  cd_ports :: "string list"

record task_definition =
  td_family :: "string option"
  td_arn :: "string option"
  td_settings :: string
  td_containers :: "container_def list"

datatype ecs_request =
    RegisterTaskDefinition "string option" string "container_def list"
  | DeregisterTaskDefinition "string option"

type_synonym describe_api = "string option \<Rightarrow> aws_error + task_definition"

subsection \<open>Attach\<close>

record attach_containertask =
  act_name :: "string option"
  act_container_name :: "string option"
  act_image :: "string option"
  act_memory :: "int64 option"
  act_commands :: "string option list option"
  act_env :: "string option list"
  act_privileged :: "bool option"
  act_workdir :: "string option"
  act_ports :: "string option list"

text \<open>The \<open>Command\<close> of the container: one command string is split at spaces, any
  other number of commands is taken as the list.\<close>

definition container_command :: "string option list \<Rightarrow> string list" where
  "container_command cs =
     (if length cs = 1 then split_on (CHR '' '') (string_value (hd cs)) else map string_value cs)"

definition attach_container :: "attach_containertask \<Rightarrow> container_def" where
  "attach_container cmd =
     \<lparr>cd_name = act_container_name cmd, cd_image = act_image cmd, cd_memory = act_memory cmd,
      cd_command = map_option container_command (act_commands cmd),
      cd_environment = (if length (act_env cmd) > 0 then map string_value (act_env cmd) else []),
      cd_privileged = (if act_privileged cmd = Some True then Some True else None),
      cd_workdir = act_workdir cmd,
      cd_ports = (if length (act_ports cmd) > 0 then map string_value (act_ports cmd) else [])\<rparr>"

text \<open>The ECS error that means the task definition does not exist yet.\<close>

definition missing_task_definition :: "string \<Rightarrow> string \<Rightarrow> bool" where
  "missing_task_definition code msg \<longleftrightarrow>
     code = ''ClientException'' \<and> sublist ''unable to describe task definition'' (to_lower msg)"

definition attach_ct_manual_run :: "describe_api \<Rightarrow> attach_containertask \<Rightarrow> aws_error + ecs_request" where
  "attach_ct_manual_run describe cmd =
     (let base =
        (case describe (act_name cmd) of
           Inl (AwsError code msg) \<Rightarrow>
             (if missing_task_definition code msg then Inr (Some (string_value (act_name cmd)), [], [])
              else Inl (AwsError code msg))
         | Inl err \<Rightarrow> Inl err
         | Inr td \<Rightarrow> Inr (td_family td, td_settings td, td_containers td))
      in case base of
           Inl err \<Rightarrow> Inl err
         | Inr (family, settings, cs) \<Rightarrow>
             Inr (RegisterTaskDefinition family settings (cs @ [attach_container cmd])))"

subsection \<open>Detach\<close>

record detach_containertask =
  dct_name :: "string option"
  dct_container_name :: "string option"

text \<open>A container is taken out when its name or its image is the name given.\<close>

definition container_matches :: "string \<Rightarrow> container_def \<Rightarrow> bool" where
  "container_matches n c \<longleftrightarrow> string_value (cd_name c) = n \<or> string_value (cd_image c) = n"

definition detach_ct_manual_run :: "describe_api \<Rightarrow> detach_containertask \<Rightarrow> aws_error + ecs_request" where
  "detach_ct_manual_run describe cmd =
     (case describe (dct_name cmd) of
        Inl err \<Rightarrow> Inl err
      | Inr td \<Rightarrow>
          (let n = string_value (dct_container_name cmd);
               cs = td_containers td;
               remaining = filter (\<lambda>c. \<not> container_matches n c) cs
           in if \<not> list_ex (container_matches n) cs then
                Inl (GoError (''did not find any container called '' @ [CHR 0x27] @ n @
                  [CHR 0x27] @ '': found: '' @ [CHR 0x27] @
                  join [CHR 0x27, CHR '','', CHR 0x27] (map (\<lambda>c. string_value (cd_name c)) cs) @
                  [CHR 0x27]))
              else if length remaining > 0 then
                Inr (RegisterTaskDefinition (td_family td) (td_settings td) remaining)
              else Inr (DeregisterTaskDefinition (td_arn td))))"

subsection \<open>Delete\<close>

record delete_containertask =
  dlt_name :: "string option"
  dlt_all_versions :: "bool option"

type_synonym list_api = "string option \<Rightarrow> aws_error + string option list"

text \<open>\<open>DryRun\<close>: a name with no version is an error (the \<open>inject\<close> of the parameters,
  not in this repository, is not modelled).\<close>

definition delete_ct_dry_run :: "list_api \<Rightarrow> delete_containertask \<Rightarrow> aws_error + unit" where
  "delete_ct_dry_run list cmd =
     (case list (dlt_name cmd) of
        Inl err \<Rightarrow> Inl err
      | Inr arns \<Rightarrow>
          (if length arns = 0 then
             Inl (GoError (''no containertask found with name '' @ [CHR 0x27] @
               string_value (dlt_name cmd) @ [CHR 0x27]))
           else Inr ()))"

text \<open>The deregistration loop: the versions in order, stopping at the first failed call.
  The result is the error, if any, and the versions deregistered.\<close>

type_synonym deregister_api = "string option \<Rightarrow> string option"

fun deregister_each :: "deregister_api \<Rightarrow> string option list \<Rightarrow> string option \<times> string option list" where
  "deregister_each dereg [] = (None, [])"
| "deregister_each dereg (a # as) =
     (case dereg a of
        Some err \<Rightarrow> (Some (''deregister task definition: '' @ err), [])
      | None \<Rightarrow> (let (e, done) = deregister_each dereg as in (e, a # done)))"

definition delete_ct_manual_run ::
  "list_api \<Rightarrow> describe_api \<Rightarrow> deregister_api \<Rightarrow> delete_containertask \<Rightarrow>
   aws_error option \<times> string option list" where
  "delete_ct_manual_run list describe dereg cmd =
     (let name = string_value (dlt_name cmd) in
      if dlt_all_versions cmd = Some True then
        (case list (Some name) of
           Inl err \<Rightarrow> (Some err, [])
         | Inr arns \<Rightarrow> (let (e, done) = deregister_each dereg arns in (map_option GoError e, done)))
      else
        (case describe (Some name) of
           Inl err \<Rightarrow> (Some err, [])
         | Inr td \<Rightarrow> (let (e, done) = deregister_each dereg [td_arn td] in (map_option GoError e, done))))"

subsection \<open>Start: the outcome of \<open>RunTask\<close>\<close>

record run_task_output =
  rto_failure_reasons :: "string option list"
  rto_task_arns :: "string option list"

definition start_task_result :: "aws_error + run_task_output \<Rightarrow> aws_error + run_task_output" where
  "start_task_result r =
     (case r of
        Inl err \<Rightarrow> Inl err
      | Inr out \<Rightarrow>
          (if length (rto_failure_reasons out) > 0 then
             Inl (GoError (''start containertask: fail to run task: '' @
               string_value (hd (rto_failure_reasons out))))
           else if length (rto_task_arns out) > 0 then Inr out
           else Inl (GoError ''no task started successfully'')))"

subsection \<open>The task definitions as ECS keeps them\<close>

text \<open>Not code of the repository: the ECS side, the latest task definition of each
  family (its settings and containers); a family stands for the ARN of its latest
  revision. ECS refuses a task definition without a container.\<close>

type_synonym ecs_store = "string \<Rightarrow> (string \<times> container_def list) option"

definition describe_ecs :: "ecs_store \<Rightarrow> describe_api" where
  "describe_ecs s name =
     (case s (string_value name) of
        None \<Rightarrow> Inl (AwsError ''ClientException'' ''Unable to describe task definition.'')
      | Some (settings, cs) \<Rightarrow>
          Inr \<lparr>td_family = Some (string_value name), td_arn = Some (string_value name),
               td_settings = settings, td_containers = cs\<rparr>)"

fun apply_ecs :: "ecs_store \<Rightarrow> ecs_request \<Rightarrow> ecs_store" where
  "apply_ecs s (RegisterTaskDefinition family settings cs) = s(string_value family \<mapsto> (settings, cs))"
| "apply_ecs s (DeregisterTaskDefinition arn) = s(string_value arn := None)"

definition ecs_wf :: "ecs_store \<Rightarrow> bool" where
  "ecs_wf s \<longleftrightarrow> (\<forall>f st cs. s f = Some (st, cs) \<longrightarrow> cs \<noteq> [])"

text \<open>A request keeps the store well formed when it registers no empty definition.\<close>

definition registers_containers :: "ecs_request \<Rightarrow> bool" where
  "registers_containers r \<longleftrightarrow> (case r of RegisterTaskDefinition f st cs \<Rightarrow> cs \<noteq> [] | _ \<Rightarrow> True)"

text \<open>The stores ECS goes through while the container-task commands run against it,
  each reading the store it then changes: an attach or a detach sends the request its
  \<open>ManualRun\<close> returns, a delete deregisters the versions its loop got through.\<close>

inductive ecs_run :: "ecs_store \<Rightarrow> ecs_store \<Rightarrow> bool" where
  start: "ecs_run s0 s0"
| attach:
    "ecs_run s0 s \<Longrightarrow> attach_ct_manual_run (describe_ecs s) a = Inr r \<Longrightarrow>
     ecs_run s0 (apply_ecs s r)"
| detach:
    "ecs_run s0 s \<Longrightarrow> detach_ct_manual_run (describe_ecs s) d = Inr r \<Longrightarrow>
     ecs_run s0 (apply_ecs s r)"
| delete:
    "ecs_run s0 s \<Longrightarrow> delete_ct_manual_run list (describe_ecs s) dereg c = (e, done) \<Longrightarrow>
     ecs_run s0 (fold (\<lambda>a s. apply_ecs s (DeregisterTaskDefinition a)) done s)"

text \<open>A task definition with a container \<open>app\<close> of image \<open>nginx\<close> and a container
  \<open>nginx\<close> of another image.\<close>

definition ex_container :: "string \<Rightarrow> string \<Rightarrow> container_def" where
  "ex_container name img =
     \<lparr>cd_name = Some name, cd_image = Some img, cd_memory = None, cd_command = None,
      cd_environment = [], cd_privileged = None, cd_workdir = None, cd_ports = []\<rparr>"

definition ex_task_definition :: task_definition where
  "ex_task_definition =
     \<lparr>td_family = Some ''web'', td_arn = Some ''arn:web:3'', td_settings = [],
      td_containers = [ex_container ''app'' ''nginx'', ex_container ''nginx'' ''nginx:1.13'']\<rparr>"

text \<open>A store with the task definition \<open>web\<close> of one container, a container \<open>db\<close>
  to attach to it and detach again, and a deletion of every version of \<open>web\<close> whose
  second deregistration is throttled.\<close>

definition ex_store :: ecs_store where
  "ex_store = Map.empty(''web'' \<mapsto> ([], [ex_container ''app'' ''nginx'']))"

definition ex_attach :: attach_containertask where
  "ex_attach =
     \<lparr>act_name = Some ''web'', act_container_name = Some ''db'', act_image = Some ''postgres'',
      act_memory = None, act_commands = None, act_env = [], act_privileged = None,
      act_workdir = None, act_ports = []\<rparr>"

definition ex_detach :: detach_containertask where
  "ex_detach = \<lparr>dct_name = Some ''web'', dct_container_name = Some ''db''\<rparr>"

definition ex_delete :: delete_containertask where
  "ex_delete = \<lparr>dlt_name = Some ''web'', dlt_all_versions = Some True\<rparr>"

definition ex_versions :: list_api where
  "ex_versions n = Inr [Some ''web:1'', Some ''web:2'', Some ''web:3'']"

definition ex_dereg :: deregister_api where
  "ex_dereg a = (if a = Some ''web:2'' then Some ''throttled'' else None)"

section \<open>Lemmas\<close>

lemma string_value_Some [simp]: "string_value (Some x) = x"
  by (simp add: string_value_def)

lemma attach_container_matches [simp]:
  "container_matches (string_value (act_container_name cmd)) (attach_container cmd)"
  by (simp add: container_matches_def attach_container_def)

lemma missing_describe_ecs:
  "missing_task_definition ''ClientException'' ''Unable to describe task definition.''"
  unfolding missing_task_definition_def to_lower_def by code_simp

lemmas attach_ct_ecs = attach_ct_manual_run_def describe_ecs_def missing_describe_ecs

lemma apply_ecs_wf:
  assumes "ecs_wf s" and "registers_containers r"
  shows "ecs_wf (apply_ecs s r)"
  using assms by (cases r) (auto simp: ecs_wf_def registers_containers_def)

lemma ecs_wf_remove [simp]: "ecs_wf s \<Longrightarrow> ecs_wf (s(k := None))"
  by (simp add: ecs_wf_def)

lemma fold_deregister_wf:
  "ecs_wf s \<Longrightarrow> ecs_wf (fold (\<lambda>a s. apply_ecs s (DeregisterTaskDefinition a)) arns s)"
  by (induction arns arbitrary: s) simp_all

lemma ex_store_wf: "ecs_wf ex_store"
  by (simp add: ecs_wf_def ex_store_def ex_container_def)

lemmas ex_ct_defs = ex_store_def ex_attach_def ex_detach_def ex_delete_def ex_versions_def
  ex_dereg_def ex_container_def attach_container_def

text \<open>C18: attaching a container that the task definition does not hold yet and then
  detaching it by the same names gives back the store ECS had before: the attach
  registers the definition with the container appended (a new definition when there was
  none), the detach takes exactly that container out again, and deregisters the
  definition when it was the only one.\<close>

theorem attach_detach_ct_roundtrip:
  assumes wf: "ecs_wf s"
    and names: "dct_name d = act_name a" "dct_container_name d = act_container_name a"
    and fresh: "\<And>st cs. s (string_value (act_name a)) = Some (st, cs) \<Longrightarrow>
                  \<not> list_ex (container_matches (string_value (act_container_name a))) cs"
  shows "\<exists>r1 r2. attach_ct_manual_run (describe_ecs s) a = Inr r1 \<and>
           detach_ct_manual_run (describe_ecs (apply_ecs s r1)) d = Inr r2 \<and>
           apply_ecs (apply_ecs s r1) r2 = s"
proof (cases "s (string_value (act_name a))")
  case None
  then show ?thesis
    using names by (auto simp: attach_ct_ecs detach_ct_manual_run_def describe_ecs_def)
next
  case (Some p)
  obtain st cs where p: "p = (st, cs)" by fastforce
  have ne: "cs \<noteq> []" using wf Some p by (auto simp: ecs_wf_def)
  have keep: "filter (\<lambda>c. \<not> container_matches (string_value (act_container_name a)) c) cs = cs"
    using fresh[of st cs] Some p by (simp add: list_ex_iff filter_id_conv)
  show ?thesis
    using Some p names ne keep
    by (auto simp: attach_ct_ecs detach_ct_manual_run_def describe_ecs_def fun_upd_idem)
qed

theorem attach_detach_ct_roundtrip_witness:
  "\<exists>r1 r2. attach_ct_manual_run (describe_ecs ex_store) ex_attach = Inr r1 \<and>
     detach_ct_manual_run (describe_ecs (apply_ecs ex_store r1)) ex_detach = Inr r2 \<and>
     apply_ecs (apply_ecs ex_store r1) r2 = ex_store"
  using attach_detach_ct_roundtrip[OF ex_store_wf, of ex_detach ex_attach]
  by (simp add: ex_ct_defs container_matches_def)

text \<open>C19: whatever sequence of attach, detach and delete commands runs against ECS,
  each on the store the previous one left, no task definition is ever left without a
  container: an attach always appends one, a detach that would take out the last one
  deregisters the definition instead, and a delete only deregisters.\<close>

theorem ecs_run_wf:
  assumes "ecs_run s0 s" and "ecs_wf s0"
  shows "ecs_wf s"
  using assms
proof (induction rule: ecs_run.induct)
  case (attach s0 s a r)
  then show ?case
    by (auto intro!: apply_ecs_wf simp: attach_ct_ecs registers_containers_def
        split: option.splits)
next
  case (detach s0 s d r)
  then show ?case
    by (auto intro!: apply_ecs_wf simp: detach_ct_manual_run_def registers_containers_def Let_def
        split: sum.splits if_splits)
next
  case (delete s0 s list dereg c e "done")
  then have "ecs_wf s" by simp
  then show ?case by (rule fold_deregister_wf)
qed

theorem ecs_run_wf_witness:
  "\<exists>r1 r2. attach_ct_manual_run (describe_ecs ex_store) ex_attach = Inr r1 \<and>
     detach_ct_manual_run (describe_ecs (apply_ecs ex_store r1))
       \<lparr>dct_name = Some ''web'', dct_container_name = Some ''app''\<rparr> = Inr r2 \<and>
     ecs_wf (apply_ecs (apply_ecs ex_store r1) r2)"
proof -
  have "\<exists>r1. attach_ct_manual_run (describe_ecs ex_store) ex_attach = Inr r1"
    by (simp add: attach_ct_ecs ex_store_def)
  then obtain r1 where a: "attach_ct_manual_run (describe_ecs ex_store) ex_attach = Inr r1" ..
  have "\<exists>r2. detach_ct_manual_run (describe_ecs (apply_ecs ex_store r1))
      \<lparr>dct_name = Some ''web'', dct_container_name = Some ''app''\<rparr> = Inr r2"
    using a by (auto simp: attach_ct_ecs detach_ct_manual_run_def ex_ct_defs container_matches_def)
  then obtain r2 where d: "detach_ct_manual_run (describe_ecs (apply_ecs ex_store r1))
      \<lparr>dct_name = Some ''web'', dct_container_name = Some ''app''\<rparr> = Inr r2" ..
  have "ecs_wf (apply_ecs (apply_ecs ex_store r1) r2)"
    using ecs_run_wf[OF ecs_run.detach[OF ecs_run.attach[OF ecs_run.start a] d] ex_store_wf] .
  with a d show ?thesis by blast
qed

text \<open>C20: \<open>DeleteContainertask.ManualRun\<close> with \<open>all-versions\<close> deregisters the
  listed versions in order and stops at the first call that fails: every version it got
  through was deregistered, and either it got through all of them and returns no error,
  or the next version's deregistration failed and its error is returned, prefixed
  \<open>deregister task definition\<close>.\<close>

theorem delete_ct_all_versions:
  assumes "dlt_all_versions cmd = Some True"
    and "list (Some (string_value (dlt_name cmd))) = Inr arns"
    and "delete_ct_manual_run list describe dereg cmd = (e, done)"
  shows "list_all (\<lambda>a. dereg a = None) done \<and>
         (e = None \<and> done = arns \<or>
          (\<exists>a rest err. arns = done @ a # rest \<and> dereg a = Some err \<and>
             e = Some (GoError (''deregister task definition: '' @ err))))"
proof -
  have loop: "list_all (\<lambda>a. dereg a = None) ds \<and>
      (e' = None \<and> ds = as \<or>
       (\<exists>a rest err. as = ds @ a # rest \<and> dereg a = Some err \<and>
          e' = Some (''deregister task definition: '' @ err)))"
    if "deregister_each dereg as = (e', ds)" for as e' ds
    using that
  proof (induction as arbitrary: e' ds)
    case (Cons a as)
    show ?case
    proof (cases "dereg a")
      case None
      obtain e0 ds0 where r: "deregister_each dereg as = (e0, ds0)" by fastforce
      then have "e' = e0" "ds = a # ds0" using Cons.prems None by auto
      then show ?thesis using Cons.IH[OF r] None by auto
    qed (use Cons.prems in auto)
  qed simp
  obtain e' where "deregister_each dereg arns = (e', done)" "e = map_option GoError e'"
    using assms by (auto simp: delete_ct_manual_run_def split: prod.splits)
  then show ?thesis using loop by fastforce
qed

theorem delete_ct_all_versions_witness:
  "delete_ct_manual_run ex_versions (\<lambda>_. Inl (GoError ''no describe'')) ex_dereg ex_delete =
     (Some (GoError ''deregister task definition: throttled''), [Some ''web:1''])"
  using delete_ct_all_versions[of ex_delete ex_versions "[Some ''web:1'', Some ''web:2'', Some ''web:3'']"
      "\<lambda>_. Inl (GoError ''no describe'')" ex_dereg "Some (GoError ''deregister task definition: throttled'')"
      "[Some ''web:1'']"]
  by (simp add: ex_ct_defs delete_ct_manual_run_def)

text \<open>C21: the outcome check of \<open>StartContainertask\<close> accepts the \<open>RunTask\<close> output
  exactly when the call succeeded, reported no failure and started at least one task.\<close>

theorem start_task_result_ok:
  "(\<exists>out'. start_task_result r = Inr out') \<longleftrightarrow>
     (\<exists>out. r = Inr out \<and> rto_failure_reasons out = [] \<and> rto_task_arns out \<noteq> [])"
  by (auto simp: start_task_result_def split: sum.splits)

text \<open>C28: after \<open>AttachContainertask\<close>, ECS describes the task definition with the
  containers it had (none when it did not exist) followed by the attached container, and
  with the settings it had.\<close>

theorem attach_ct_describe:
  "\<exists>r td. attach_ct_manual_run (describe_ecs s) a = Inr r \<and>
     describe_ecs (apply_ecs s r) (act_name a) = Inr td \<and>
     td_containers td =
       (case s (string_value (act_name a)) of None \<Rightarrow> [] | Some (st, cs) \<Rightarrow> cs) @ [attach_container a] \<and>
     td_settings td = (case s (string_value (act_name a)) of None \<Rightarrow> [] | Some (st, cs) \<Rightarrow> st)"
  by (auto simp: attach_ct_manual_run_def describe_ecs_def missing_describe_ecs split: option.splits)

text \<open>Detaching the container \<open>nginx\<close> also takes out the container \<open>app\<close>, whose image
  is \<open>nginx\<close>; with no container left the whole task definition is deregistered.\<close>

lemma detach_ct_removes_image_matches:
  "detach_ct_manual_run (\<lambda>_. Inr ex_task_definition)
     \<lparr>dct_name = Some ''web'', dct_container_name = Some ''nginx''\<rparr> =
   Inr (DeregisterTaskDefinition (Some ''arn:web:3''))"
  by (simp add: detach_ct_manual_run_def ex_task_definition_def ex_container_def
      container_matches_def)

end
