(* ===== verification/Aws_Commands.thy ===== *)
theory Aws_Commands
  imports Runner Containertask
begin

text \<open>
  A command of \<open>src/aws/spec\<close> as the template engine sees it. \<open>DeleteContainertask\<close>
  is the one command of this repository with the method \<open>DryRun(ctx, params)\<close> that
  \<open>Template.Run\<close> probes (interface \<open>dryRunner\<close> of \<open>template.go\<close>). Its command
  object is the record of theory \<open>Contract\<close> with that capability set to the handler of
  theory \<open>Containertask\<close>; its other methods are generated outside this repository
  and are a parameter. \<open>cmd.inject(params)\<close> (generated as well) is taken to set each
  field from the parameter named by its \<open>templateName\<close> tag; an \<open>awserr.Error\<close>
  reads \<open>code: message\<close>.
\<close>

section \<open>Definitions\<close>

fun plain_str :: "plain option \<Rightarrow> string option" where
  "plain_str (Some (PStr s)) = Some s"
| "plain_str _ = None"

fun plain_bool :: "plain option \<Rightarrow> bool option" where
  "plain_bool (Some (PBool b)) = Some b"
| "plain_bool _ = None"

definition delete_ct_of_params :: "dparams \<Rightarrow> delete_containertask" where
  "delete_ct_of_params ps =
     \<lparr>dlt_name = plain_str (map_of ps ''name''),
      dlt_all_versions = plain_bool (map_of ps ''all-versions'')\<rparr>"

definition aws_error_message :: "aws_error \<Rightarrow> string" where
  "aws_error_message err =
     (case err of AwsError code msg \<Rightarrow> code @ '': '' @ msg | GoError msg \<Rightarrow> msg)"

definition delete_ct_command :: "list_api \<Rightarrow> command \<Rightarrow> command" where
  "delete_ct_command list base =
     base\<lparr>cmd_ctx_dry_run := Some (\<lambda>ctx ps.
        (case delete_ct_dry_run list (delete_ct_of_params ps) of
           Inl err \<Rightarrow> (None, Some (aws_error_message err))
         | Inr u \<Rightarrow> (None, None)))\<rparr>"

section \<open>Lemmas\<close>

text \<open>C26: in a dry run of a template, a \<open>delete containertask\<close> node runs
  \<open>DeleteContainertask.DryRun\<close> on its parameters: when no version of the name is
  listed, the node records the error, prefixed \<open>dry run\<close>, and the run goes on;
  when at least one is, the node passes without an error.\<close>

theorem exec_node_delete_ct_dry_run:
  assumes "is_dry_run e" and "node_command n = Some (delete_ct_command list base)"
    and "list (plain_str (map_of (to_driver_params (process_refs vars n)) ''name'')) = Inr arns"
  shows "exec_node e vars n =
    Inr ((process_refs vars n)\<lparr>cmd_result := None,
           cmd_err := (if arns = [] then
             Some (''dry run: no containertask found with name '' @ [CHR 0x27] @
               string_value (plain_str (map_of (to_driver_params (process_refs vars n)) ''name'')) @
               [CHR 0x27])
             else None)\<rparr>, False)"
  using assms
  by (simp add: exec_node_def Let_def delete_ct_command_def delete_ct_dry_run_def
      delete_ct_of_params_def aws_error_message_def prefix_error_def)

end
