(* ===== verification/Spec2Isabelle.thy ===== *)
theory Spec2Isabelle
  imports Runner_Steps Aws_Drivers Template_Validation Aws_Specs Sg_Handlers Db_Checks Generators Containertask Aws_Commands
begin

text \<open>
  \<^bold>\<open>Verification development of the awless template engine.\<close>

  \<^emph>\<open>The program.\<close> A template is a list of statements: command invocations
  \<open>action entity key=value ...\<close> and declarations \<open>ident = expression\<close>. Values may
  hold holes \<open>{name}\<close>, references \<open>$ident\<close> and aliases \<open>@name\<close>.
  \<open>src/template/compile.go\<close> compiles a template by running a list of passes
  (\<open>multiPass\<close>, in one of three modes) over the template and an environment \<open>Env\<close>;
  \<open>src/template/template.go\<close> runs the compiled template (\<open>Template.Run\<close>) and
  provides the iterators, visitors and error collections the passes use;
  \<open>src/template/driver/driver.go\<close> holds the command lifecycle (\<open>DryRun\<close>,
  \<open>Run\<close>), the composite driver and the execution context;
  \<open>src/aws/driver/gen_drivers.go\<close> holds the AWS drivers that
  \<open>generateDriverTypes\<close> (\<open>src/gen/aws/generators/drivers.go\<close>) writes.

  \<^emph>\<open>The model, theory by theory.\<close>
  \<^item> \<open>Prelude\<close>: the named collections, type names and generic lemmas on
    association lists (lookups after updates and deletions), maps, option lists and
    sorted lists.
  \<^item> \<open>Contract\<close>: a command object as a record of optional capabilities (one per Go
    interface the code probes with a type assertion) and its mutable fields.
  \<^item> \<open>Ast\<close>: values, command nodes and statements. The package \<open>ast\<close> is not part
    of this repository; these definitions give the spec's data model, with the
    collectors and rewriters the passes call, and are not mapped to code.
  \<^item> \<open>Template\<close>: the \<open>Template\<close> struct and every iterator and visitor of
    \<open>template.go\<close>; \<open>Template_Validation\<close>: \<open>Validate\<close> and the \<open>Errors\<close>
    collection.
  \<^item> \<open>Driver\<close>: \<open>driver.DryRun\<close>, \<open>driver.Run\<close>, \<open>MultiDriver\<close> (its lookup
    loop characterised exactly: a function is found when exactly one driver has it and
    no driver fails otherwise), the context.
  \<^item> \<open>Aws_Drivers\<close>: the generated drivers (state, setters, constructor, lookups),
    \<open>MultiDriver.SetDryRun\<close> and \<open>SetLogger\<close> over them, and the generator as the
    map from service API names to the declarations \<open>typesTempl\<close> emits.
  \<^item> \<open>Generators\<close>: \<open>src/gen/aws/generators/main.go\<close>: the \<open>go:generate\<close>
    directives, the output directories (with \<open>filepath.Join\<close> and \<open>Clean\<close>), the
    order of the generator calls, and the file \<open>generateDriverTypes\<close> writes; lemmas
    show that it is the checked-in \<open>gen_drivers.go\<close> and that every output directory
    is formatted by \<open>gofmt\<close> and \<open>goimports\<close> after the generators run.
  \<^item> \<open>Aws_Specs\<close>: \<open>UpdateSecuritygroup.buildIpPermissions\<close> and
    \<open>removeString\<close> of \<open>src/aws/spec/securitygroup.go\<close>, with the Go library
    functions they call (\<open>strconv.ParseInt\<close> over \<open>64 word\<close>, \<open>strings.Contains\<close>).
  \<^item> \<open>Sg_Handlers\<close>: the security-group handlers of the same file up to the EC2
    request each sends: \<open>UpdateSecuritygroup.ManualRun\<close> (\<open>update_sg_manual_run\<close>,
    the permission and the two direction switches), the probe of
    \<open>CheckSecuritygroup\<close>, \<open>fetchInstanceSecurityGroups\<close> and the attach and
    detach handlers; an EC2 read is a parameter, and EC2's record of each instance's
    groups is the store \<open>group_store\<close> the requests replace.
  \<^item> \<open>Containertask\<close>: the container-task commands of
    \<open>src/aws/spec/containertask.go\<close> up to the ECS request each sends (attach, detach,
    delete with its deregistration loop, the outcome check of starting a task). ECS's
    task definitions are a store (the latest revision of each family), read through
    \<open>describe_ecs\<close> and changed by \<open>apply_ecs\<close>; \<open>ecs_run\<close> is the
    relation of the stores a sequence of attach, detach and delete commands goes
    through, each reading the store the previous one left. Lemmas show that no run
    leaves a definition without a container, that attaching then detaching a new
    container restores the store, what ECS describes after an attach, that the
    deregistration loop stops at the first failure having deregistered exactly the
    versions before it, and that detaching by name also removes containers of that
    image.
  \<^item> \<open>Aws_Commands\<close>: \<open>DeleteContainertask\<close> as a command object of the engine,
    the one command of the repository that implements \<open>dryRunner\<close>; a lemma shows
    how a dry run of the template runner records its outcome on the node.
  \<^item> \<open>Db_Checks\<close>: the state probe (\<open>fetchFunc\<close>) of \<open>CheckDatabase.ManualRun\<close>
    in \<open>src/aws/spec/database.go\<close>, with the RDS read as a parameter.
  \<^item> \<open>Env\<close>: the environment record and the error values; a Go panic is the error
    \<open>Panic\<close>, so that a crash is a visible outcome.
  \<^item> \<open>Passes\<close>: the passes of \<open>LenientCompileMode\<close> and \<open>NormalCompileMode\<close>, one
    definition per Go function of type \<open>pass\<close> (template and environment to template,
    environment and error).
  \<^item> \<open>Command_Passes\<close>: the passes of \<open>NewRunnerCompileMode\<close> that consult commands.
  \<^item> \<open>Compiler\<close>: \<open>multiPass.compile\<close> as \<open>run_passes\<close>, the modes, \<open>Compile\<close>,
    and Hoare triples over passes (\<open>pass_spec\<close>, \<open>runs_spec\<close>) with a specification
    lemma per pass.
  \<^item> \<open>Runner\<close>: \<open>Template.Run\<close> as the statement loop \<open>run_walk\<close>, and \<open>runCmd\<close>.
  \<^item> \<open>Runner_Steps\<close>: the same loop as a small-step relation \<open>run_step\<close> on the loop
    state (statements left, \<open>vars\<close>, the executed statements \<open>current\<close>, status),
    with the invariants of the states a run reaches proved by rule induction.

  \<^emph>\<open>Modelling choices.\<close> Go maps whose iteration order is unspecified are
  association lists with distinct keys, visited in list order; Go strings are HOL
  strings; an error is its message; nil function fields are \<open>None\<close>. Every loop of the
  code is structural recursion over the statement or node list, except the inlining
  walk, which rewrites the rest of the list and terminates by the measure of its length;
  no fuel is needed. The ULID of a run is a parameter.
  \<open>strings.Title\<close>, \<open>strings.ToLower\<close> and \<open>strconv.ParseInt\<close> are modelled on
  ASCII; Go \<open>int64\<close> values are \<open>64 word\<close>. The logger is a name.

  \<^emph>\<open>What is proved.\<close> Compilation: the reference check accepts exactly the
  well-scoped templates (C1); a successful strict or new-runner compilation leaves every
  reference pointing to an earlier declaration and no hole or alias (C2, C3, spec P2 and
  P3), and the new-runner mode attaches a command to every node (C3); the passes'
  functional behaviour (C13 to C17), the convert round trip (C23) and idempotent filler
  consumption (C29, spec P1). A template compiled for the new runner never makes the
  run panic (C30). Running: the runner executes a prefix of the statements in order
  and stops at the first failure (C4), reports a failure only through
  \<open>HasErrors\<close> (C5), returns only two kinds of error (C6), never stops a dry run on
  a command error (C7); while it runs, its variables are the results of the executed
  declarations and a live run has recorded no error (C22). Drivers: the generated
  drivers find no function, so the driver path of \<open>runCmd\<close> always fails (C24,
  C25); \<open>MultiDriver.Lookup\<close> finds a function exactly when one driver has it (C27).
  Container tasks: attach then detach restores ECS (C18); no sequence of attach, detach
  and delete leaves a task definition without a container (C19); the deletion of all
  versions stops at the first failed deregistration (C20); the start check (C21); a
  dry run of a template records the delete command's outcome on its node (C26); ECS
  describes the attached container last (C28). AWS specs: a port round-trips through
  \<open>ParseInt\<close> into an \<open>int64\<close> without wrap-around (C31) and an out-of-range port
  is rejected (C32). Findings: a dry run skips commands written for the driver
  lifecycle (C8), \<open>runCmd\<close> runs commands for real in dry-run mode (C9), a template
  that declares a value referring to a command's result compiles for the new runner
  and then fails in every run (C10), the inject and convert passes lose their errors
  (C11, C12), a protocol that is a substring of \<open>"any"\<close> opens every port (C33),
  port ranges are not checked (C34), and the probe of \<open>CheckDatabase\<close> reports every
  AWS error as the state \<open>notFoundState\<close> (C35). Security-group handlers: with both
  directions given only the egress request is sent (C36); the update reaches EC2
  exactly on a well-formed command (C37); attach then detach restores the instance's
  groups (C38); detaching the last group still sends an empty group list (C39).

  \<^emph>\<open>Not modelled.\<close> The parser and printer and the package \<open>ast\<close> (not part
  of this repository), the contents written by the generators other than
  \<open>generateDriverTypes\<close> (their code is not in this repository), the AWS SDK calls themselves, the parameter rules
  (\<open>paramRule\<close>, \<open>validateParams\<close>, \<open>NewEnumValidator\<close>), \<open>setFieldWithType\<close>,
  \<open>awsCall\<close> and \<open>checker\<close> (packages not in this repository), and the command
  specs of \<open>src/aws/spec\<close> other than the security groups, the container tasks and the
  database probe (the rest of \<open>database.go\<close>, \<open>routetable.go\<close>,
  \<open>gen/gen_instance.go\<close> and the service branch of \<open>StartContainertask\<close> only
  assemble SDK calls with those helpers),
  \<open>MatchStringParamValue\<close> (a regular expression of package \<open>ast\<close>), logging.
\<close>

section \<open>Example templates\<close>

text \<open>Spec S5 without the duplicate: \<open>sub = create subnet; inst = create instance subnet=$sub\<close>.\<close>

definition ex_scoped :: template where
  "ex_scoped =
     \<lparr>tpl_id = ''t1'',
      statements =
        [DeclStmt ''sub'' (CmdExpr (new_command_node ''create'' ''subnet'' [])),
         DeclStmt ''inst''
           (CmdExpr (new_command_node ''create'' ''instance'' [(''subnet'', Ref ''sub'')]))]\<rparr>"

definition ex_tpl :: template where
  "ex_tpl =
     \<lparr>tpl_id = ''t2'',
      statements =
        [DeclStmt ''sub''
           (CmdExpr (new_command_node ''create'' ''subnet'' [(''cidr'', Hole ''subnet.cidr'')])),
         DeclStmt ''name'' (ValueExpr (LStr ''web'')),
         CmdStmt (new_command_node ''create'' ''instance''
           [(''subnet'', Ref ''sub''), (''name'', Ref ''name''), (''image'', Alias ''ubuntu'')])]\<rparr>"

definition ex_defs :: "string \<Rightarrow> definition_schema option" where
  "ex_defs k =
     (if k = ''createsubnet'' then Some ([''cidr''], [''name''])
      else if k = ''createinstance'' then Some ([''subnet'', ''image''], [''name''])
      else None)"

definition ex_env :: env where
  "ex_env = new_env\<lparr>fillers := [''subnet.cidr'' \<mapsto> LStr ''10.0.0.0/24''],
     def_lookup_func := Some ex_defs,
     alias_func := Some (\<lambda>ent key a. if a = ''ubuntu'' then ''ami-123'' else '''')\<rparr>"

definition ex_compiled :: template where
  "ex_compiled =
     ex_tpl\<lparr>statements :=
      [DeclStmt ''sub''
           (CmdExpr (new_command_node ''create'' ''subnet'' [(''cidr'', LStr ''10.0.0.0/24'')])),
       CmdStmt (new_command_node ''create'' ''instance''
           [(''subnet'', Ref ''sub''), (''name'', LStr ''web''), (''image'', LStr ''ami-123'')])]\<rparr>"

definition ex_cmd :: command where
  "ex_cmd = (bare_command (\<lambda>ps. (Some (PStr ''id-1''), None)))
     \<lparr>cmd_validate_params := Some (\<lambda>ks. ([], None))\<rparr>"

definition ex_lookup :: lookup_fn where
  "ex_lookup ks =
     (if concat ks = ''createsubnet'' \<or> concat ks = ''createinstance'' then Some ex_cmd else None)"

definition ex_nr_env :: env where
  "ex_nr_env = ex_env\<lparr>lookuper := Some ex_lookup, is_new_runner := True\<rparr>"

definition ex_fail_cmd :: command where
  "ex_fail_cmd = bare_command (\<lambda>ps. (None, Some ''boom''))"

definition ex_run_tpl :: template where
  "ex_run_tpl =
     \<lparr>tpl_id = ''t3'',
      statements =
        [CmdStmt ((new_command_node ''create'' ''vpc'' [])\<lparr>node_command := Some ex_fail_cmd\<rparr>),
         CmdStmt ((new_command_node ''create'' ''subnet'' [])\<lparr>node_command := Some ex_cmd\<rparr>)]\<rparr>"

definition ex_dry_env :: env where
  "ex_dry_env = ex_nr_env\<lparr>is_dry_run := True\<rparr>"

definition ex_lifecycle_cmd :: command where
  "ex_lifecycle_cmd = ex_cmd\<lparr>cmd_dry_run := Some (\<lambda>fs. (Some (PStr ''dry-id''), None))\<rparr>"

definition ex_unknown_tpl :: template where
  "ex_unknown_tpl =
     \<lparr>tpl_id = ''t4'',
      statements =
        [DeclStmt ''sub'' (CmdExpr (new_command_node ''create'' ''subnet'' [])),
         DeclStmt ''x'' (ValueExpr (Ref ''sub'')),
         CmdStmt (new_command_node ''create'' ''instance'' [(''subnet'', Ref ''x'')])]\<rparr>"

definition ex_holes_tpl :: template where
  "ex_holes_tpl =
     \<lparr>tpl_id = ''t5'',
      statements =
        [CmdStmt (new_command_node ''create'' ''instance''
           [(''type'', Hole ''instance.type''), (''name'', Hole ''instance.name'')]),
         CmdStmt (new_command_node ''create'' ''keypair'' [(''name'', Hole ''instance.name'')])]\<rparr>"

definition ex_alias_tpl :: template where
  "ex_alias_tpl =
     \<lparr>tpl_id = ''t6'',
      statements =
        [CmdStmt (new_command_node ''create'' ''instance''
           [(''image'', Alias ''ubuntu''), (''keypair'', Alias ''debian'')])]\<rparr>"

definition ex_prompt_env :: env where
  "ex_prompt_env = new_env\<lparr>missing_holes_func := Some (\<lambda>k. LStr (''value-of-'' @ k))\<rparr>"

definition ex_converter :: "dparams \<Rightarrow> string + dparams" where
  "ex_converter vs = Inr [(''ips'', PList (map snd vs))]"

definition ex_conv_cmd :: command where
  "ex_conv_cmd = (bare_command (\<lambda>ps. (None, None)))
     \<lparr>cmd_convert_params := Some ([''ip''], ex_converter)\<rparr>"

definition ex_conv_env :: env where
  "ex_conv_env = new_env\<lparr>lookuper := Some (\<lambda>ks. Some ex_conv_cmd)\<rparr>"

definition ex_conv_node :: command_node where
  "ex_conv_node = new_command_node ''create'' ''instance''
     [(''ip'', LStr ''10.0.0.1''), (''name'', LStr ''web'')]"

definition ex_fill_env :: env where
  "ex_fill_env = new_env\<lparr>fillers := [''instance.name'' \<mapsto> LStr ''web'']\<rparr>"

definition ex_decl_node :: command_node where
  "ex_decl_node = (new_command_node ''create'' ''subnet'' [])\<lparr>node_command := Some ex_cmd\<rparr>"

definition ex_decl_tpl :: template where
  "ex_decl_tpl =
     \<lparr>tpl_id = ''t6'',
      statements =
        [DeclStmt ''sub'' (CmdExpr ex_decl_node),
         CmdStmt ((new_command_node ''create'' ''instance'' [(''subnet'', Ref ''sub'')])
           \<lparr>node_command := Some ex_cmd\<rparr>)]\<rparr>"

definition ex_decl_state :: run_state where
  "ex_decl_state =
     \<lparr>rs_todo = [CmdStmt ((new_command_node ''create'' ''instance'' [(''subnet'', Ref ''sub'')])
         \<lparr>node_command := Some ex_cmd\<rparr>)],
      rs_vars = [''sub'' \<mapsto> PStr ''id-1''],
      rs_done = [DeclStmt ''sub'' (CmdExpr (ex_decl_node\<lparr>cmd_result := Some (PStr ''id-1'')\<rparr>))],
      rs_status = Running\<rparr>"

definition ex_sg_range_cmd :: update_securitygroup where
  "ex_sg_range_cmd =
     \<lparr>usg_id = Some ''sg-1'', usg_protocol = Some ''tcp'', usg_cidr = Some ''10.0.0.0/8'',
      usg_securitygroup = None, usg_inbound = Some ''authorize'', usg_outbound = None,
      usg_portrange = Some (string_of_nat 70000 @ ''-'' @ string_of_nat 80)\<rparr>"

section \<open>Properties\<close>

text \<open>C1: the invalid-reference pass accepts a template exactly when its identifiers are
  declared once and every reference names an identifier declared by an earlier statement.\<close>

theorem reference_check_accepts_iff_well_scoped:
  "snd (snd (check_invalid_reference_declarations_pass tpl e)) = None
     \<longleftrightarrow> well_scoped (statements tpl)"
  by (simp add: check_invalid_reference_declarations_pass_def check_refs_walk_None_iff
      well_scoped_def)

theorem reference_check_witness:
  "snd (snd (check_invalid_reference_declarations_pass ex_scoped new_env)) = None
     \<and> well_scoped (statements ex_scoped)"
proof -
  have "snd (snd (check_invalid_reference_declarations_pass ex_scoped new_env)) = None"
    by (simp add: check_invalid_reference_declarations_pass_def ex_scoped_def
        new_command_node_def node_refs_def)
  then show ?thesis
    using reference_check_accepts_iff_well_scoped [of ex_scoped new_env] by simp
qed


text \<open>C2: a strict compilation (\<open>Compile\<close> with no mode, so \<open>NormalCompileMode\<close>) that
  succeeds, from an environment whose fillers and prompted values hold no references,
  yields a template in which every reference names an identifier declared by an earlier
  statement and no hole or alias is left (spec P2 and P3).\<close>

theorem strict_compile_sound:
  assumes "compile tpl e [] = (tpl', e', None)" and "env_ref_free e"
  shows "compiled_ok tpl'"
  using runs_specD[OF strict_passes_spec assms(2)] assms(1)
  by (simp add: compile_def compiled_ok_def normal_compile_mode_def)

theorem strict_compile_witness:
  "compile ex_tpl ex_env [] =
     (ex_compiled, ex_env\<lparr>resolved_variables := [''name'' \<mapsto> PStr ''web''],
        processed_fillers := [''subnet.cidr'' \<mapsto> LStr ''10.0.0.0/24'']\<rparr>, None)
   \<and> env_ref_free ex_env \<and> compiled_ok ex_compiled"
proof -
  have run: "compile ex_tpl ex_env [] =
     (ex_compiled, ex_env\<lparr>resolved_variables := [''name'' \<mapsto> PStr ''web''],
        processed_fillers := [''subnet.cidr'' \<mapsto> LStr ''10.0.0.0/24'']\<rparr>, None)"
    by (simp add: compile_eval ex_tpl_def ex_env_def ex_defs_def ex_compiled_def)
  have env: "env_ref_free ex_env"
    by (simp add: env_ref_free_def ex_env_def new_env_def)
  show ?thesis
    using run env strict_compile_sound[OF run env] by simp
qed


lemma ex_nr_env_ref_free: "env_ref_free ex_nr_env"
  by (simp add: env_ref_free_def ex_nr_env_def ex_env_def new_env_def)

lemma ex_tpl_nr_compiles_ok: "snd (snd (compile ex_tpl ex_nr_env [new_runner_compile_mode])) = None"
  by (simp add: compile_eval new_runner_eval ex_tpl_def ex_nr_env_def ex_env_def ex_lookup_def
      ex_cmd_def bare_command_def)

lemma ex_tpl_nr_compiles:
  "compile ex_tpl ex_nr_env [new_runner_compile_mode] =
     (fst (compile ex_tpl ex_nr_env [new_runner_compile_mode]),
      fst (snd (compile ex_tpl ex_nr_env [new_runner_compile_mode])), None)"
  using ex_tpl_nr_compiles_ok by (metis prod.collapse)

text \<open>C3: the same holds of a successful compilation in \<open>NewRunnerCompileMode\<close>, and
  moreover every command node carries the command object the runner will execute.\<close>

theorem new_runner_compile_sound:
  assumes "compile tpl e [new_runner_compile_mode] = (tpl', e', None)"
    and "env_ref_free e"
  shows "compiled_ok tpl' \<and>
    (\<forall>n \<in> set (command_nodes (statements tpl')). node_command n \<noteq> None)"
  using runs_specD[OF new_runner_passes_spec assms(2)] assms(1)
    by (simp add: compile_def new_runner_compile_mode_def)

theorem new_runner_compile_witness:
  "snd (snd (compile ex_tpl ex_nr_env [new_runner_compile_mode])) = None \<and>
   compiled_ok (fst (compile ex_tpl ex_nr_env [new_runner_compile_mode])) \<and>
   list_all (\<lambda>n. node_command n \<noteq> None)
     (command_nodes (statements (fst (compile ex_tpl ex_nr_env [new_runner_compile_mode]))))"
  using ex_tpl_nr_compiles_ok new_runner_compile_sound[OF ex_tpl_nr_compiles ex_nr_env_ref_free]
  by (simp add: list_all_iff)

lemma ex_run:
  "template_run ex_nr_env ''r1'' ex_run_tpl =
     (\<lparr>tpl_id = ''r1'', statements =
        [CmdStmt ((new_command_node ''create'' ''vpc'' [])\<lparr>node_command := Some ex_fail_cmd,
            cmd_result := None, cmd_err := Some ''boom''\<rparr>)]\<rparr>, None)"
  by (simp add: run_eval ex_run_tpl_def ex_nr_env_def ex_env_def new_env_def ex_fail_cmd_def
      bare_command_def)

text \<open>C4: \<open>Template.Run\<close> executes statements in source order: the template it returns
  holds the executed versions of a prefix of the compiled statements, and outside dry-run
  mode every statement but the last of that prefix ran without error (a failure stops the
  run, and the statements after it are skipped).\<close>

theorem runner_stops_at_first_failure:
  assumes "\<not> is_dry_run e" and "template_run e rid tpl = (cur, err)"
  shows "map stmt_head (statements cur) = map stmt_head (take (length (statements cur)) (statements tpl))
     \<and> \<not> has_errors (butlast (statements cur))"
proof -
  obtain out where out: "run_walk e Map.empty (statements tpl) = (out, err)"
    and cur: "statements cur = out"
    using assms(2) by (auto simp: template_run_def split: prod.splits)
  show ?thesis
    using run_walk_prefix[OF out] run_walk_no_error_before_last[OF assms(1) out] cur by simp
qed

theorem runner_stops_at_first_failure_witness:
  "map stmt_head (statements (fst (template_run ex_nr_env ''r1'' ex_run_tpl))) =
     [(None, Some (''create'', ''vpc''))] \<and>
   \<not> has_errors (butlast (statements (fst (template_run ex_nr_env ''r1'' ex_run_tpl))))"
  using runner_stops_at_first_failure[of ex_nr_env "''r1''" ex_run_tpl
      "fst (template_run ex_nr_env ''r1'' ex_run_tpl)" None] ex_run
  by (simp add: ex_nr_env_def ex_env_def new_env_def ex_run_tpl_def new_command_node_def)


text \<open>C5: when a run stops before the end and returns no error, it was not a dry run and
  the failure is visible only through \<open>HasErrors\<close> on the returned template:
  \<open>Template.Run\<close> returns a nil error when a command fails.\<close>

theorem runner_failure_not_reported:
  assumes "template_run e rid tpl = (cur, None)"
    and "length (statements cur) < length (statements tpl)"
  shows "\<not> is_dry_run e \<and> has_errors (statements cur)"
proof -
  obtain out where out: "run_walk e Map.empty (statements tpl) = (out, None)"
    and cur: "statements cur = out"
    using assms(1) by (auto simp: template_run_def split: prod.splits)
  have "\<not> is_dry_run e \<and> has_errors [last out]"
    using run_walk_early_stop[OF out] assms(2) cur by simp
  moreover have "out \<noteq> []" using run_walk_nonempty[OF out] assms(2) cur by auto
  ultimately show ?thesis
    using cur has_errors_append[of "butlast out" "[last out]"] by (simp add: append_butlast_last_id)
qed

theorem runner_failure_not_reported_witness:
  "snd (template_run ex_nr_env ''r1'' ex_run_tpl) = None \<and>
   \<not> is_dry_run ex_nr_env \<and> has_errors (statements (fst (template_run ex_nr_env ''r1'' ex_run_tpl)))"
  using runner_failure_not_reported[of ex_nr_env "''r1''" ex_run_tpl
      "fst (template_run ex_nr_env ''r1'' ex_run_tpl)"] ex_run
  by (simp add: ex_run_tpl_def)

text \<open>C6: the only errors \<open>Template.Run\<close> returns are \<open>unknown type of node\<close> (a value
  declaration left in the template) and a Go panic (a command node with no command).\<close>

theorem runner_error_kinds:
  "template_run e rid tpl = (cur, Some err) \<Longrightarrow> err = UnknownNodeType \<or> (\<exists>m. err = Panic m)"
  by (auto simp: template_run_def split: prod.splits dest: run_walk_errors)

text \<open>C7: a dry run that returns no error has visited every statement: command errors
  never stop a dry run.\<close>

theorem dry_run_visits_all:
  "is_dry_run e \<Longrightarrow> template_run e rid tpl = (cur, None) \<Longrightarrow>
     length (statements cur) = length (statements tpl)"
  by (auto simp: template_run_def split: prod.splits dest: run_walk_dry_run_complete)

theorem runner_error_kinds_witness:
  "snd (template_run (fst (snd (compile ex_unknown_tpl ex_nr_env [new_runner_compile_mode]))) ''r2''
          (fst (compile ex_unknown_tpl ex_nr_env [new_runner_compile_mode]))) = Some UnknownNodeType"
proof -
  have "snd (template_run (fst (snd (compile ex_unknown_tpl ex_nr_env [new_runner_compile_mode]))) ''r2''
          (fst (compile ex_unknown_tpl ex_nr_env [new_runner_compile_mode]))) = Some UnknownNodeType"
    by (simp add: compile_eval new_runner_eval run_eval ex_unknown_tpl_def ex_nr_env_def ex_env_def
        ex_lookup_def ex_cmd_def bare_command_def)
  moreover have "UnknownNodeType = UnknownNodeType \<or> (\<exists>m. UnknownNodeType = Panic m)"
    using runner_error_kinds[of _ "''r2''" _ _ UnknownNodeType] calculation by (metis prod.collapse)
  ultimately show ?thesis by simp
qed

theorem dry_run_visits_all_witness:
  "snd (template_run ex_dry_env ''r3'' ex_run_tpl) = None \<and>
   length (statements (fst (template_run ex_dry_env ''r3'' ex_run_tpl))) = 2"
proof -
  have run: "snd (template_run ex_dry_env ''r3'' ex_run_tpl) = None"
    by (simp add: run_eval ex_run_tpl_def ex_dry_env_def ex_nr_env_def ex_env_def new_env_def
        ex_fail_cmd_def ex_cmd_def bare_command_def)
  have dry: "is_dry_run ex_dry_env" by (simp add: ex_dry_env_def)
  have eq: "template_run ex_dry_env ''r3'' ex_run_tpl =
      (fst (template_run ex_dry_env ''r3'' ex_run_tpl), None)"
    using run by (metis prod.collapse)
  show ?thesis
    using run dry_run_visits_all[OF dry eq] by (simp add: ex_run_tpl_def)
qed

text \<open>C8: in dry-run mode a command that implements the driver lifecycle's \<open>DryRun()\<close>
  is not executed at all: the runner probes for \<open>DryRun(ctx, params)\<close>, which such a
  command cannot also have, and leaves the node without result or error.\<close>

theorem dry_run_skips_lifecycle_commands:
  assumes "is_dry_run e" and "node_command n = Some c" and "cmd_wf c" and "cmd_dry_run c \<noteq> None"
  shows "exec_node e vars n = Inr (process_refs vars n, False)"
  using assms by (auto simp: exec_node_def cmd_wf_def Let_def)

theorem dry_run_skips_lifecycle_commands_witness:
  "exec_node ex_dry_env Map.empty ((new_command_node ''create'' ''subnet'' [])\<lparr>node_command := Some ex_lifecycle_cmd\<rparr>)
     = Inr ((new_command_node ''create'' ''subnet'' [])\<lparr>node_command := Some ex_lifecycle_cmd\<rparr>, False)"
proof -
  have "cmd_wf ex_lifecycle_cmd" "cmd_dry_run ex_lifecycle_cmd \<noteq> None" "is_dry_run ex_dry_env"
    by (simp_all add: cmd_wf_def ex_lifecycle_cmd_def ex_cmd_def bare_command_def ex_dry_env_def)
  from dry_run_skips_lifecycle_commands[OF this(3) _ this(1,2), of _ Map.empty]
  show ?thesis by (simp add: process_refs_def map_params_def new_command_node_def)
qed

text \<open>C10: a template that compiles without error in \<open>NewRunnerCompileMode\<close> still
  fails in \<open>Template.Run\<close> when it declares a value that refers to a command's result
  (\<open>x = $s\<close> with \<open>s = action entity ...\<close>): the inlining pass keeps that declaration,
  so a dry run ends in \<open>unknown type of node\<close>, and any run either returns an error or
  stops at a failed command; no run of it succeeds.\<close>

theorem compile_then_run_unknown_node:
  assumes "compile tpl e [new_runner_compile_mode] = (t, e', None)"
    and "DeclStmt x (ValueExpr (Ref s)) \<in> set (statements tpl)"
    and "DeclStmt s (CmdExpr n) \<in> set (statements tpl)"
  shows "(is_dry_run er \<longrightarrow> snd (template_run er rid t) = Some UnknownNodeType) \<and>
         (snd (template_run er rid t) = None \<longrightarrow> has_errors (statements (fst (template_run er rid t))))"
proof -
  have "value_ref_to_command (statements tpl)"
    using assms(2,3) value_refs_set[of x s "statements tpl"]
    by (force simp: value_ref_to_command_def list_ex_iff cmd_idents_set)
  then have "value_ref_to_command (statements t)"
    using runs_specD[OF new_runner_passes_keep_value_ref] assms(1)
    by (simp add: compile_def new_runner_compile_mode_def)
  then obtain y r where "DeclStmt y (ValueExpr (Ref r)) \<in> set (statements t)"
    by (auto simp: value_ref_to_command_def list_ex_iff value_refs_set)
  then show ?thesis
    using run_walk_value_decl[of y "Ref r" "statements t" er Map.empty]
    by (auto simp: template_run_def split: prod.splits)
qed

theorem compile_then_run_unknown_node_witness:
  "snd (template_run ex_dry_env ''r2'' (fst (compile ex_unknown_tpl ex_nr_env [new_runner_compile_mode])))
     = Some UnknownNodeType"
proof -
  have ok: "snd (snd (compile ex_unknown_tpl ex_nr_env [new_runner_compile_mode])) = None"
    by (simp add: compile_eval new_runner_eval run_eval ex_unknown_tpl_def ex_nr_env_def ex_env_def
        ex_lookup_def ex_cmd_def bare_command_def)
  have "compile ex_unknown_tpl ex_nr_env [new_runner_compile_mode] =
      (fst (compile ex_unknown_tpl ex_nr_env [new_runner_compile_mode]),
       fst (snd (compile ex_unknown_tpl ex_nr_env [new_runner_compile_mode])), None)"
    using ok by (metis prod.collapse)
  then show ?thesis
    using compile_then_run_unknown_node[of ex_unknown_tpl ex_nr_env _ _ "''x''" "''sub''" _ ex_dry_env "''r2''"]
    by (simp add: ex_unknown_tpl_def ex_dry_env_def new_command_node_def)
qed

text \<open>C9: \<open>runCmd\<close> with the new runner in dry-run mode runs the command for real: after
  \<open>driver.DryRun\<close> it calls \<open>driver.Run\<close>, whose outcome is what the node records.\<close>

theorem run_cmd_dry_run_runs:
  assumes "is_new_runner e" and "is_dry_run e" and "lookuper e = Some lf"
    and "lf [action n, entity n] = Some c" and "cmd_inject c = None" and "cmd_validate c = None"
    and "cmd_run c = Some rn" and "cmd_after_run c = None"
  shows "cmd_result (fst (run_cmd e vars n)) = fst (rn (cmd_fields c)) \<and>
         cmd_err (fst (run_cmd e vars n)) = snd (rn (cmd_fields c))"
  using assms driver_dry_run_no_inject[OF assms(5)]
  by (auto simp: run_cmd_def Let_def driver_run_def inject_step_def validate_step_def
      split: prod.splits option.splits)

theorem run_cmd_dry_run_runs_witness:
  "cmd_result (fst (run_cmd ex_dry_env Map.empty (new_command_node ''create'' ''subnet'' []))) =
     Some (PStr ''id-1'')"
proof -
  have "is_new_runner ex_dry_env" "is_dry_run ex_dry_env" "lookuper ex_dry_env = Some ex_lookup"
    "ex_lookup [action (new_command_node ''create'' ''subnet'' []),
                entity (new_command_node ''create'' ''subnet'' [])] = Some ex_cmd"
    "cmd_inject ex_cmd = None" "cmd_validate ex_cmd = None"
    "cmd_run ex_cmd = Some (\<lambda>ps. (Some (PStr ''id-1''), None))" "cmd_after_run ex_cmd = None"
    by (simp_all add: ex_dry_env_def ex_nr_env_def ex_env_def new_env_def ex_lookup_def
        new_command_node_def ex_cmd_def bare_command_def)
  from run_cmd_dry_run_runs[OF this, of Map.empty] show ?thesis by simp
qed


text \<open>C11: every error of \<open>injectCommandsPass\<close> is a Go panic: the type assertion
  \<open>env.Lookuper(key).(ast.Command)\<close> panics on a missing command, so the pass's own
  error \<open>inject: cannot find command\<close> is never returned.\<close>

theorem inject_errors_are_panics:
  "snd (snd (inject_commands_pass tpl e)) = None \<or>
   (\<exists>m. snd (snd (inject_commands_pass tpl e)) = Some (Panic m))"
proof (cases "snd (visit_command_nodes_e (inject_node e) (statements tpl))")
  case (Some err)
  then obtain n where "inject_node e n = Inl err"
    using visit_command_nodes_e_Some[OF Some] by blast
  then have "\<exists>m. err = Panic m"
    by (auto simp: inject_node_def lookup_command_def split: option.splits sum.splits)
  with Some show ?thesis by (auto simp: inject_commands_pass_def split_def Let_def)
qed (simp add: inject_commands_pass_def split_def Let_def)

text \<open>C12: \<open>convertParamsPass\<close> never reports a converter's error nor a missing
  command: it drops the error of its walk, so a failing conversion leaves the node and the
  nodes after it unconverted and the pass succeeds.\<close>

theorem convert_errors_dropped:
  "snd (snd (convert_params_pass tpl e)) \<noteq> Some (CmdErr a en m) \<and>
   snd (snd (convert_params_pass tpl e)) \<noteq> Some (ConvertCannotFindCommand k)"
  using panics_only_cases[of "snd (visit_command_nodes_e (convert_node e) (statements tpl))"]
  by (auto simp: convert_params_pass_def split_def Let_def)

text \<open>C13: \<open>verifyCommandsDefinedPass\<close> succeeds exactly when the lookuper is set and
  finds a command for the key of every command node.\<close>

theorem verify_commands_defined_iff:
  "snd (snd (verify_commands_defined_pass tpl e)) = None \<longleftrightarrow>
     (\<exists>lf. lookuper e = Some lf \<and> (\<forall>n \<in> set (command_nodes (statements tpl)). lf [cmd_key n] \<noteq> None))"
  by (auto simp: verify_commands_defined_pass_def find_None_iff split: option.splits
      dest!: find_Some_iff[THEN iffD1])


text \<open>C14: \<open>resolveMissingHolesPass\<close> prompts for each unresolved hole once, in sorted
  order (spec P4), and when the prompted values hold no holes it leaves none, recording
  every hole it filled among the processed fillers.\<close>

theorem missing_holes_prompted_and_filled:
  assumes "missing_holes_func e = Some f" and "\<forall>k. holes_of (f k) = []"
    and "resolve_missing_holes_pass tpl e = (tpl', e', err)"
  shows "sorted (missing_hole_prompts (statements tpl)) \<and>
    distinct (missing_hole_prompts (statements tpl)) \<and>
    set (missing_hole_prompts (statements tpl)) = set (tpl_holes (statements tpl)) \<and>
    err = None \<and> tpl_holes (statements tpl') = [] \<and>
    dom (processed_fillers e') = dom (processed_fillers e) \<union> set (tpl_holes (statements tpl))"
proof -
  let ?F = "missing_fillers e (missing_hole_prompts (statements tpl))"
  have step: "tpl' = fst (process_holes_step ?F tpl e)" "e' = snd (process_holes_step ?F tpl e)"
    "err = None"
    using assms(3) by (auto simp: resolve_missing_holes_pass_def split_def Let_def)
  have "dom ?F = set (tpl_holes (statements tpl))"
    using assms(1) by (simp add: missing_fillers_dom missing_hole_prompts_props)
  then have "dom (processed_fillers e') = dom (processed_fillers e) \<union> set (tpl_holes (statements tpl))"
    using step by (auto simp: process_holes_step_processed)
  moreover have "tpl_holes (statements tpl') = []"
    using resolve_missing_holes_no_holes[OF assms(1,2), of tpl] step
    by (simp add: resolve_missing_holes_pass_def split_def Let_def)
  ultimately show ?thesis
    using step by (simp add: missing_hole_prompts_props)
qed


theorem verify_commands_defined_witness:
  "snd (snd (verify_commands_defined_pass ex_tpl ex_nr_env)) = None \<and>
   list_all (\<lambda>n. ex_lookup [cmd_key n] \<noteq> None) (command_nodes (statements ex_tpl))"
proof -
  have ok: "snd (snd (verify_commands_defined_pass ex_tpl ex_nr_env)) = None"
    by (simp add: verify_commands_defined_pass_def ex_tpl_def ex_nr_env_def ex_lookup_def
        cmd_key_def new_command_node_def)
  have "lookuper ex_nr_env = Some ex_lookup" by (simp add: ex_nr_env_def)
  with ok verify_commands_defined_iff[of ex_tpl ex_nr_env] show ?thesis
    by (auto simp: list_all_iff)
qed

theorem missing_holes_prompted_and_filled_witness:
  "missing_hole_prompts (statements ex_holes_tpl) = [''instance.name'', ''instance.type''] \<and>
   tpl_holes (statements (fst (resolve_missing_holes_pass ex_holes_tpl ex_prompt_env))) = [] \<and>
   dom (processed_fillers (fst (snd (resolve_missing_holes_pass ex_holes_tpl ex_prompt_env)))) =
     {''instance.name'', ''instance.type''}"
proof -
  have f: "missing_holes_func ex_prompt_env = Some (\<lambda>k. LStr (''value-of-'' @ k))"
    and nh: "\<forall>k. holes_of ((\<lambda>k. LStr (''value-of-'' @ k)) k) = []"
    by (simp_all add: ex_prompt_env_def)
  have holes: "tpl_holes (statements ex_holes_tpl) =
      [''instance.type'', ''instance.name'', ''instance.name'']"
    by (simp add: ex_holes_tpl_def new_command_node_def node_holes_def)
  have pe: "processed_fillers ex_prompt_env = Map.empty"
    by (simp add: ex_prompt_env_def new_env_def)
  have run: "resolve_missing_holes_pass ex_holes_tpl ex_prompt_env =
      (fst (resolve_missing_holes_pass ex_holes_tpl ex_prompt_env),
       fst (snd (resolve_missing_holes_pass ex_holes_tpl ex_prompt_env)),
       snd (snd (resolve_missing_holes_pass ex_holes_tpl ex_prompt_env)))"
    by simp
  have "missing_hole_prompts (statements ex_holes_tpl) = [''instance.name'', ''instance.type'']"
    by (simp add: missing_hole_prompts_def holes)
  with missing_holes_prompted_and_filled[OF f nh run] holes pe show ?thesis
    by auto
qed

text \<open>C15: after a successful \<open>resolveAgainstDefinitions\<close> every command node has a
  definition, all of its required parameters and no parameter the definition does not
  list.\<close>

theorem definitions_resolved:
  assumes "resolve_against_definitions tpl e = (tpl', e', None)" and "def_lookup_func e = Some lf"
  shows "\<forall>n \<in> set (command_nodes (statements tpl')). \<exists>req extra.
           lf (cmd_key n) = Some (req, extra) \<and>
           set req \<subseteq> set (node_keys n) \<and> set (node_keys n) \<subseteq> set req \<union> set extra"
proof
  fix n assume "n \<in> set (command_nodes (statements tpl'))"
  moreover have ok: "\<forall>m \<in> set (command_nodes (statements tpl)). def_check_node lf m = None"
    and tpl': "tpl' = tpl\<lparr>statements := map_command_nodes (add_required_holes lf) (statements tpl)\<rparr>"
    using assms by (auto simp: resolve_against_definitions_def visit_command_nodes_e_None_iff
        split: option.splits if_splits)
  ultimately obtain m where m: "m \<in> set (command_nodes (statements tpl))"
    and n: "n = add_required_holes lf m"
    by auto
  with ok obtain req extra where "lf (cmd_key m) = Some (req, extra)"
    and "set (node_keys m) \<subseteq> set req \<union> set extra"
    by (auto simp: def_check_node_None_iff)
  with n show "\<exists>req extra. lf (cmd_key n) = Some (req, extra) \<and>
           set req \<subseteq> set (node_keys n) \<and> set (node_keys n) \<subseteq> set req \<union> set extra"
    by (auto simp: add_required_holes_keys)
qed

theorem definitions_resolved_witness:
  "resolve_against_definitions ex_tpl ex_env =
     (fst (resolve_against_definitions ex_tpl ex_env), ex_env, None) \<and>
   list_all (\<lambda>n. \<exists>req extra. ex_defs (cmd_key n) = Some (req, extra) \<and>
       set req \<subseteq> set (node_keys n) \<and> set (node_keys n) \<subseteq> set req \<union> set extra)
     (command_nodes (statements (fst (resolve_against_definitions ex_tpl ex_env))))"
proof -
  have run: "resolve_against_definitions ex_tpl ex_env =
      (fst (resolve_against_definitions ex_tpl ex_env), ex_env, None)"
    by (simp add: resolve_against_definitions_def ex_tpl_def ex_env_def ex_defs_def
        def_check_node_def cmd_key_def new_command_node_def node_keys_def)
  have "def_lookup_func ex_env = Some ex_defs" by (simp add: ex_env_def)
  from definitions_resolved[OF run this] run show ?thesis by (simp add: list_all_iff)
qed

text \<open>C16: with an alias function, \<open>resolveAliasPass\<close> leaves exactly the aliases the
  function could not resolve, and fails exactly when there is one.\<close>

theorem alias_pass_reports_unresolved:
  assumes "alias_func e = Some f" and "resolve_alias_pass tpl e = (tpl', e', err)"
  shows "tpl_aliases (statements tpl') = failed_aliases e (statements tpl) \<and> e' = e \<and>
    (err = None \<longleftrightarrow> failed_aliases e (statements tpl) = [])"
  using resolve_alias_pass_remaining[OF assms(1), of tpl] assms(2)
  by (auto simp: resolve_alias_pass_def Let_def split: if_splits)

theorem alias_pass_reports_unresolved_witness:
  "tpl_aliases (statements (fst (resolve_alias_pass ex_alias_tpl ex_env))) = [''debian''] \<and>
   snd (snd (resolve_alias_pass ex_alias_tpl ex_env)) = Some (CannotResolveAliases [''debian''])"
proof -
  have f: "alias_func ex_env = Some (\<lambda>ent key a. if a = ''ubuntu'' then ''ami-123'' else '''')"
    by (simp add: ex_env_def)
  have fa: "failed_aliases ex_env (statements ex_alias_tpl) = [''debian'']"
    by (simp add: failed_aliases_def alias_resolver_def ex_env_def ex_alias_tpl_def
        new_command_node_def)
  have "snd (snd (resolve_alias_pass ex_alias_tpl ex_env)) = Some (CannotResolveAliases [''debian''])"
    using fa by (simp add: resolve_alias_pass_def Let_def)
  moreover have eq: "resolve_alias_pass ex_alias_tpl ex_env =
      (fst (resolve_alias_pass ex_alias_tpl ex_env), fst (snd (resolve_alias_pass ex_alias_tpl ex_env)),
       snd (snd (resolve_alias_pass ex_alias_tpl ex_env)))"
    by simp
  ultimately show ?thesis
    using alias_pass_reports_unresolved[OF f eq] fa by simp
qed

text \<open>C17: with no alias function, \<open>resolveAliasPass\<close> changes nothing and reports
  nothing: the aliases stay in the template, and only the strict guard catches them.\<close>

theorem alias_pass_without_function:
  assumes "alias_func e = None"
  shows "resolve_alias_pass tpl e = (tpl, e, None)"
proof -
  have "(\<lambda>ent key. subst_alias (fst \<circ> alias_resolver e ent key)) = (\<lambda>_ _ v. v)"
    using assms by (simp add: alias_resolver_def comp_def fun_eq_iff)
  moreover have "failed_aliases e sts = []" for sts
    using assms by (simp add: failed_aliases_def alias_resolver_def comp_def split_def)
  ultimately show ?thesis
    by (simp add: resolve_alias_pass_def Let_def map_idI)
qed

theorem alias_pass_without_function_witness:
  "resolve_alias_pass ex_alias_tpl new_env = (ex_alias_tpl, new_env, None)"
  using alias_pass_without_function[of new_env ex_alias_tpl] by (simp add: new_env_def)


lemma ex_exec_fail:
  "exec_node ex_nr_env Map.empty ((new_command_node ''create'' ''vpc'' [])\<lparr>node_command := Some ex_fail_cmd\<rparr>) =
     Inr ((new_command_node ''create'' ''vpc'' [])\<lparr>node_command := Some ex_fail_cmd,
            cmd_result := None, cmd_err := Some ''boom''\<rparr>, True)"
  by (simp add: run_eval ex_nr_env_def ex_env_def new_env_def ex_fail_cmd_def bare_command_def)

lemma ex_decl_exec:
  "exec_node ex_nr_env Map.empty ex_decl_node =
     Inr (ex_decl_node\<lparr>cmd_result := Some (PStr ''id-1'')\<rparr>, False)"
  by (simp add: run_eval ex_decl_node_def ex_nr_env_def ex_env_def new_env_def ex_cmd_def
      bare_command_def)

lemma ex_decl_star: "(run_step ex_nr_env)\<^sup>*\<^sup>* (run_start (statements ex_decl_tpl)) ex_decl_state"
proof -
  have "run_step ex_nr_env (run_start (statements ex_decl_tpl)) ex_decl_state"
    using run_step.decl_next[OF ex_decl_exec, where x = "''sub''" and ds = "[]"
        and sts = "[CmdStmt ((new_command_node ''create'' ''instance'' [(''subnet'', Ref ''sub'')])
           \<lparr>node_command := Some ex_cmd\<rparr>)]"]
    by (simp add: run_start_def ex_decl_state_def ex_decl_tpl_def)
  then show ?thesis by (rule r_into_rtranclp)
qed

text \<open>C22: while a run is still running, its variables are exactly the results of the
  command declarations executed so far (the later overriding the earlier), and, outside
  dry-run mode, no executed command has an error.\<close>
theorem run_reachable_running:
  assumes "(run_step e)\<^sup>*\<^sup>* (run_start sts) s" and "rs_status s = Running"
  shows "rs_vars s = decl_results (rs_done s) \<and> (\<not> is_dry_run e \<longrightarrow> \<not> has_errors (rs_done s))"
  using star_vars[OF assms] star_no_errors[OF assms(1) _ assms(2)]
  by (simp add: run_start_def decl_results_def)

theorem run_reachable_running_witness:
  "rs_vars ex_decl_state = decl_results (rs_done ex_decl_state) \<and>
   \<not> has_errors (rs_done ex_decl_state) \<and> rs_vars ex_decl_state ''sub'' = Some (PStr ''id-1'')"
proof -
  have "rs_status ex_decl_state = Running" by (simp add: ex_decl_state_def)
  from run_reachable_running[OF ex_decl_star this] show ?thesis
    by (simp add: ex_decl_state_def ex_nr_env_def ex_env_def new_env_def decl_results_def)
qed

text \<open>C23: \<open>convertParamsPass\<close> round trip: when a command's converter succeeds on
  the node's driver parameters for its keys, the converted node reads back through
  \<open>ToDriverParams\<close> exactly the values the converter returned (written with
  \<open>NewInterfaceValue\<close>), the converter's keys it did not return are gone, and every other
  parameter is unchanged; the keys stay unique.\<close>
theorem convert_params_roundtrip:
  assumes "lookup_command e n = Inr (Some c)" and "cmd_convert_params c = Some (keys, conv)"
    and "conv (convert_values keys n) = Inr converted"
    and "distinct (map fst converted)" and "distinct (node_keys n)"
  shows "\<exists>n'. convert_node e n = Inr n' \<and> distinct (node_keys n') \<and>
     (\<forall>k. map_of (to_driver_params n') k =
            (case map_of converted k of Some v \<Rightarrow> Some v
             | None \<Rightarrow> if k \<in> set keys then None else map_of (to_driver_params n) k))"
  using convert_node_params[OF assms(1-3)] to_driver_params_converted[OF assms(4,5) refl]
  by blast

theorem convert_params_roundtrip_witness:
  "\<exists>n'. convert_node ex_conv_env ex_conv_node = Inr n' \<and> distinct (node_keys n') \<and>
     (\<forall>k. map_of (to_driver_params n') k =
            (case map_of [(''ips'', PList [PStr ''10.0.0.1''])] k of Some v \<Rightarrow> Some v
             | None \<Rightarrow> if k \<in> set [''ip''] then None else map_of (to_driver_params ex_conv_node) k))"
  by (rule convert_params_roundtrip[where c = ex_conv_cmd and conv = ex_converter])
     (simp_all add: lookup_command_def ex_conv_env_def ex_conv_cmd_def bare_command_def new_env_def
       convert_values_def ex_conv_node_def new_command_node_def node_keys_def to_driver_params_def
       List.map_filter_def ex_converter_def)

text \<open>C24: a \<open>MultiDriver\<close> built from the generated AWS drivers finds no driver
  function, whatever their dry-run flag and logger: \<open>Lookup\<close> fails with
  \<open>function not found in drivers\<close> and \<open>LookupIface\<close> answers nil.\<close>
theorem generated_drivers_find_nothing:
  "drv_lookup (new_multi_driver (map aws_as_driver drvs)) ls = Inl (NotFoundInDrivers ls) \<and>
   drv_lookup_iface (new_multi_driver (map aws_as_driver drvs)) ls = Inr None"
proof -
  have "set (map aws_as_driver drvs) \<subseteq> {gen_driver}" by auto
  then show ?thesis
    using multi_collect_gen_drivers multi_lookup_iface_gen_drivers
    by (simp add: new_multi_driver_def multi_lookup_def)
qed

text \<open>C25: consequently \<open>runCmd\<close> outside the new runner, with the generated AWS
  drivers as the environment's driver, fails on every command node with the composite's
  not-found error for the node's action and entity.\<close>
theorem run_cmd_aws_drivers_fail:
  assumes "\<not> is_new_runner e" and "env_driver e = Some (new_multi_driver (map aws_as_driver drvs))"
  shows "snd (run_cmd e vars n) = Some (DriverLookupFailed (NotFoundInDrivers [action n, entity n]))"
proof -
  have "set (map aws_as_driver drvs) \<subseteq> {gen_driver}" by auto
  then show ?thesis
    using assms multi_collect_gen_drivers
    by (simp add: run_cmd_def Let_def new_multi_driver_def multi_lookup_def)
qed

theorem run_cmd_aws_drivers_fail_witness:
  "snd (run_cmd (new_env\<lparr>env_driver :=
        Some (new_multi_driver (map aws_as_driver (map new_aws_driver gen_drivers_defs)))\<rparr>)
      Map.empty (new_command_node ''create'' ''instance'' [])) =
   Some (DriverLookupFailed (NotFoundInDrivers [''create'', ''instance'']))"
  using run_cmd_aws_drivers_fail[of "new_env\<lparr>env_driver :=
        Some (new_multi_driver (map aws_as_driver (map new_aws_driver gen_drivers_defs)))\<rparr>"
      "map new_aws_driver gen_drivers_defs" Map.empty "new_command_node ''create'' ''instance'' []"]
  by (simp add: new_env_def new_command_node_def)

text \<open>C29: filler consumption is idempotent (spec P1): when no filler value holds a
  hole that has a filler, \<open>resolveHolesPass\<close> records as processed exactly the fillers
  of the template's holes, and running it again with the same fillers changes neither
  the template nor the environment.\<close>
theorem resolve_holes_pass_idempotent:
  assumes "\<forall>w \<in> ran (fillers e). set (holes_of w) \<inter> dom (fillers e) = {}"
    and "resolve_holes_pass tpl e = (t1, e1, err)"
  shows "err = None \<and> resolve_holes_pass t1 e1 = (t1, e1, None) \<and>
         processed_fillers e1 = processed_fillers e ++ fillers e |` set (tpl_holes (statements tpl))"
proof -
  have r: "t1 = fst (process_holes_step (fillers e) tpl e)" "e1 = snd (process_holes_step (fillers e) tpl e)"
    "err = None"
    using assms(2) by (simp_all add: resolve_holes_pass_def split: prod.splits)
  have "fillers e1 = fillers e" using r(2) by simp
  then have "resolve_holes_pass t1 e1 = (t1, e1, None)"
    using process_holes_step_idem[OF assms(1), of tpl e] r(1,2)
    by (simp add: resolve_holes_pass_def split: prod.splits)
  then show ?thesis using r by (simp add: process_holes_step_processed)
qed

theorem resolve_holes_pass_idempotent_witness:
  "resolve_holes_pass (fst (resolve_holes_pass ex_holes_tpl ex_fill_env))
       (fst (snd (resolve_holes_pass ex_holes_tpl ex_fill_env))) =
     (fst (resolve_holes_pass ex_holes_tpl ex_fill_env),
      fst (snd (resolve_holes_pass ex_holes_tpl ex_fill_env)), None) \<and>
   processed_fillers (fst (snd (resolve_holes_pass ex_holes_tpl ex_fill_env))) =
     [''instance.name'' \<mapsto> LStr ''web'']"
proof -
  have h: "\<forall>w \<in> ran (fillers ex_fill_env). set (holes_of w) \<inter> dom (fillers ex_fill_env) = {}"
    by (simp add: ex_fill_env_def)
  have "set (tpl_holes (statements ex_holes_tpl)) = {''instance.type'', ''instance.name''}"
    by (simp add: ex_holes_tpl_def new_command_node_def node_holes_def)
  then show ?thesis
    using resolve_holes_pass_idempotent[OF h, of ex_holes_tpl
        "fst (resolve_holes_pass ex_holes_tpl ex_fill_env)"
        "fst (snd (resolve_holes_pass ex_holes_tpl ex_fill_env))"
        "snd (snd (resolve_holes_pass ex_holes_tpl ex_fill_env))"]
    by (simp add: ex_fill_env_def new_env_def restrict_map_def fun_eq_iff)
qed

text \<open>C30: a template that compiles in \<open>NewRunnerCompileMode\<close> never makes
  \<open>Template.Run\<close> panic, in any run environment: the run returns no error or
  \<open>unknown type of node\<close>.\<close>

theorem new_runner_compiled_run_no_panic:
  assumes "compile tpl e [new_runner_compile_mode] = (tpl', e', None)" and "env_ref_free e"
  shows "snd (template_run e2 rid tpl') = None \<or> snd (template_run e2 rid tpl') = Some UnknownNodeType"
proof -
  have cmds: "\<forall>n \<in> set (command_nodes (statements tpl')). node_command n \<noteq> None"
    using runs_specD[OF new_runner_passes_spec assms(2)] assms(1)
    by (simp add: compile_def new_runner_compile_mode_def)
  obtain out err where rw: "run_walk e2 Map.empty (statements tpl') = (out, err)" by fastforce
  have "err \<noteq> Some (Panic m)" for m
    using run_walk_panic_nil_command[of e2 Map.empty "statements tpl'" out m] rw cmds by auto
  then have "err = None \<or> err = Some UnknownNodeType"
    using run_walk_errors[of e2 Map.empty "statements tpl'" out] rw by (cases err) auto
  then show ?thesis using rw by (simp add: template_run_def)
qed

theorem new_runner_compiled_run_no_panic_witness:
  "snd (template_run ex_nr_env ''r2'' (fst (compile ex_tpl ex_nr_env [new_runner_compile_mode]))) = None \<or>
   snd (template_run ex_nr_env ''r2'' (fst (compile ex_tpl ex_nr_env [new_runner_compile_mode]))) =
     Some UnknownNodeType"
  by (rule new_runner_compiled_run_no_panic[OF ex_tpl_nr_compiles ex_nr_env_ref_free])


text \<open>C31: a single port given in decimal round-trips through the port switch of
  \<open>buildIpPermissions\<close> (\<open>strconv.ParseInt(ports, 10, 64)\<close>): a natural below
  \<open>2^63\<close> becomes both ports, a Go \<open>int64\<close> (\<open>64 word\<close>) whose signed reading is
  the value written, with no wrap-around.\<close>

theorem ports_of_roundtrip:
  assumes "a < 2 ^ 63"
  shows "ports_of p (string_of_nat a) = Inr (of_nat a, of_nat a) \<and> sint (of_nat a :: 64 word) = int a"
proof -
  have "sint (word_of_int (int a) :: 64 word) = int a"
    using assms by (intro sint_word_of_int_64) simp_all
  then show ?thesis using assms by (simp add: ports_of_single)
qed

theorem ports_of_roundtrip_witness:
  "ports_of ''tcp'' ''8080'' = Inr (8080, 8080) \<and> sint (8080 :: 64 word) = 8080"
  using ports_of_roundtrip[of 8080 "''tcp''"]
  by (simp add: string_of_nat.simps digit_char_def)

text \<open>C32: a port beyond the \<open>int64\<close> range is rejected with a range error, never
  wrapped into a port.\<close>

theorem ports_of_overflow:
  assumes "2 ^ 63 \<le> a"
  shows "ports_of p (string_of_nat a) = Inl (ErrRange (string_of_nat a))"
  using assms by (simp add: ports_of_single)

theorem ports_of_overflow_witness:
  "ports_of ''tcp'' (string_of_nat (2 ^ 63)) = Inl (ErrRange (string_of_nat (2 ^ 63)))"
  using ports_of_overflow[of "2 ^ 63" "''tcp''"] by simp

text \<open>C33: \<open>buildIpPermissions\<close> calls \<open>strings.Contains("any", p)\<close> with its
  arguments swapped: every protocol that is a substring of \<open>"any"\<close> (the empty string,
  \<open>"a"\<close>, \<open>"y"\<close>, \<open>"ny"\<close>, \<open>\<dots>\<close>) yields the rule for all protocols and all ports,
  whatever port range was given.\<close>
theorem build_ip_permissions_protocol_substring:
  assumes "usg_cidr c = Some cidr" and "sublist (string_value (usg_protocol c)) ''any''"
  shows "build_ip_permissions c =
     Inr [empty_ip_permission\<lparr>perm_ip_ranges := [cidr], perm_from_port := Some (-1),
            perm_to_port := Some (-1), perm_ip_protocol := Some ''-1''\<rparr>]"
  using assms by (simp add: build_ip_permissions_def)

definition ex_delete_ct_node :: command_node where
  "ex_delete_ct_node =
     (new_command_node ''delete'' ''containertask'' [(''name'', LStr ''web'')])
       \<lparr>node_command := Some (delete_ct_command (\<lambda>_. Inr []) ex_cmd)\<rparr>"

theorem build_ip_permissions_protocol_substring_witness:
  "build_ip_permissions
     \<lparr>usg_id = Some ''sg-1'', usg_protocol = Some ''y'', usg_cidr = Some ''10.0.0.0/8'',
      usg_securitygroup = None, usg_inbound = Some ''authorize'', usg_outbound = None,
      usg_portrange = Some ''22''\<rparr> =
   Inr [empty_ip_permission\<lparr>perm_ip_ranges := [''10.0.0.0/8''], perm_from_port := Some (-1),
          perm_to_port := Some (-1), perm_ip_protocol := Some ''-1''\<rparr>]"
  by (rule build_ip_permissions_protocol_substring) (simp_all add: string_value_def sublist_Cons_right)

text \<open>C34: a port range \<open>a-b\<close> of naturals below \<open>2^63\<close> yields exactly the ports
  \<open>a\<close> and \<open>b\<close>: nothing checks that they are valid TCP or UDP ports or that
  \<open>a \<le> b\<close>.\<close>
theorem build_ip_permissions_port_range:
  assumes "usg_cidr c = Some cidr" and "usg_protocol c = Some p" and "\<not> sublist p ''any''"
    and "usg_portrange c = Some (string_of_nat a @ ''-'' @ string_of_nat b)"
    and "a < 2 ^ 63" and "b < 2 ^ 63"
  shows "build_ip_permissions c =
     Inr [empty_ip_permission\<lparr>perm_ip_ranges := [cidr], perm_ip_protocol := Some p,
            perm_from_port := Some (of_nat a), perm_to_port := Some (of_nat b)\<rparr>]"
  using assms ports_of_range[OF assms(5,6), of p]
  by (simp add: build_ip_permissions_def string_value_def)

theorem build_ip_permissions_port_range_witness:
  "build_ip_permissions ex_sg_range_cmd =
   Inr [empty_ip_permission\<lparr>perm_ip_ranges := [''10.0.0.0/8''], perm_ip_protocol := Some ''tcp'',
          perm_from_port := Some 70000, perm_to_port := Some 80\<rparr>]"
  using build_ip_permissions_port_range[of ex_sg_range_cmd "''10.0.0.0/8''" "''tcp''" 70000 80]
  by (simp add: ex_sg_range_cmd_def sublist_Cons_right)

theorem exec_node_delete_ct_dry_run_witness:
  "exec_node ex_dry_env Map.empty ex_delete_ct_node =
     Inr ((process_refs Map.empty ex_delete_ct_node)\<lparr>cmd_result := None,
       cmd_err := Some (''dry run: no containertask found with name '' @ [CHR 0x27] @ ''web'' @
         [CHR 0x27])\<rparr>, False)"
  using exec_node_delete_ct_dry_run[of ex_dry_env ex_delete_ct_node "\<lambda>_. Inr []" ex_cmd Map.empty "[]"]
  by (simp add: ex_delete_ct_node_def ex_dry_env_def run_eval)

end
